theory Spec2Isabelle
  imports Main
begin

section \<open>Common types of the four contracts\<close>

text \<open>
  Solidity's \<open>address\<close> and \<open>uint256\<close> are modelled as natural numbers; \<open>address(0)\<close>
  is \<open>0\<close>. The contracts are compiled with Solidity 0.8, whose arithmetic reverts on
  overflow and underflow: every \<open>+\<close>, \<open>-\<close>, \<open>*\<close> and \<open>++\<close> of the source is written
  with its overflow test, and the test's failure is the error \<open>Panic_overflow\<close>.

  Every external function takes the state of its contract and the call's \<open>msg.sender\<close>
  and \<open>block.timestamp\<close>, and returns \<open>Inl\<close> of the revert reason (the state is then
  the one before the call) or \<open>Inr\<close> of the new state. The \<open>nonReentrant\<close> lock is free
  at the start of every transaction and is released at its end, so a top-level call never
  fails on it; it is not a field of the state. In the two transfers of \<open>releaseFunds\<close> the
  factory hands control to foreign code while it holds the lock; the calls that this code
  makes back into the factory are part of the model: those into the functions that take
  the lock revert, the others run. Gas is not modelled.
\<close>

type_synonym address = nat
type_synonym uint256 = nat

definition uint_max :: nat where
  "uint_max = 2 ^ 256 - 1"

datatype role = DEFAULT_ADMIN_ROLE | ADMIN_ROLE | MINTER_ROLE | REDEEMER_ROLE | VERIFIER_ROLE

text \<open>
  The revert reasons: \<open>Revert\<close> carries the message of a failed \<open>require\<close> or of a
  \<open>revert\<close> as the source writes it; the others are the custom errors of the inherited
  access-control, pause, reentrancy-guard and ERC-721 contracts and the arithmetic panic.
\<close>

datatype error =
    AccessControlUnauthorizedAccount address role
  | EnforcedPause
  | ExpectedPause
  | Panic_overflow
  | ERC721InvalidSender
  | ERC721InvalidReceiver address
  | ReentrancyGuardReentrantCall
  | Revert string

section \<open>SoulboundToken\<close>

datatype TokenStatus = Active | Redeemed | Expired | Revoked

record TokenMetadata =
  tokenId :: uint256
  beneficiary :: address
  campaignId :: uint256
  entitledAmount :: uint256
  serviceType :: string
  issuedAt :: uint256
  expiryDate :: uint256
  isRedeemed :: bool
  redeemedBy :: address
  redeemedAt :: uint256
  proofOfServiceHash :: string
  status :: TokenStatus

text \<open>
  The state of the token contract: its own storage, and of the inherited contracts the
  ERC-721 owner table (\<open>_ownerOf\<close>), the role table (\<open>hasRole\<close>) and the pause flag.
\<close>

record SoulboundToken =
  tokenIdCounter :: uint256
  tokenMetadata :: "uint256 \<Rightarrow> TokenMetadata"
  beneficiaryTokens :: "address \<Rightarrow> uint256 list"
  campaignTokens :: "uint256 \<Rightarrow> uint256 list"
  ownerOf :: "uint256 \<Rightarrow> address"
  hasRole :: "role \<Rightarrow> address \<Rightarrow> bool"
  paused :: bool

text \<open>The value of an unwritten mapping slot.\<close>

definition zero_metadata :: TokenMetadata where
  "zero_metadata = \<lparr> tokenId = 0, beneficiary = 0, campaignId = 0, entitledAmount = 0,
     serviceType = [], issuedAt = 0, expiryDate = 0, isRedeemed = False, redeemedBy = 0,
     redeemedAt = 0, proofOfServiceHash = [], status = Active \<rparr>"

text \<open>The constructor: the deployer holds the default-admin, admin and minter roles.\<close>

definition SoulboundToken_init :: "address \<Rightarrow> SoulboundToken" where
  "SoulboundToken_init deployer = \<lparr> tokenIdCounter = 0,
     tokenMetadata = (\<lambda>_. zero_metadata),
     beneficiaryTokens = (\<lambda>_. []),
     campaignTokens = (\<lambda>_. []),
     ownerOf = (\<lambda>_. 0),
     hasRole = (\<lambda>r a. a = deployer \<and> r \<in> {DEFAULT_ADMIN_ROLE, ADMIN_ROLE, MINTER_ROLE}),
     paused = False \<rparr>"

text \<open>
  \<open>mintToken\<close>. \<open>_safeMint\<close> is the library's: it rejects an id that already has an
  owner and then asks a beneficiary that is a contract whether it accepts the token;
  \<open>accepts\<close> is the answer (\<open>True\<close> for an externally owned account). The result is
  the new token id and the new state.
\<close>

definition mintToken ::
  "SoulboundToken \<Rightarrow> address \<Rightarrow> uint256 \<Rightarrow> bool \<Rightarrow> address \<Rightarrow> uint256 \<Rightarrow> uint256 \<Rightarrow> string
     \<Rightarrow> uint256 \<Rightarrow> error + (uint256 \<times> SoulboundToken)" where
  "mintToken s sender now accepts benef cid amount stype validityPeriod =
    (if \<not> hasRole s MINTER_ROLE sender then Inl (AccessControlUnauthorizedAccount sender MINTER_ROLE)
     else if paused s then Inl EnforcedPause
     else if benef = 0 then Inl (Revert ''Invalid beneficiary address'')
     else if \<not> 0 < amount then Inl (Revert ''Entitled amount must be greater than 0'')
     else if \<not> 0 < validityPeriod then Inl (Revert ''Validity period must be greater than 0'')
     else if uint_max < tokenIdCounter s + 1 then Inl Panic_overflow
     else if uint_max < now + validityPeriod then Inl Panic_overflow
     else if ownerOf s (tokenIdCounter s) \<noteq> 0 then Inl ERC721InvalidSender
     else if \<not> accepts then Inl (ERC721InvalidReceiver benef)
     else
       let tid = tokenIdCounter s in
       Inr (tid, s\<lparr> tokenIdCounter := tid + 1,
              ownerOf := (ownerOf s)(tid := benef),
              tokenMetadata := (tokenMetadata s)(tid :=
                \<lparr> tokenId = tid, beneficiary = benef, campaignId = cid,
                  entitledAmount = amount, serviceType = stype, issuedAt = now,
                  expiryDate = now + validityPeriod, isRedeemed = False, redeemedBy = 0,
                  redeemedAt = 0, proofOfServiceHash = [], status = Active \<rparr>),
              beneficiaryTokens := (beneficiaryTokens s)(benef := beneficiaryTokens s benef @ [tid]),
              campaignTokens := (campaignTokens s)(cid := campaignTokens s cid @ [tid]) \<rparr>))"

definition redeemToken ::
  "SoulboundToken \<Rightarrow> address \<Rightarrow> uint256 \<Rightarrow> uint256 \<Rightarrow> string \<Rightarrow> error + SoulboundToken" where
  "redeemToken s sender now tid proof =
    (let metadata = tokenMetadata s tid in
     if \<not> hasRole s REDEEMER_ROLE sender then Inl (AccessControlUnauthorizedAccount sender REDEEMER_ROLE)
     else if paused s then Inl EnforcedPause
     else if \<not> ownerOf s tid \<noteq> 0 then Inl (Revert ''Token does not exist'')
     else if \<not> status metadata = Active then Inl (Revert ''Token is not active'')
     else if isRedeemed metadata then Inl (Revert ''Token already redeemed'')
     else if \<not> now \<le> expiryDate metadata then Inl (Revert ''Token has expired'')
     else if \<not> 0 < length proof then Inl (Revert ''Proof of service required'')
     else Inr (s\<lparr> tokenMetadata := (tokenMetadata s)(tid :=
            metadata\<lparr> isRedeemed := True, redeemedBy := sender, redeemedAt := now,
              proofOfServiceHash := proof, status := Redeemed \<rparr>) \<rparr>))"

definition revokeToken ::
  "SoulboundToken \<Rightarrow> address \<Rightarrow> uint256 \<Rightarrow> string \<Rightarrow> error + SoulboundToken" where
  "revokeToken s sender tid reason =
    (let metadata = tokenMetadata s tid in
     if \<not> hasRole s ADMIN_ROLE sender then Inl (AccessControlUnauthorizedAccount sender ADMIN_ROLE)
     else if \<not> ownerOf s tid \<noteq> 0 then Inl (Revert ''Token does not exist'')
     else if \<not> status metadata = Active then Inl (Revert ''Token is not active'')
     else Inr (s\<lparr> tokenMetadata := (tokenMetadata s)(tid := metadata\<lparr> status := Revoked \<rparr>) \<rparr>))"

definition markExpired :: "SoulboundToken \<Rightarrow> uint256 \<Rightarrow> uint256 \<Rightarrow> error + SoulboundToken" where
  "markExpired s now tid =
    (let metadata = tokenMetadata s tid in
     if \<not> ownerOf s tid \<noteq> 0 then Inl (Revert ''Token does not exist'')
     else if \<not> status metadata = Active then Inl (Revert ''Token is not active'')
     else if \<not> expiryDate metadata < now then Inl (Revert ''Token has not expired yet'')
     else Inr (s\<lparr> tokenMetadata := (tokenMetadata s)(tid := metadata\<lparr> status := Expired \<rparr>) \<rparr>))"

definition isTokenRedeemable :: "SoulboundToken \<Rightarrow> uint256 \<Rightarrow> uint256 \<Rightarrow> bool" where
  "isTokenRedeemable s now tid =
    (let metadata = tokenMetadata s tid in
     ownerOf s tid \<noteq> 0 \<and> status metadata = Active \<and> \<not> isRedeemed metadata
       \<and> now \<le> expiryDate metadata)"

text \<open>
  The four overridden ERC-721 functions are \<open>pure\<close> and consist of one \<open>revert\<close>; they
  take \<open>msg.sender\<close> and the state only to show that they read neither. The library's
  three-argument \<open>safeTransferFrom\<close> calls the four-argument one overridden here.
\<close>

definition transferFrom ::
  "SoulboundToken \<Rightarrow> address \<Rightarrow> address \<Rightarrow> address \<Rightarrow> uint256 \<Rightarrow> error + SoulboundToken" where
  "transferFrom s sender from to tid = Inl (Revert ''Soulbound tokens cannot be transferred'')"

definition safeTransferFrom ::
  "SoulboundToken \<Rightarrow> address \<Rightarrow> address \<Rightarrow> address \<Rightarrow> uint256 \<Rightarrow> string
     \<Rightarrow> error + SoulboundToken" where
  "safeTransferFrom s sender from to tid data = Inl (Revert ''Soulbound tokens cannot be transferred'')"

definition approve ::
  "SoulboundToken \<Rightarrow> address \<Rightarrow> address \<Rightarrow> uint256 \<Rightarrow> error + SoulboundToken" where
  "approve s sender to tid = Inl (Revert ''Soulbound tokens cannot be approved'')"

definition setApprovalForAll ::
  "SoulboundToken \<Rightarrow> address \<Rightarrow> address \<Rightarrow> bool \<Rightarrow> error + SoulboundToken" where
  "setApprovalForAll s sender operator approved = Inl (Revert ''Soulbound tokens cannot be approved'')"

definition pause :: "SoulboundToken \<Rightarrow> address \<Rightarrow> error + SoulboundToken" where
  "pause s sender =
    (if \<not> hasRole s ADMIN_ROLE sender then Inl (AccessControlUnauthorizedAccount sender ADMIN_ROLE)
     else if paused s then Inl EnforcedPause
     else Inr (s\<lparr> paused := True \<rparr>))"

definition unpause :: "SoulboundToken \<Rightarrow> address \<Rightarrow> error + SoulboundToken" where
  "unpause s sender =
    (if \<not> hasRole s ADMIN_ROLE sender then Inl (AccessControlUnauthorizedAccount sender ADMIN_ROLE)
     else if \<not> paused s then Inl ExpectedPause
     else Inr (s\<lparr> paused := False \<rparr>))"

text \<open>
  One transaction on the token contract. Role administration (\<open>grantRole\<close>,
  \<open>revokeRole\<close>, \<open>renounceRole\<close> of the access-control library) is over-approximated by
  \<open>SetRoles\<close>, which installs any role table.
\<close>

datatype token_op =
    MintToken bool address uint256 uint256 string uint256
  | RedeemToken uint256 string
  | RevokeToken uint256 string
  | MarkExpired uint256
  | TransferFrom address address uint256
  | SafeTransferFrom address address uint256 string
  | Approve address uint256
  | SetApprovalForAll address bool
  | Pause
  | Unpause
  | SetRoles "role \<Rightarrow> address \<Rightarrow> bool"

fun token_call :: "SoulboundToken \<Rightarrow> address \<Rightarrow> uint256 \<Rightarrow> token_op \<Rightarrow> error + SoulboundToken" where
  "token_call s sender now (MintToken accepts benef cid amount stype vp) =
     (case mintToken s sender now accepts benef cid amount stype vp of
        Inl e \<Rightarrow> Inl e | Inr (tid, s') \<Rightarrow> Inr s')"
| "token_call s sender now (RedeemToken tid proof) = redeemToken s sender now tid proof"
| "token_call s sender now (RevokeToken tid reason) = revokeToken s sender tid reason"
| "token_call s sender now (MarkExpired tid) = markExpired s now tid"
| "token_call s sender now (TransferFrom from to tid) = transferFrom s sender from to tid"
| "token_call s sender now (SafeTransferFrom from to tid data) =
     safeTransferFrom s sender from to tid data"
| "token_call s sender now (Approve to tid) = approve s sender to tid"
| "token_call s sender now (SetApprovalForAll operator approved) =
     setApprovalForAll s sender operator approved"
| "token_call s sender now Pause = pause s sender"
| "token_call s sender now Unpause = unpause s sender"
| "token_call s sender now (SetRoles r) = Inr (s\<lparr> hasRole := r \<rparr>)"

text \<open>A reverted transaction leaves the state as it was.\<close>

definition token_step :: "SoulboundToken \<Rightarrow> address \<times> uint256 \<times> token_op \<Rightarrow> SoulboundToken" where
  "token_step s c = (case c of (sender, now, op) \<Rightarrow>
     (case token_call s sender now op of Inl e \<Rightarrow> s | Inr s' \<Rightarrow> s'))"

definition token_run :: "SoulboundToken \<Rightarrow> (address \<times> uint256 \<times> token_op) list \<Rightarrow> SoulboundToken" where
  "token_run s cs = foldl token_step s cs"

section \<open>NGOGovernance\<close>

definition VOTING_DURATION :: uint256 where
  "VOTING_DURATION = 7 * 24 * 60 * 60"

definition MIN_REPUTATION_TO_VOTE :: uint256 where
  "MIN_REPUTATION_TO_VOTE = 100"

definition VOTE_WEIGHT_BASE :: uint256 where
  "VOTE_WEIGHT_BASE = 100"

definition REPUTATION_CHANGE_PER_VOTE :: uint256 where
  "REPUTATION_CHANGE_PER_VOTE = 10"

datatype ProposalType = Verification | Challenge

datatype VoteType = Upvote | Downvote

record Vote =
  hasVoted :: bool
  voteType :: VoteType
  votingPower :: uint256
  reputationStake :: uint256

record Proposal =
  proposalId :: uint256
  p_ngoId :: uint256
  proposalType :: ProposalType
  proposer :: address
  p_description :: string
  evidenceHash :: string
  startTime :: uint256
  endTime :: uint256
  upvotes :: uint256
  downvotes :: uint256
  totalVotingPower :: uint256
  executed :: bool
  votes :: "address \<Rightarrow> Vote"

record UserReputation =
  score :: uint256
  totalProposals :: uint256
  successfulVerifications :: uint256
  successfulChallenges :: uint256
  lastActivity :: uint256

record NGOGovernance =
  proposals :: "uint256 \<Rightarrow> Proposal"
  userReputations :: "address \<Rightarrow> UserReputation"
  ngoVerificationProposals :: "uint256 \<Rightarrow> uint256"
  ngoChallenges :: "uint256 \<Rightarrow> uint256 list"
  proposalIdCounter :: uint256
  gov_hasRole :: "role \<Rightarrow> address \<Rightarrow> bool"

definition zero_vote :: Vote where
  "zero_vote = \<lparr> hasVoted = False, voteType = Upvote, votingPower = 0, reputationStake = 0 \<rparr>"

definition zero_proposal :: Proposal where
  "zero_proposal = \<lparr> proposalId = 0, p_ngoId = 0, proposalType = Verification, proposer = 0,
     p_description = [], evidenceHash = [], startTime = 0, endTime = 0, upvotes = 0,
     downvotes = 0, totalVotingPower = 0, executed = False, votes = (\<lambda>_. zero_vote) \<rparr>"

definition zero_reputation :: UserReputation where
  "zero_reputation = \<lparr> score = 0, totalProposals = 0, successfulVerifications = 0,
     successfulChallenges = 0, lastActivity = 0 \<rparr>"

text \<open>The constructor grants the deployer the default-admin role only.\<close>

definition NGOGovernance_init :: "address \<Rightarrow> NGOGovernance" where
  "NGOGovernance_init deployer = \<lparr> proposals = (\<lambda>_. zero_proposal),
     userReputations = (\<lambda>_. zero_reputation),
     ngoVerificationProposals = (\<lambda>_. 0),
     ngoChallenges = (\<lambda>_. []),
     proposalIdCounter = 0,
     gov_hasRole = (\<lambda>r a. a = deployer \<and> r = DEFAULT_ADMIN_ROLE) \<rparr>"

definition calculateVotingPower :: "NGOGovernance \<Rightarrow> address \<Rightarrow> error + uint256" where
  "calculateVotingPower g voter =
    (let rep = userReputations g voter in
     if uint_max < score rep * VOTE_WEIGHT_BASE then Inl Panic_overflow
     else Inr ((score rep * VOTE_WEIGHT_BASE) div 1000))"

text \<open>The internal \<open>_castVote\<close>.\<close>

definition castVote_internal ::
  "NGOGovernance \<Rightarrow> uint256 \<Rightarrow> uint256 \<Rightarrow> VoteType \<Rightarrow> address \<Rightarrow> error + NGOGovernance" where
  "castVote_internal g now pid vt voter =
    (let proposal = proposals g pid in
     if \<not> now \<le> endTime proposal then Inl (Revert ''Voting ended'')
     else if hasVoted (votes proposal voter) then Inl (Revert ''Already voted'')
     else case calculateVotingPower g voter of
       Inl e \<Rightarrow> Inl e
     | Inr vpower \<Rightarrow>
        let proposal1 = proposal\<lparr> votes := (votes proposal)(voter :=
              \<lparr> hasVoted = True, voteType = vt, votingPower = vpower,
                reputationStake = REPUTATION_CHANGE_PER_VOTE \<rparr>) \<rparr> in
        if vt = Upvote \<and> uint_max < upvotes proposal1 + vpower then Inl Panic_overflow
        else if vt \<noteq> Upvote \<and> uint_max < downvotes proposal1 + vpower then Inl Panic_overflow
        else
          let proposal2 = (if vt = Upvote then proposal1\<lparr> upvotes := upvotes proposal1 + vpower \<rparr>
                           else proposal1\<lparr> downvotes := downvotes proposal1 + vpower \<rparr>) in
          if uint_max < totalVotingPower proposal2 + vpower then Inl Panic_overflow
          else Inr (g\<lparr> proposals := (proposals g)(pid :=
                 proposal2\<lparr> totalVotingPower := totalVotingPower proposal2 + vpower \<rparr>) \<rparr>))"

definition castVote ::
  "NGOGovernance \<Rightarrow> address \<Rightarrow> uint256 \<Rightarrow> uint256 \<Rightarrow> VoteType \<Rightarrow> error + NGOGovernance" where
  "castVote g sender now pid vt =
    (if \<not> MIN_REPUTATION_TO_VOTE \<le> score (userReputations g sender)
     then Inl (Revert ''Insufficient reputation'')
     else castVote_internal g now pid vt sender)"

definition createVerificationProposal ::
  "NGOGovernance \<Rightarrow> address \<Rightarrow> uint256 \<Rightarrow> uint256 \<Rightarrow> string \<Rightarrow> string
     \<Rightarrow> error + (uint256 \<times> NGOGovernance)" where
  "createVerificationProposal g sender now ngo descr evidence =
    (if \<not> ngoVerificationProposals g ngo = 0 then Inl (Revert ''Proposal already exists'')
     else if \<not> MIN_REPUTATION_TO_VOTE \<le> score (userReputations g sender)
     then Inl (Revert ''Insufficient reputation'')
     else if uint_max < proposalIdCounter g + 1 then Inl Panic_overflow
     else if uint_max < now + VOTING_DURATION then Inl Panic_overflow
     else
       let pid = proposalIdCounter g + 1;
           g1 = g\<lparr> proposalIdCounter := pid,
                  proposals := (proposals g)(pid := (proposals g pid)
                    \<lparr> proposalId := pid, p_ngoId := ngo, proposalType := Verification,
                      proposer := sender, p_description := descr, evidenceHash := evidence,
                      startTime := now, endTime := now + VOTING_DURATION \<rparr>),
                  ngoVerificationProposals := (ngoVerificationProposals g)(ngo := pid) \<rparr>
       in case castVote_internal g1 now pid Upvote sender of
            Inl e \<Rightarrow> Inl e
          | Inr g2 \<Rightarrow> Inr (pid, g2))"

definition challengeNGO ::
  "NGOGovernance \<Rightarrow> address \<Rightarrow> uint256 \<Rightarrow> uint256 \<Rightarrow> string \<Rightarrow> string
     \<Rightarrow> error + (uint256 \<times> NGOGovernance)" where
  "challengeNGO g sender now ngo descr evidence =
    (if \<not> MIN_REPUTATION_TO_VOTE \<le> score (userReputations g sender)
     then Inl (Revert ''Insufficient reputation'')
     else if uint_max < proposalIdCounter g + 1 then Inl Panic_overflow
     else if uint_max < now + VOTING_DURATION then Inl Panic_overflow
     else
       let pid = proposalIdCounter g + 1;
           g1 = g\<lparr> proposalIdCounter := pid,
                  proposals := (proposals g)(pid := (proposals g pid)
                    \<lparr> proposalId := pid, p_ngoId := ngo, proposalType := Challenge,
                      proposer := sender, p_description := descr, evidenceHash := evidence,
                      startTime := now, endTime := now + VOTING_DURATION \<rparr>),
                  ngoChallenges := (ngoChallenges g)(ngo := ngoChallenges g ngo @ [pid]) \<rparr>
       in case castVote_internal g1 now pid Downvote sender of
            Inl e \<Rightarrow> Inl e
          | Inr g2 \<Rightarrow> Inr (pid, g2))"

text \<open>
  The loop of \<open>_updateReputationForSuccess\<close> over \<open>i < proposal.totalVotingPower\<close>; its
  body is empty.
\<close>

function voters_loop :: "uint256 \<Rightarrow> uint256 \<Rightarrow> NGOGovernance \<Rightarrow> NGOGovernance" where
  "voters_loop i n g = (if i < n then voters_loop (i + 1) n g else g)"
  by pat_completeness auto
termination
  by (relation "measure (\<lambda>(i, n, g). n - i)") auto

definition updateReputationForSuccess ::
  "NGOGovernance \<Rightarrow> uint256 \<Rightarrow> bool \<Rightarrow> error + NGOGovernance" where
  "updateReputationForSuccess g pid isVerification =
    (let proposal = proposals g pid;
         who = proposer proposal;
         rep = userReputations g who in
     if uint_max < score rep + REPUTATION_CHANGE_PER_VOTE * 2 then Inl Panic_overflow
     else if uint_max < successfulVerifications rep + (if isVerification then 1 else 0)
     then Inl Panic_overflow
     else if uint_max < successfulChallenges rep + (if isVerification then 0 else 1)
     then Inl Panic_overflow
     else Inr (voters_loop 0 (totalVotingPower proposal)
       (g\<lparr> userReputations := (userReputations g)(who :=
            rep\<lparr> score := score rep + REPUTATION_CHANGE_PER_VOTE * 2,
                 successfulVerifications :=
                   successfulVerifications rep + (if isVerification then 1 else 0),
                 successfulChallenges :=
                   successfulChallenges rep + (if isVerification then 0 else 1) \<rparr>) \<rparr>)))"

definition updateReputationForFailure :: "NGOGovernance \<Rightarrow> uint256 \<Rightarrow> NGOGovernance" where
  "updateReputationForFailure g pid =
    (let proposal = proposals g pid;
         who = proposer proposal;
         rep = userReputations g who in
     if REPUTATION_CHANGE_PER_VOTE < score rep
     then g\<lparr> userReputations := (userReputations g)(who :=
            rep\<lparr> score := score rep - REPUTATION_CHANGE_PER_VOTE \<rparr>) \<rparr>
     else g)"

text \<open>\<open>executeProposal\<close> has no access modifier; \<open>sender\<close> is not read.\<close>

definition executeProposal ::
  "NGOGovernance \<Rightarrow> address \<Rightarrow> uint256 \<Rightarrow> uint256 \<Rightarrow> error + NGOGovernance" where
  "executeProposal g sender now pid =
    (let proposal = proposals g pid in
     if \<not> endTime proposal < now then Inl (Revert ''Voting not ended'')
     else if executed proposal then Inl (Revert ''Already executed'')
     else
       let g1 = g\<lparr> proposals := (proposals g)(pid := proposal\<lparr> executed := True \<rparr>) \<rparr>;
           passed = (downvotes proposal < upvotes proposal) in
       if passed then
         (if proposalType proposal = Verification then updateReputationForSuccess g1 pid True
          else updateReputationForSuccess g1 pid False)
       else Inr (updateReputationForFailure g1 pid))"

definition initializeReputation ::
  "NGOGovernance \<Rightarrow> address \<Rightarrow> uint256 \<Rightarrow> address \<Rightarrow> error + NGOGovernance" where
  "initializeReputation g sender now user =
    (if \<not> gov_hasRole g ADMIN_ROLE sender
     then Inl (AccessControlUnauthorizedAccount sender ADMIN_ROLE)
     else if \<not> score (userReputations g user) = 0
     then Inl (Revert ''Reputation already initialized'')
     else Inr (g\<lparr> userReputations := (userReputations g)(user :=
            \<lparr> score = 500, totalProposals = 0, successfulVerifications = 0,
              successfulChallenges = 0, lastActivity = now \<rparr>) \<rparr>))"

definition updateNgoRegistry :: "NGOGovernance \<Rightarrow> address \<Rightarrow> address \<Rightarrow> error + NGOGovernance" where
  "updateNgoRegistry g sender registry =
    (if \<not> gov_hasRole g ADMIN_ROLE sender
     then Inl (AccessControlUnauthorizedAccount sender ADMIN_ROLE)
     else if \<not> registry \<noteq> 0 then Inl (Revert ''Invalid NGO registry address'')
     else Inr g)"

text \<open>
  The getter that Solidity generates for the public mapping \<open>userReputations\<close> returns
  the fields of the struct in the order of their declaration.
\<close>

definition userReputations_getter ::
  "NGOGovernance \<Rightarrow> address \<Rightarrow> uint256 \<times> uint256 \<times> uint256 \<times> uint256 \<times> uint256" where
  "userReputations_getter g a =
    (let rep = userReputations g a in
     (score rep, totalProposals rep, successfulVerifications rep, successfulChallenges rep,
      lastActivity rep))"

definition canVote :: "NGOGovernance \<Rightarrow> uint256 \<Rightarrow> address \<Rightarrow> uint256 \<Rightarrow> bool" where
  "canVote g now user pid =
    (if score (userReputations g user) < MIN_REPUTATION_TO_VOTE then False
     else if executed (proposals g pid) then False
     else if endTime (proposals g pid) < now then False
     else if hasVoted (votes (proposals g pid) user) then False
     else True)"

text \<open>One transaction on the governance contract; \<open>GovSetRoles\<close> stands for role administration.\<close>

datatype gov_op =
    CreateVerificationProposal uint256 string string
  | ChallengeNGO uint256 string string
  | CastVote uint256 VoteType
  | ExecuteProposal uint256
  | InitializeReputation address
  | UpdateNgoRegistry address
  | GovSetRoles "role \<Rightarrow> address \<Rightarrow> bool"

fun gov_call :: "NGOGovernance \<Rightarrow> address \<Rightarrow> uint256 \<Rightarrow> gov_op \<Rightarrow> error + NGOGovernance" where
  "gov_call g sender now (CreateVerificationProposal ngo descr evidence) =
     (case createVerificationProposal g sender now ngo descr evidence of
        Inl e \<Rightarrow> Inl e | Inr (pid, g') \<Rightarrow> Inr g')"
| "gov_call g sender now (ChallengeNGO ngo descr evidence) =
     (case challengeNGO g sender now ngo descr evidence of
        Inl e \<Rightarrow> Inl e | Inr (pid, g') \<Rightarrow> Inr g')"
| "gov_call g sender now (CastVote pid vt) = castVote g sender now pid vt"
| "gov_call g sender now (ExecuteProposal pid) = executeProposal g sender now pid"
| "gov_call g sender now (InitializeReputation user) = initializeReputation g sender now user"
| "gov_call g sender now (UpdateNgoRegistry registry) = updateNgoRegistry g sender registry"
| "gov_call g sender now (GovSetRoles r) = Inr (g\<lparr> gov_hasRole := r \<rparr>)"

definition gov_step :: "NGOGovernance \<Rightarrow> address \<times> uint256 \<times> gov_op \<Rightarrow> NGOGovernance" where
  "gov_step g c = (case c of (sender, now, op) \<Rightarrow>
     (case gov_call g sender now op of Inl e \<Rightarrow> g | Inr g' \<Rightarrow> g'))"

definition gov_run :: "NGOGovernance \<Rightarrow> (address \<times> uint256 \<times> gov_op) list \<Rightarrow> NGOGovernance" where
  "gov_run g cs = foldl gov_step g cs"

section \<open>NGORegistry\<close>

datatype NGOStatus = Pending | Verified | Rejected | Suspended | Blacklisted

record NGO =
  ngoId :: uint256
  ngoAddress :: address
  name :: string
  registrationNumber :: string
  country :: string
  category :: string
  kycDocumentHash :: string
  registeredAt :: uint256
  verifiedAt :: uint256
  ngo_status :: NGOStatus
  reputationScore :: uint256
  totalCampaigns :: uint256
  totalFundsRaised :: uint256
  ngo_totalBeneficiaries :: uint256
  isActive :: bool

text \<open>
  The registry reads the governance contract through its reference \<open>governance\<close>; the
  functions that do so take the state of that contract as an argument.
\<close>

record NGORegistry =
  ngoIdCounter :: uint256
  addressToNgoId :: "address \<Rightarrow> uint256"
  ngos :: "uint256 \<Rightarrow> NGO"
  ngoActivityLogs :: "uint256 \<Rightarrow> string list"
  verifiedCount :: uint256
  adminVerificationFrozen :: bool
  reg_hasRole :: "role \<Rightarrow> address \<Rightarrow> bool"
  reg_paused :: bool

definition zero_ngo :: NGO where
  "zero_ngo = \<lparr> ngoId = 0, ngoAddress = 0, name = [], registrationNumber = [], country = [],
     category = [], kycDocumentHash = [], registeredAt = 0, verifiedAt = 0,
     ngo_status = Pending, reputationScore = 0, totalCampaigns = 0, totalFundsRaised = 0,
     ngo_totalBeneficiaries = 0, isActive = False \<rparr>"

definition NGORegistry_init :: "address \<Rightarrow> NGORegistry" where
  "NGORegistry_init deployer = \<lparr> ngoIdCounter = 0,
     addressToNgoId = (\<lambda>_. 0),
     ngos = (\<lambda>_. zero_ngo),
     ngoActivityLogs = (\<lambda>_. []),
     verifiedCount = 0,
     adminVerificationFrozen = False,
     reg_hasRole = (\<lambda>r a. a = deployer \<and> r \<in> {DEFAULT_ADMIN_ROLE, ADMIN_ROLE, VERIFIER_ROLE}),
     reg_paused = False \<rparr>"

text \<open>
  \<open>logActivity\<close> is public and is also called by the other functions of the registry;
  in such an internal call \<open>msg.sender\<close> is still the caller of the outer function.
\<close>

definition logActivity :: "NGORegistry \<Rightarrow> address \<Rightarrow> uint256 \<Rightarrow> string \<Rightarrow> error + NGORegistry" where
  "logActivity r sender nid activity =
    (if \<not> (reg_hasRole r ADMIN_ROLE sender \<or> reg_hasRole r VERIFIER_ROLE sender
            \<or> ngoAddress (ngos r nid) = sender)
     then Inl (Revert ''Not authorized'')
     else if \<not> ngoId (ngos r nid) \<noteq> 0 then Inl (Revert ''NGO does not exist'')
     else Inr (r\<lparr> ngoActivityLogs := (ngoActivityLogs r)(nid := ngoActivityLogs r nid @ [activity]) \<rparr>))"

definition registerNGO ::
  "NGORegistry \<Rightarrow> address \<Rightarrow> uint256 \<Rightarrow> address \<Rightarrow> string \<Rightarrow> string \<Rightarrow> string \<Rightarrow> string \<Rightarrow> string
     \<Rightarrow> error + (uint256 \<times> NGORegistry)" where
  "registerNGO r sender now addr nm regNo ctry cat kyc =
    (if reg_paused r then Inl EnforcedPause
     else if \<not> addr \<noteq> 0 then Inl (Revert ''Invalid NGO address'')
     else if \<not> addressToNgoId r addr = 0 then Inl (Revert ''NGO already registered'')
     else if \<not> 0 < length nm then Inl (Revert ''Name cannot be empty'')
     else if \<not> 0 < length regNo then Inl (Revert ''Registration number required'')
     else if uint_max < ngoIdCounter r + 1 then Inl Panic_overflow
     else
       let nid = ngoIdCounter r + 1;
           r1 = r\<lparr> ngoIdCounter := nid,
                  ngos := (ngos r)(nid :=
                    \<lparr> ngoId = nid, ngoAddress = addr, name = nm, registrationNumber = regNo,
                      country = ctry, category = cat, kycDocumentHash = kyc,
                      registeredAt = now, verifiedAt = 0, ngo_status = Pending,
                      reputationScore = 500, totalCampaigns = 0, totalFundsRaised = 0,
                      ngo_totalBeneficiaries = 0, isActive = True \<rparr>),
                  addressToNgoId := (addressToNgoId r)(addr := nid) \<rparr>
       in case logActivity r1 sender nid ''NGO registered'' of
            Inl e \<Rightarrow> Inl e
          | Inr r2 \<Rightarrow> Inr (nid, r2))"

definition verifyNGO :: "NGORegistry \<Rightarrow> address \<Rightarrow> uint256 \<Rightarrow> uint256 \<Rightarrow> error + NGORegistry" where
  "verifyNGO r sender now nid =
    (let ngo = ngos r nid in
     if \<not> reg_hasRole r VERIFIER_ROLE sender
     then Inl (AccessControlUnauthorizedAccount sender VERIFIER_ROLE)
     else if \<not> ngoId ngo \<noteq> 0 then Inl (Revert ''NGO does not exist'')
     else if \<not> ngo_status ngo = Pending then Inl (Revert ''NGO is not pending verification'')
     else if adminVerificationFrozen r then Inl (Revert ''Admin verification is frozen'')
     else if uint_max < verifiedCount r + 1 then Inl Panic_overflow
     else logActivity
       (r\<lparr> ngos := (ngos r)(nid := ngo\<lparr> ngo_status := Verified, verifiedAt := now \<rparr>),
            verifiedCount := verifiedCount r + 1 \<rparr>)
       sender nid ''NGO verified by verifier'')"

definition verifyNGOThroughGovernance ::
  "NGORegistry \<Rightarrow> NGOGovernance \<Rightarrow> address \<Rightarrow> uint256 \<Rightarrow> uint256 \<Rightarrow> error + NGORegistry" where
  "verifyNGOThroughGovernance r g sender now nid =
    (let ngo = ngos r nid in
     if \<not> ngoId ngo \<noteq> 0 then Inl (Revert ''NGO does not exist'')
     else if \<not> ngo_status ngo = Pending then Inl (Revert ''NGO is not pending verification'')
     else case userReputations_getter g sender of (reputation, _, _, _, _) \<Rightarrow>
       if adminVerificationFrozen r \<and> \<not> 100 \<le> reputation
       then Inl (Revert ''Governance-only: insufficient reputation'')
       else if \<not> adminVerificationFrozen r
               \<and> \<not> (reg_hasRole r VERIFIER_ROLE sender \<or> 100 \<le> reputation)
       then Inl (Revert ''Not authorized'')
       else if uint_max < verifiedCount r + 1 then Inl Panic_overflow
       else logActivity
         (r\<lparr> ngos := (ngos r)(nid := ngo\<lparr> ngo_status := Verified, verifiedAt := now \<rparr>),
              verifiedCount := verifiedCount r + 1 \<rparr>)
         sender nid ''NGO verified through governance'')"

definition suspendNGO :: "NGORegistry \<Rightarrow> address \<Rightarrow> uint256 \<Rightarrow> string \<Rightarrow> error + NGORegistry" where
  "suspendNGO r sender nid reason =
    (let ngo = ngos r nid in
     if \<not> reg_hasRole r ADMIN_ROLE sender
     then Inl (AccessControlUnauthorizedAccount sender ADMIN_ROLE)
     else if \<not> ngoId ngo \<noteq> 0 then Inl (Revert ''NGO does not exist'')
     else if \<not> ngo_status ngo = Verified then Inl (Revert ''Only verified NGOs can be suspended'')
     else logActivity
       (r\<lparr> ngos := (ngos r)(nid := ngo\<lparr> ngo_status := Suspended, isActive := False \<rparr>) \<rparr>)
       sender nid (''NGO suspended: '' @ reason))"

text \<open>
  \<open>suspendNGOThroughGovernance\<close>. The source binds its local \<open>reputationScore\<close> with
  \<open>(, uint256 reputationScore, , , ) = governance.userReputations(msg.sender)\<close>, that is
  to the second component of the getter's result.
\<close>

definition suspendNGOThroughGovernance ::
  "NGORegistry \<Rightarrow> NGOGovernance \<Rightarrow> address \<Rightarrow> uint256 \<Rightarrow> string \<Rightarrow> error + NGORegistry" where
  "suspendNGOThroughGovernance r g sender nid reason =
    (let ngo = ngos r nid in
     if \<not> ngoId ngo \<noteq> 0 then Inl (Revert ''NGO does not exist'')
     else if \<not> ngo_status ngo = Verified then Inl (Revert ''Only verified NGOs can be suspended'')
     else case userReputations_getter g sender of (_, reputation, _, _, _) \<Rightarrow>
       if \<not> 200 \<le> reputation then Inl (Revert ''Insufficient reputation'')
       else logActivity
         (r\<lparr> ngos := (ngos r)(nid := ngo\<lparr> ngo_status := Suspended, isActive := False \<rparr>) \<rparr>)
         sender nid (''NGO suspended through governance: '' @ reason))"

definition isNGOVerified :: "NGORegistry \<Rightarrow> address \<Rightarrow> bool" where
  "isNGOVerified r addr =
    (let nid = addressToNgoId r addr in
     if nid = 0 then False
     else ngo_status (ngos r nid) = Verified \<and> isActive (ngos r nid))"

section \<open>CampaignFactory\<close>

datatype CampaignStatus = Draft | CActive | CPaused | CCompleted | Cancelled

datatype MilestoneStatus = MPending | MInProgress | MCompleted | MFailed

record Milestone =
  m_description :: string
  m_targetAmount :: uint256
  deadline :: uint256
  m_status :: MilestoneStatus
  proofHash :: string
  completedAt :: uint256

record Campaign =
  c_campaignId :: uint256
  c_ngoAddress :: address
  c_ngoId :: uint256
  title :: string
  c_description :: string
  c_category :: string
  targetAmount :: uint256
  raisedAmount :: uint256
  startDate :: uint256
  endDate :: uint256
  c_status :: CampaignStatus
  totalDonors :: uint256
  totalBeneficiaries :: uint256
  documentsHash :: string
  hasMilestones :: bool
  createdAt :: uint256

text \<open>
  The state of the factory: its storage, the role table and pause flag it inherits, its
  own address \<open>self\<close> (the \<open>msg.sender\<close> of the calls it makes) and its ether balance.
\<close>

record CampaignFactory =
  campaignIdCounter :: uint256
  campaigns :: "uint256 \<Rightarrow> Campaign"
  campaignMilestones :: "uint256 \<Rightarrow> Milestone list"
  campaignDonors :: "uint256 \<Rightarrow> address list"
  campaignDonations :: "uint256 \<Rightarrow> address \<Rightarrow> uint256"
  campaignFunds :: "uint256 \<Rightarrow> uint256"
  platformFeePercentage :: uint256
  feeCollector :: address
  cf_hasRole :: "role \<Rightarrow> address \<Rightarrow> bool"
  cf_paused :: bool
  self :: address
  balance :: uint256

definition zero_campaign :: Campaign where
  "zero_campaign = \<lparr> c_campaignId = 0, c_ngoAddress = 0, c_ngoId = 0, title = [],
     c_description = [], c_category = [], targetAmount = 0, raisedAmount = 0, startDate = 0,
     endDate = 0, c_status = Draft, totalDonors = 0, totalBeneficiaries = 0,
     documentsHash = [], hasMilestones = False, createdAt = 0 \<rparr>"

definition CampaignFactory_init :: "address \<Rightarrow> address \<Rightarrow> address \<Rightarrow> CampaignFactory" where
  "CampaignFactory_init deployer this collector = \<lparr> campaignIdCounter = 0,
     campaigns = (\<lambda>_. zero_campaign),
     campaignMilestones = (\<lambda>_. []),
     campaignDonors = (\<lambda>_. []),
     campaignDonations = (\<lambda>_ _. 0),
     campaignFunds = (\<lambda>_. 0),
     platformFeePercentage = 250,
     feeCollector = collector,
     cf_hasRole = (\<lambda>r a. a = deployer \<and> r \<in> {DEFAULT_ADMIN_ROLE, ADMIN_ROLE}),
     cf_paused = False,
     self = this,
     balance = 0 \<rparr>"

definition createCampaign ::
  "CampaignFactory \<Rightarrow> NGORegistry \<Rightarrow> address \<Rightarrow> uint256 \<Rightarrow> string \<Rightarrow> string \<Rightarrow> string \<Rightarrow> uint256
     \<Rightarrow> uint256 \<Rightarrow> string \<Rightarrow> error + (uint256 \<times> CampaignFactory)" where
  "createCampaign f r sender now ttl descr cat target duration docs =
    (if cf_paused f then Inl EnforcedPause
     else if \<not> isNGOVerified r sender then Inl (Revert ''Only verified NGOs can create campaigns'')
     else if \<not> 0 < target then Inl (Revert ''Target amount must be greater than 0'')
     else if \<not> 0 < duration then Inl (Revert ''Duration must be greater than 0'')
     else if uint_max < campaignIdCounter f + 1 then Inl Panic_overflow
     else if uint_max < now + duration then Inl Panic_overflow
     else
       let cid = campaignIdCounter f + 1 in
       Inr (cid, f\<lparr> campaignIdCounter := cid,
              campaigns := (campaigns f)(cid :=
                \<lparr> c_campaignId = cid, c_ngoAddress = sender, c_ngoId = addressToNgoId r sender,
                  title = ttl, c_description = descr, c_category = cat, targetAmount = target,
                  raisedAmount = 0, startDate = now, endDate = now + duration,
                  c_status = CActive, totalDonors = 0, totalBeneficiaries = 0,
                  documentsHash = docs, hasMilestones = False, createdAt = now \<rparr>) \<rparr>))"

definition addMilestone ::
  "CampaignFactory \<Rightarrow> address \<Rightarrow> uint256 \<Rightarrow> string \<Rightarrow> uint256 \<Rightarrow> uint256 \<Rightarrow> error + CampaignFactory" where
  "addMilestone f sender cid descr target dl =
    (let campaign = campaigns f cid in
     if \<not> c_campaignId campaign \<noteq> 0 then Inl (Revert ''Campaign does not exist'')
     else if \<not> c_ngoAddress campaign = sender
     then Inl (Revert ''Only campaign creator can add milestones'')
     else if \<not> (c_status campaign = Draft \<or> c_status campaign = CActive)
     then Inl (Revert ''Cannot modify campaign'')
     else Inr (f\<lparr> campaignMilestones := (campaignMilestones f)(cid := campaignMilestones f cid @
              [\<lparr> m_description = descr, m_targetAmount = target, deadline = dl,
                 m_status = MPending, proofHash = [], completedAt = 0 \<rparr>]),
            campaigns := (campaigns f)(cid := campaign\<lparr> hasMilestones := True \<rparr>) \<rparr>))"

text \<open>\<open>donate\<close> is payable: \<open>v\<close> is \<open>msg.value\<close>, which the call adds to the balance.\<close>

definition donate ::
  "CampaignFactory \<Rightarrow> address \<Rightarrow> uint256 \<Rightarrow> uint256 \<Rightarrow> uint256 \<Rightarrow> error + CampaignFactory" where
  "donate f sender now v cid =
    (let campaign = campaigns f cid in
     if cf_paused f then Inl EnforcedPause
     else if \<not> c_campaignId campaign \<noteq> 0 then Inl (Revert ''Campaign does not exist'')
     else if \<not> c_status campaign = CActive then Inl (Revert ''Campaign is not active'')
     else if \<not> now \<le> endDate campaign then Inl (Revert ''Campaign has ended'')
     else if \<not> 0 < v then Inl (Revert ''Donation amount must be greater than 0'')
     else if campaignDonations f cid sender = 0 \<and> uint_max < totalDonors campaign + 1
     then Inl Panic_overflow
     else if uint_max < campaignDonations f cid sender + v then Inl Panic_overflow
     else if uint_max < raisedAmount campaign + v then Inl Panic_overflow
     else if uint_max < campaignFunds f cid + v then Inl Panic_overflow
     else
       let first = (campaignDonations f cid sender = 0);
           campaign1 = (if first then campaign\<lparr> totalDonors := totalDonors campaign + 1 \<rparr>
                        else campaign);
           campaign2 = campaign1\<lparr> raisedAmount := raisedAmount campaign1 + v \<rparr>;
           campaign3 = (if targetAmount campaign2 \<le> raisedAmount campaign2
                        then campaign2\<lparr> c_status := CCompleted \<rparr> else campaign2)
       in Inr (f\<lparr> campaignDonors := (if first
                    then (campaignDonors f)(cid := campaignDonors f cid @ [sender])
                    else campaignDonors f),
                 campaignDonations := (campaignDonations f)(cid :=
                   (campaignDonations f cid)(sender := campaignDonations f cid sender + v)),
                 campaignFunds := (campaignFunds f)(cid := campaignFunds f cid + v),
                 campaigns := (campaigns f)(cid := campaign3),
                 balance := balance f + v \<rparr>))"

text \<open>
  \<open>issueBeneficiaryToken\<close> calls \<open>mintToken\<close> of the token contract with the factory as
  \<open>msg.sender\<close>; a revert of that call reverts the whole transaction. The result is the
  token id and the new states of both contracts.
\<close>

definition issueBeneficiaryToken ::
  "CampaignFactory \<Rightarrow> SoulboundToken \<Rightarrow> address \<Rightarrow> uint256 \<Rightarrow> bool \<Rightarrow> uint256 \<Rightarrow> address \<Rightarrow> uint256
     \<Rightarrow> string \<Rightarrow> uint256 \<Rightarrow> error + (uint256 \<times> CampaignFactory \<times> SoulboundToken)" where
  "issueBeneficiaryToken f t sender now accepts cid benef amount stype validityPeriod =
    (let campaign = campaigns f cid in
     if \<not> c_campaignId campaign \<noteq> 0 then Inl (Revert ''Campaign does not exist'')
     else if \<not> c_ngoAddress campaign = sender
     then Inl (Revert ''Only campaign creator can issue tokens'')
     else if \<not> c_status campaign = CActive then Inl (Revert ''Campaign must be active'')
     else if \<not> amount \<le> campaignFunds f cid then Inl (Revert ''Insufficient campaign funds'')
     else if \<not> 0 < amount then Inl (Revert ''Entitled amount must be greater than 0'')
     else if \<not> 0 < validityPeriod then Inl (Revert ''Validity period must be greater than 0'')
     else case mintToken t (self f) now accepts benef cid amount stype validityPeriod of
       Inl e \<Rightarrow> Inl e
     | Inr (tid, t') \<Rightarrow>
        if uint_max < totalBeneficiaries campaign + 1 then Inl Panic_overflow
        else if campaignFunds f cid < amount then Inl Panic_overflow
        else Inr (tid,
          f\<lparr> campaigns := (campaigns f)(cid :=
                campaign\<lparr> totalBeneficiaries := totalBeneficiaries campaign + 1 \<rparr>),
             campaignFunds := (campaignFunds f)(cid := campaignFunds f cid - amount) \<rparr>,
          t'))"

definition completeMilestone ::
  "CampaignFactory \<Rightarrow> address \<Rightarrow> uint256 \<Rightarrow> uint256 \<Rightarrow> uint256 \<Rightarrow> string \<Rightarrow> error + CampaignFactory" where
  "completeMilestone f sender now cid idx prf =
    (let campaign = campaigns f cid in
     if \<not> c_campaignId campaign \<noteq> 0 then Inl (Revert ''Campaign does not exist'')
     else if \<not> c_ngoAddress campaign = sender
     then Inl (Revert ''Only campaign creator can complete milestones'')
     else if \<not> idx < length (campaignMilestones f cid) then Inl (Revert ''Invalid milestone index'')
     else
       let milestone = campaignMilestones f cid ! idx in
       if \<not> (m_status milestone = MPending \<or> m_status milestone = MInProgress)
       then Inl (Revert ''Milestone cannot be completed'')
       else Inr (f\<lparr> campaignMilestones := (campaignMilestones f)(cid :=
              (campaignMilestones f cid)[idx :=
                 milestone\<lparr> m_status := MCompleted, proofHash := prf, completedAt := now \<rparr>]) \<rparr>))"

definition updateCampaignStatus :: "CampaignFactory \<Rightarrow> uint256 \<Rightarrow> CampaignStatus \<Rightarrow> CampaignFactory" where
  "updateCampaignStatus f cid newStatus =
     f\<lparr> campaigns := (campaigns f)(cid := (campaigns f cid)\<lparr> c_status := newStatus \<rparr>) \<rparr>"

definition pauseCampaign :: "CampaignFactory \<Rightarrow> address \<Rightarrow> uint256 \<Rightarrow> error + CampaignFactory" where
  "pauseCampaign f sender cid =
    (let campaign = campaigns f cid in
     if \<not> c_campaignId campaign \<noteq> 0 then Inl (Revert ''Campaign does not exist'')
     else if \<not> (c_ngoAddress campaign = sender \<or> cf_hasRole f ADMIN_ROLE sender)
     then Inl (Revert ''Not authorized'')
     else if \<not> c_status campaign = CActive then Inl (Revert ''Campaign is not active'')
     else Inr (updateCampaignStatus f cid CPaused))"

definition resumeCampaign :: "CampaignFactory \<Rightarrow> address \<Rightarrow> uint256 \<Rightarrow> error + CampaignFactory" where
  "resumeCampaign f sender cid =
    (let campaign = campaigns f cid in
     if \<not> c_campaignId campaign \<noteq> 0 then Inl (Revert ''Campaign does not exist'')
     else if \<not> (c_ngoAddress campaign = sender \<or> cf_hasRole f ADMIN_ROLE sender)
     then Inl (Revert ''Not authorized'')
     else if \<not> c_status campaign = CPaused then Inl (Revert ''Campaign is not paused'')
     else Inr (updateCampaignStatus f cid CActive))"

definition updatePlatformFee :: "CampaignFactory \<Rightarrow> address \<Rightarrow> uint256 \<Rightarrow> error + CampaignFactory" where
  "updatePlatformFee f sender newFee =
    (if \<not> cf_hasRole f ADMIN_ROLE sender
     then Inl (AccessControlUnauthorizedAccount sender ADMIN_ROLE)
     else if \<not> newFee \<le> 1000 then Inl (Revert ''Fee cannot exceed 10%'')
     else Inr (f\<lparr> platformFeePercentage := newFee \<rparr>))"

definition updateFeeCollector :: "CampaignFactory \<Rightarrow> address \<Rightarrow> address \<Rightarrow> error + CampaignFactory" where
  "updateFeeCollector f sender newCollector =
    (if \<not> cf_hasRole f ADMIN_ROLE sender
     then Inl (AccessControlUnauthorizedAccount sender ADMIN_ROLE)
     else if \<not> newCollector \<noteq> 0 then Inl (Revert ''Invalid address'')
     else Inr (f\<lparr> feeCollector := newCollector \<rparr>))"

definition cf_pause :: "CampaignFactory \<Rightarrow> address \<Rightarrow> error + CampaignFactory" where
  "cf_pause f sender =
    (if \<not> cf_hasRole f ADMIN_ROLE sender
     then Inl (AccessControlUnauthorizedAccount sender ADMIN_ROLE)
     else if cf_paused f then Inl EnforcedPause
     else Inr (f\<lparr> cf_paused := True \<rparr>))"

definition cf_unpause :: "CampaignFactory \<Rightarrow> address \<Rightarrow> error + CampaignFactory" where
  "cf_unpause f sender =
    (if \<not> cf_hasRole f ADMIN_ROLE sender
     then Inl (AccessControlUnauthorizedAccount sender ADMIN_ROLE)
     else if \<not> cf_paused f then Inl ExpectedPause
     else Inr (f\<lparr> cf_paused := False \<rparr>))"

text \<open>The \<open>receive\<close> function accepts plain ether.\<close>

definition receive :: "CampaignFactory \<Rightarrow> uint256 \<Rightarrow> CampaignFactory" where
  "receive f v = f\<lparr> balance := balance f + v \<rparr>"

text \<open>
  \<open>releaseFunds\<close> makes two value transfers with \<open>call\<close>, each of which runs the code at
  the target address while the factory holds its \<open>nonReentrant\<close> lock. That code may
  call back into the factory. \<open>donate\<close>, \<open>issueBeneficiaryToken\<close> and \<open>releaseFunds\<close>
  take the lock and revert in such a call (\<open>ReGuarded\<close>); all other external functions
  have no lock and run as in a transaction of their own, with the same
  \<open>block.timestamp\<close>. \<open>ReSetRoles\<close> stands for role administration.
\<close>

datatype reentrant_op =
    ReCreateCampaign NGORegistry string string string uint256 uint256 string
  | ReAddMilestone uint256 string uint256 uint256
  | ReCompleteMilestone uint256 uint256 string
  | RePauseCampaign uint256
  | ReResumeCampaign uint256
  | ReUpdatePlatformFee uint256
  | ReUpdateFeeCollector address
  | RePause
  | ReUnpause
  | ReReceive uint256
  | ReSetRoles "role \<Rightarrow> address \<Rightarrow> bool"
  | ReGuarded

fun reentrant_call ::
  "CampaignFactory \<Rightarrow> address \<Rightarrow> uint256 \<Rightarrow> reentrant_op \<Rightarrow> error + CampaignFactory" where
  "reentrant_call f sender now (ReCreateCampaign r ttl descr cat target duration docs) =
     (case createCampaign f r sender now ttl descr cat target duration docs of
        Inl e \<Rightarrow> Inl e | Inr (cid, f') \<Rightarrow> Inr f')"
| "reentrant_call f sender now (ReAddMilestone cid descr target dl) =
     addMilestone f sender cid descr target dl"
| "reentrant_call f sender now (ReCompleteMilestone cid idx evidence) =
     completeMilestone f sender now cid idx evidence"
| "reentrant_call f sender now (RePauseCampaign cid) = pauseCampaign f sender cid"
| "reentrant_call f sender now (ReResumeCampaign cid) = resumeCampaign f sender cid"
| "reentrant_call f sender now (ReUpdatePlatformFee fee) = updatePlatformFee f sender fee"
| "reentrant_call f sender now (ReUpdateFeeCollector a) = updateFeeCollector f sender a"
| "reentrant_call f sender now RePause = cf_pause f sender"
| "reentrant_call f sender now ReUnpause = cf_unpause f sender"
| "reentrant_call f sender now (ReReceive v) = Inr (receive f v)"
| "reentrant_call f sender now (ReSetRoles r) = Inr (f\<lparr> cf_hasRole := r \<rparr>)"
| "reentrant_call f sender now ReGuarded = Inl ReentrancyGuardReentrantCall"

text \<open>A re-entrant call that reverts leaves the state; the calling code goes on.\<close>

definition reentrant_step ::
  "uint256 \<Rightarrow> CampaignFactory \<Rightarrow> address \<times> reentrant_op \<Rightarrow> CampaignFactory" where
  "reentrant_step now f c = (case c of (sender, op) \<Rightarrow>
     (case reentrant_call f sender now op of Inl e \<Rightarrow> f | Inr f' \<Rightarrow> f'))"

definition reenter ::
  "CampaignFactory \<Rightarrow> uint256 \<Rightarrow> (address \<times> reentrant_op) list \<Rightarrow> CampaignFactory" where
  "reenter f now cs = foldl (reentrant_step now) f cs"

text \<open>
  The code at an address that receives a transfer: from the address, the state in which
  it finds the factory and the value sent, whether it accepts the transfer, and the calls
  it makes into the factory before it returns (each with its \<open>msg.sender\<close>, which is the
  callee or a contract that the callee calls).
\<close>

type_synonym callee =
  "address \<Rightarrow> CampaignFactory \<Rightarrow> uint256 \<Rightarrow> bool \<times> (address \<times> reentrant_op) list"

text \<open>
  What \<open>releaseFunds\<close> does, in the order in which it does it: the writes of the lock, the
  transfers, the calls that re-enter the factory during a transfer, and the event.
\<close>

datatype interaction =
    LockAcquired
  | Transfer address uint256
  | Reentered address reentrant_op
  | FundsReleased uint256 uint256 address
  | LockReleased

text \<open>
  The value \<open>v\<close> leaves the factory's balance for the address \<open>to\<close>; sent to the factory's
  own address it stays.
\<close>

definition pay :: "CampaignFactory \<Rightarrow> address \<Rightarrow> uint256 \<Rightarrow> CampaignFactory" where
  "pay f to v = (if to = self f then f else f\<lparr> balance := balance f - v \<rparr>)"

text \<open>
  \<open>to.call{value: v}("")\<close>, appended to the interactions so far. The call fails when the
  balance is too small or the callee reverts, which also undoes what the callee did.
  Otherwise the value is moved, then the code at \<open>to\<close> runs; at the factory's own address
  this is its empty \<open>receive\<close> function.
\<close>

definition call_with_value ::
  "CampaignFactory \<Rightarrow> interaction list \<Rightarrow> uint256 \<Rightarrow> callee \<Rightarrow> address \<Rightarrow> uint256
     \<Rightarrow> (CampaignFactory \<times> interaction list) option" where
  "call_with_value f log0 now callee to v =
    (if balance f < v then None
     else
       let f1 = pay f to v in
       case (if to = self f then (True, []) else callee to f1 v) of (accepts, cs) \<Rightarrow>
         if \<not> accepts then None
         else Some (reenter f1 now cs,
                log0 @ [Transfer to v] @ map (\<lambda>c. Reentered (fst c) (snd c)) cs))"

text \<open>
  \<open>releaseFunds\<close>: \<open>onlyRole(ADMIN_ROLE)\<close>, then \<open>nonReentrant\<close>, then the body. The result
  carries, next to the new state, the interactions of the call.
\<close>

definition releaseFunds ::
  "CampaignFactory \<Rightarrow> address \<Rightarrow> uint256 \<Rightarrow> callee \<Rightarrow> uint256 \<Rightarrow> address \<Rightarrow> uint256
     \<Rightarrow> error + (CampaignFactory \<times> interaction list)" where
  "releaseFunds f sender now callee cid recipient amount =
    (let campaign = campaigns f cid in
     if \<not> cf_hasRole f ADMIN_ROLE sender
     then Inl (AccessControlUnauthorizedAccount sender ADMIN_ROLE)
     else if \<not> c_campaignId campaign \<noteq> 0 then Inl (Revert ''Campaign does not exist'')
     else if \<not> recipient \<noteq> 0 then Inl (Revert ''Invalid recipient'')
     else if \<not> 0 < amount then Inl (Revert ''Amount must be greater than 0'')
     else if uint_max < amount * platformFeePercentage f then Inl Panic_overflow
     else
       let fee = (amount * platformFeePercentage f) div 10000 in
       if amount < fee then Inl Panic_overflow
       else
         let netAmount = amount - fee in
         case call_with_value f [LockAcquired] now callee (feeCollector f) fee of
           None \<Rightarrow> Inl (Revert ''Fee transfer failed'')
         | Some (f1, log1) \<Rightarrow>
            (case call_with_value f1 log1 now callee recipient netAmount of
               None \<Rightarrow> Inl (Revert ''Fund transfer failed'')
             | Some (f2, log2) \<Rightarrow>
                Inr (f2, log2 @ [FundsReleased cid netAmount recipient, LockReleased])))"

definition getCampaignFunds :: "CampaignFactory \<Rightarrow> uint256 \<Rightarrow> error + uint256" where
  "getCampaignFunds f cid =
    (if \<not> c_campaignId (campaigns f cid) \<noteq> 0 then Inl (Revert ''Campaign does not exist'')
     else Inr (campaignFunds f cid))"

section \<open>The factory and the token contract together\<close>

text \<open>
  The ledger is the pair of the factory and the token contract it mints on. A transaction
  is a call of an external function of either contract. \<open>CreateCampaign\<close> carries the
  state in which the call finds the registry (any state: the registry's own transactions
  are not restricted), \<open>FactorySetRoles\<close> stands for the factory's role administration,
  \<open>ReleaseFunds\<close> carries the code of the addresses that it pays. What that code does to
  the token contract during the transfer is a transaction on the token contract (\<open>OnToken\<close>)
  after the release: no function of the factory that can run during a release reads or
  writes the token contract.
\<close>

record ledger =
  factory :: CampaignFactory
  token :: SoulboundToken

datatype factory_op =
    CreateCampaign NGORegistry string string string uint256 uint256 string
  | AddMilestone uint256 string uint256 uint256
  | Donate uint256 uint256
  | IssueBeneficiaryToken bool uint256 address uint256 string uint256
  | ReleaseFunds callee uint256 address uint256
  | CompleteMilestone uint256 uint256 string
  | PauseCampaign uint256
  | ResumeCampaign uint256
  | UpdatePlatformFee uint256
  | UpdateFeeCollector address
  | FactoryPause
  | FactoryUnpause
  | Receive uint256
  | FactorySetRoles "role \<Rightarrow> address \<Rightarrow> bool"

datatype ledger_op = OnFactory factory_op | OnToken token_op

definition lift_factory :: "ledger \<Rightarrow> error + CampaignFactory \<Rightarrow> error + ledger" where
  "lift_factory l r = (case r of Inl e \<Rightarrow> Inl e | Inr f \<Rightarrow> Inr (l\<lparr> factory := f \<rparr>))"

fun factory_call :: "ledger \<Rightarrow> address \<Rightarrow> uint256 \<Rightarrow> factory_op \<Rightarrow> error + ledger" where
  "factory_call l sender now (CreateCampaign r ttl descr cat target duration docs) =
     (case createCampaign (factory l) r sender now ttl descr cat target duration docs of
        Inl e \<Rightarrow> Inl e | Inr (cid, f) \<Rightarrow> Inr (l\<lparr> factory := f \<rparr>))"
| "factory_call l sender now (AddMilestone cid descr target dl) =
     lift_factory l (addMilestone (factory l) sender cid descr target dl)"
| "factory_call l sender now (Donate v cid) =
     lift_factory l (donate (factory l) sender now v cid)"
| "factory_call l sender now (IssueBeneficiaryToken accepts cid benef amount stype vp) =
     (case issueBeneficiaryToken (factory l) (token l) sender now accepts cid benef amount stype vp of
        Inl e \<Rightarrow> Inl e | Inr (tid, f, t) \<Rightarrow> Inr (l\<lparr> factory := f, token := t \<rparr>))"
| "factory_call l sender now (ReleaseFunds callee cid recipient amount) =
     (case releaseFunds (factory l) sender now callee cid recipient amount of
        Inl e \<Rightarrow> Inl e | Inr (f, out) \<Rightarrow> Inr (l\<lparr> factory := f \<rparr>))"
| "factory_call l sender now (CompleteMilestone cid idx prf) =
     lift_factory l (completeMilestone (factory l) sender now cid idx prf)"
| "factory_call l sender now (PauseCampaign cid) =
     lift_factory l (pauseCampaign (factory l) sender cid)"
| "factory_call l sender now (ResumeCampaign cid) =
     lift_factory l (resumeCampaign (factory l) sender cid)"
| "factory_call l sender now (UpdatePlatformFee fee) =
     lift_factory l (updatePlatformFee (factory l) sender fee)"
| "factory_call l sender now (UpdateFeeCollector a) =
     lift_factory l (updateFeeCollector (factory l) sender a)"
| "factory_call l sender now FactoryPause = lift_factory l (cf_pause (factory l) sender)"
| "factory_call l sender now FactoryUnpause = lift_factory l (cf_unpause (factory l) sender)"
| "factory_call l sender now (Receive v) = Inr (l\<lparr> factory := receive (factory l) v \<rparr>)"
| "factory_call l sender now (FactorySetRoles r) =
     Inr (l\<lparr> factory := (factory l)\<lparr> cf_hasRole := r \<rparr> \<rparr>)"

fun ledger_call :: "ledger \<Rightarrow> address \<Rightarrow> uint256 \<Rightarrow> ledger_op \<Rightarrow> error + ledger" where
  "ledger_call l sender now (OnFactory op) = factory_call l sender now op"
| "ledger_call l sender now (OnToken op) =
     (case token_call (token l) sender now op of
        Inl e \<Rightarrow> Inl e | Inr t \<Rightarrow> Inr (l\<lparr> token := t \<rparr>))"

definition ledger_step :: "ledger \<Rightarrow> address \<times> uint256 \<times> ledger_op \<Rightarrow> ledger" where
  "ledger_step l c = (case c of (sender, now, op) \<Rightarrow>
     (case ledger_call l sender now op of Inl e \<Rightarrow> l | Inr l' \<Rightarrow> l'))"

definition ledger_run :: "ledger \<Rightarrow> (address \<times> uint256 \<times> ledger_op) list \<Rightarrow> ledger" where
  "ledger_run l cs = foldl ledger_step l cs"

text \<open>
  The ledger after deployment: both constructors have run (deployer \<open>deployer\<close>, factory
  at address \<open>this\<close>) and nothing else has happened.
\<close>

definition ledger_init :: "address \<Rightarrow> address \<Rightarrow> address \<Rightarrow> ledger" where
  "ledger_init deployer this collector =
    \<lparr> factory = CampaignFactory_init deployer this collector,
      token = SoulboundToken_init deployer \<rparr>"

text \<open>
  The entitled amounts that \<open>issueBeneficiaryToken\<close> has reserved for campaign \<open>cid\<close> along
  a run: the sum of \<open>entitledAmount\<close> over its successful calls for that campaign.
\<close>

fun reserved_by :: "ledger \<Rightarrow> address \<times> uint256 \<times> ledger_op \<Rightarrow> uint256 \<Rightarrow> uint256" where
  "reserved_by l (sender, now, OnFactory (IssueBeneficiaryToken accepts cid' benef amount stype vp)) cid =
     (if cid' = cid \<and> \<not> isl (issueBeneficiaryToken (factory l) (token l) sender now accepts
                                cid' benef amount stype vp)
      then amount else 0)"
| "reserved_by l c cid = 0"

fun issued :: "ledger \<Rightarrow> (address \<times> uint256 \<times> ledger_op) list \<Rightarrow> uint256 \<Rightarrow> uint256" where
  "issued l [] cid = 0"
| "issued l (c # cs) cid = reserved_by l c cid + issued (ledger_step l c) cs cid"

text \<open>
  The sum of \<open>entitledAmount\<close> over the tokens of campaign \<open>cid\<close> that are not revoked,
  read from the token contract's own index of the campaign's tokens.
\<close>

definition entitled_not_revoked :: "SoulboundToken \<Rightarrow> uint256 \<Rightarrow> uint256" where
  "entitled_not_revoked t cid =
     sum_list (map (\<lambda>tid. entitledAmount (tokenMetadata t tid))
       (filter (\<lambda>tid. status (tokenMetadata t tid) \<noteq> Revoked) (campaignTokens t cid)))"

section \<open>Example states\<close>

text \<open>
  The token contract deployed by account 1, which then grants the redeemer role to account
  2 and, at time 1000, mints token 0 for beneficiary 5 and campaign 1: 100 units, valid
  for 500 seconds.
\<close>

definition example_roles :: "role \<Rightarrow> address \<Rightarrow> bool" where
  "example_roles r a =
     ((a = 1 \<and> r \<in> {DEFAULT_ADMIN_ROLE, ADMIN_ROLE, MINTER_ROLE}) \<or> (a = 2 \<and> r = REDEEMER_ROLE))"

definition example_token :: SoulboundToken where
  "example_token = token_run (SoulboundToken_init 1)
     [(1, 900, SetRoles example_roles),
      (1, 1000, MintToken True 5 1 100 ''Eye Surgery'' 500)]"

text \<open>
  The governance contract deployed by account 1, which takes the admin role and
  initializes the reputation of accounts 2 and 3 (\<open>example_gov0\<close>); then account 2 opens,
  at time 1000, a verification proposal for NGO 7 (\<open>example_gov\<close>, proposal 1, voting until
  605800); then account 3 votes against it (\<open>example_gov_voted\<close>).
\<close>

definition gov_example_roles :: "role \<Rightarrow> address \<Rightarrow> bool" where
  "gov_example_roles r a = (a = 1 \<and> r \<in> {DEFAULT_ADMIN_ROLE, ADMIN_ROLE})"

definition example_gov0 :: NGOGovernance where
  "example_gov0 = gov_run (NGOGovernance_init 1)
     [(1, 900, GovSetRoles gov_example_roles), (1, 900, InitializeReputation 2),
      (1, 900, InitializeReputation 3)]"

definition example_gov :: NGOGovernance where
  "example_gov = gov_run example_gov0 [(2, 1000, CreateVerificationProposal 7 ''d'' ''e'')]"

definition example_gov_voted :: NGOGovernance where
  "example_gov_voted = gov_run example_gov [(3, 2000, CastVote 1 Downvote)]"

text \<open>
  \<open>passing_rounds n\<close>: account 2 opens a verification proposal for each of the NGOs
  \<open>1 .. n\<close>, nobody else votes, and after the voting period account 4 executes it.
\<close>

fun passing_rounds :: "nat \<Rightarrow> (address \<times> uint256 \<times> gov_op) list" where
  "passing_rounds 0 = []"
| "passing_rounds (Suc n) = passing_rounds n @
     [(2, 1000, CreateVerificationProposal (Suc n) ''d'' ''e''),
      (4, 700000, ExecuteProposal (Suc n))]"

text \<open>
  A run that takes the score of account 2 down to 10: from \<open>example_gov0\<close>, account 2
  opens 50 challenges of NGO 7 (its own automatic downvote of power 50 is the only vote on
  each), and after the voting period account 4 executes the first 49 of them, which all
  fail. \<open>example_challenge i\<close> is the record of the \<open>i\<close>-th challenge before its execution.
\<close>

fun challenges :: "nat \<Rightarrow> (address \<times> uint256 \<times> gov_op) list" where
  "challenges 0 = []"
| "challenges (Suc n) = challenges n @ [(2, 1000, ChallengeNGO 7 ''d'' ''e'')]"

fun executions :: "nat \<Rightarrow> (address \<times> uint256 \<times> gov_op) list" where
  "executions 0 = []"
| "executions (Suc n) = executions n @ [(4, 700000, ExecuteProposal (Suc n))]"

definition example_challenge :: "uint256 \<Rightarrow> Proposal" where
  "example_challenge i =
     \<lparr> proposalId = i, p_ngoId = 7, proposalType = Challenge, proposer = 2,
       p_description = ''d'', evidenceHash = ''e'', startTime = 1000, endTime = 605800,
       upvotes = 0, downvotes = 50, totalVotingPower = 50, executed = False,
       votes = (\<lambda>_. zero_vote)(2 := \<lparr> hasVoted = True, voteType = Downvote,
         votingPower = 50, reputationStake = 10 \<rparr>) \<rparr>"

definition example_gov_penalized :: NGOGovernance where
  "example_gov_penalized = gov_run example_gov0 (challenges 50 @ executions 49)"

text \<open>
  The registry deployed by account 1, which registers the NGO of account 10 at time 500
  and verifies it at time 600.
\<close>

definition example_registry :: NGORegistry where
  "example_registry =
     (case registerNGO (NGORegistry_init 1) 1 500 10 ''Test NGO'' ''REG123'' ''USA'' ''Health''
             ''QmTestHash'' of
        Inl e \<Rightarrow> NGORegistry_init 1
      | Inr (nid, r) \<Rightarrow> (case verifyNGO r 1 600 nid of Inl e \<Rightarrow> r | Inr r' \<Rightarrow> r'))"

text \<open>
  The ledger deployed by account 1 with the factory at address 100 and fee collector 50;
  account 1 grants the factory the minter role on the token contract; the NGO of account
  10 opens campaign 1 with target 1000000 at time 1000; account 20 donates 100000.
\<close>

definition ledger_token_roles :: "role \<Rightarrow> address \<Rightarrow> bool" where
  "ledger_token_roles r a =
     ((a = 1 \<and> r \<in> {DEFAULT_ADMIN_ROLE, ADMIN_ROLE, MINTER_ROLE}) \<or> (a = 100 \<and> r = MINTER_ROLE))"

definition example_ledger :: ledger where
  "example_ledger = ledger_run (ledger_init 1 100 50)
     [(1, 900, OnToken (SetRoles ledger_token_roles)),
      (10, 1000, OnFactory (CreateCampaign example_registry ''Save Children'' ''Help''
          ''Health'' 1000000 5000 ''QmDocHash'')),
      (20, 1100, OnFactory (Donate 100000 1))]"

text \<open>
  The relation between the escrow of the factory and an amount \<open>k cid\<close> reserved for each
  campaign, used as the invariant of the ledger's runs: funds plus reserved amount is the
  raised amount, and the campaigns beyond the id counter do not exist and hold nothing.
\<close>

definition escrow_inv :: "ledger \<Rightarrow> (uint256 \<Rightarrow> uint256) \<Rightarrow> bool" where
  "escrow_inv l k \<longleftrightarrow>
     (\<forall>cid. campaignFunds (factory l) cid + k cid = raisedAmount (campaigns (factory l) cid))
   \<and> (\<forall>cid. campaignIdCounter (factory l) < cid \<longrightarrow>
          c_campaignId (campaigns (factory l) cid) = 0
        \<and> campaignFunds (factory l) cid = 0 \<and> k cid = 0)"

text \<open>
  Two kinds of code at the paid addresses. \<open>accept_all\<close> accepts every transfer and calls
  nothing. \<open>pausing_owner\<close> does the same, except that the code at address 10, the owner
  of campaign 1, calls \<open>pauseCampaign(1)\<close> when it is paid.
\<close>

definition accept_all :: callee where
  "accept_all a f v = (True, [])"

definition pausing_owner :: callee where
  "pausing_owner a f v = (True, if a = 10 then [(10, RePauseCampaign 1)] else [])"

text \<open>
  The example ledger after two more transactions: the owner of campaign 1 issues a token
  of 40000 to beneficiary 5 (token 0), and the administrator revokes that token.
\<close>

definition example_ledger_revoked :: ledger where
  "example_ledger_revoked = ledger_run example_ledger
     [(10, 1200, OnFactory (IssueBeneficiaryToken True 1 5 40000 ''Eye Surgery'' 500)),
      (1, 1300, OnToken (RevokeToken 0 ''emergency''))]"

text \<open>The transactions of the two example ledgers, from deployment on.\<close>

definition example_calls :: "(address \<times> uint256 \<times> ledger_op) list" where
  "example_calls =
     [(1, 900, OnToken (SetRoles ledger_token_roles)),
      (10, 1000, OnFactory (CreateCampaign example_registry ''Save Children'' ''Help''
          ''Health'' 1000000 5000 ''QmDocHash'')),
      (20, 1100, OnFactory (Donate 100000 1))]"

definition example_calls_revoked :: "(address \<times> uint256 \<times> ledger_op) list" where
  "example_calls_revoked = example_calls @
     [(10, 1200, OnFactory (IssueBeneficiaryToken True 1 5 40000 ''Eye Surgery'' 500)),
      (1, 1300, OnToken (RevokeToken 0 ''emergency''))]"

section \<open>SoulboundToken: redemption and the permanence of the holder\<close>

lemmas token_defs = mintToken_def redeemToken_def revokeToken_def markExpired_def
  transferFrom_def safeTransferFrom_def approve_def setApprovalForAll_def pause_def unpause_def

text \<open>No transaction changes the owner or the recorded beneficiary of a token that exists.\<close>

lemma token_call_holder:
  assumes "token_call s sender now op = Inr s'" and "ownerOf s tid \<noteq> 0"
  shows "ownerOf s' tid = ownerOf s tid
       \<and> beneficiary (tokenMetadata s' tid) = beneficiary (tokenMetadata s tid)"
  using assms
  by (cases op) (auto simp: token_defs Let_def split: if_splits sum.splits)

lemma token_step_holder:
  "ownerOf s tid \<noteq> 0 \<Longrightarrow> ownerOf (token_step s c) tid = ownerOf s tid
       \<and> beneficiary (tokenMetadata (token_step s c) tid) = beneficiary (tokenMetadata s tid)"
  by (cases c) (auto simp: token_step_def dest: token_call_holder split: sum.splits)

lemma token_run_holder:
  "ownerOf s tid \<noteq> 0 \<Longrightarrow> ownerOf (token_run s cs) tid = ownerOf s tid
       \<and> beneficiary (tokenMetadata (token_run s cs) tid) = beneficiary (tokenMetadata s tid)"
  unfolding token_run_def
proof (induction cs arbitrary: s)
  case Nil
  then show ?case by simp
next
  case (Cons c cs)
  from Cons.prems have h: "ownerOf (token_step s c) tid = ownerOf s tid
       \<and> beneficiary (tokenMetadata (token_step s c) tid) = beneficiary (tokenMetadata s tid)"
    by (rule token_step_holder)
  with Cons.prems have "ownerOf (token_step s c) tid \<noteq> 0" by simp
  from Cons.IH[OF this] h show ?case by simp
qed

text \<open>\<open>Redeemed\<close> is terminal: no transaction leaves it.\<close>

lemma token_call_redeemed:
  assumes "token_call s sender now op = Inr s'" and "ownerOf s tid \<noteq> 0"
    and "status (tokenMetadata s tid) = Redeemed"
  shows "status (tokenMetadata s' tid) = Redeemed"
  using assms
  by (cases op) (auto simp: token_defs Let_def split: if_splits sum.splits)

lemma token_step_redeemed:
  "ownerOf s tid \<noteq> 0 \<Longrightarrow> status (tokenMetadata s tid) = Redeemed
    \<Longrightarrow> status (tokenMetadata (token_step s c) tid) = Redeemed"
  by (cases c) (auto simp: token_step_def dest: token_call_redeemed split: sum.splits)

lemma token_run_redeemed:
  "ownerOf s tid \<noteq> 0 \<Longrightarrow> status (tokenMetadata s tid) = Redeemed
    \<Longrightarrow> status (tokenMetadata (token_run s cs) tid) = Redeemed"
  unfolding token_run_def
proof (induction cs arbitrary: s)
  case Nil
  then show ?case by simp
next
  case (Cons c cs)
  have 1: "ownerOf (token_step s c) tid \<noteq> 0"
    using token_step_holder[OF Cons.prems(1)] Cons.prems(1) by simp
  have 2: "status (tokenMetadata (token_step s c) tid) = Redeemed"
    using Cons.prems by (rule token_step_redeemed)
  from Cons.IH[OF 1 2] show ?case by simp
qed

lemma redeemToken_success_iff:
  "hasRole s REDEEMER_ROLE sender \<Longrightarrow> \<not> paused s \<Longrightarrow>
   (\<exists>s'. redeemToken s sender now tid proof = Inr s') \<longleftrightarrow>
     (ownerOf s tid \<noteq> 0 \<and> status (tokenMetadata s tid) = Active
      \<and> \<not> isRedeemed (tokenMetadata s tid) \<and> now \<le> expiryDate (tokenMetadata s tid)
      \<and> proof \<noteq> [])"
  by (simp add: redeemToken_def Let_def)

lemma redeemToken_effect:
  "redeemToken s sender now tid proof = Inr s' \<Longrightarrow>
     s' = s\<lparr> tokenMetadata := (tokenMetadata s)(tid := (tokenMetadata s tid)
            \<lparr> isRedeemed := True, redeemedBy := sender, redeemedAt := now,
              proofOfServiceHash := proof, status := Redeemed \<rparr>) \<rparr>
     \<and> ownerOf s tid \<noteq> 0"
  by (auto simp: redeemToken_def Let_def split: if_splits)

lemma redeemToken_not_active:
  "status (tokenMetadata s tid) \<noteq> Active \<Longrightarrow>
     redeemToken s sender now tid proof =
      (if \<not> hasRole s REDEEMER_ROLE sender
       then Inl (AccessControlUnauthorizedAccount sender REDEEMER_ROLE)
       else if paused s then Inl EnforcedPause
       else if ownerOf s tid = 0 then Inl (Revert ''Token does not exist'')
       else Inl (Revert ''Token is not active''))"
  by (simp add: redeemToken_def Let_def)

lemma example_token_eval:
  "hasRole example_token REDEEMER_ROLE 2" "\<not> paused example_token"
  "ownerOf example_token 0 = 5"
  "status (tokenMetadata example_token 0) = Active"
  "\<not> isRedeemed (tokenMetadata example_token 0)"
  "expiryDate (tokenMetadata example_token 0) = 1500"
  by (simp_all add: example_token_def token_run_def token_step_def mintToken_def
      SoulboundToken_init_def example_roles_def uint_max_def)

text \<open>
  Claim C1. For a caller that holds the redeemer role, on a contract that is not paused,
  \<open>redeemToken\<close> succeeds exactly when the token exists, its status is \<open>Active\<close>, it is
  not yet redeemed, \<open>now \<le> expiryDate\<close> (so a redemption at the expiry instant itself is
  accepted) and the proof reference is not empty. A successful call sets the status to
  \<open>Redeemed\<close> and records the caller, the time and the proof. After it, in every state
  that later transactions on the token contract lead to, every call of \<open>redeemToken\<close> on
  the same token fails, whoever calls; for a caller that passes the role and pause
  modifiers the failure is the state error "Token is not active".
\<close>

theorem C1_redeemToken:
  assumes "hasRole s REDEEMER_ROLE sender" and "\<not> paused s"
  shows "((\<exists>s'. redeemToken s sender now tid proof = Inr s') \<longleftrightarrow>
           (ownerOf s tid \<noteq> 0 \<and> status (tokenMetadata s tid) = Active
            \<and> \<not> isRedeemed (tokenMetadata s tid) \<and> now \<le> expiryDate (tokenMetadata s tid)
            \<and> proof \<noteq> []))
       \<and> (\<forall>s'. redeemToken s sender now tid proof = Inr s' \<longrightarrow>
            status (tokenMetadata s' tid) = Redeemed
          \<and> isRedeemed (tokenMetadata s' tid)
          \<and> redeemedBy (tokenMetadata s' tid) = sender
          \<and> redeemedAt (tokenMetadata s' tid) = now
          \<and> proofOfServiceHash (tokenMetadata s' tid) = proof
          \<and> (\<forall>cs sender2 now2 proof2.
                (\<exists>e. redeemToken (token_run s' cs) sender2 now2 tid proof2 = Inl e)
              \<and> (hasRole (token_run s' cs) REDEEMER_ROLE sender2 \<and> \<not> paused (token_run s' cs)
                  \<longrightarrow> redeemToken (token_run s' cs) sender2 now2 tid proof2
                        = Inl (Revert ''Token is not active''))))"
proof (intro conjI allI impI)
  show "(\<exists>s'. redeemToken s sender now tid proof = Inr s') \<longleftrightarrow>
           (ownerOf s tid \<noteq> 0 \<and> status (tokenMetadata s tid) = Active
            \<and> \<not> isRedeemed (tokenMetadata s tid) \<and> now \<le> expiryDate (tokenMetadata s tid)
            \<and> proof \<noteq> [])"
    using assms by (rule redeemToken_success_iff)
next
  fix s' assume r: "redeemToken s sender now tid proof = Inr s'"
  note e = redeemToken_effect[OF r]
  from e show "status (tokenMetadata s' tid) = Redeemed" by simp
  from e show "isRedeemed (tokenMetadata s' tid)" by simp
  from e show "redeemedBy (tokenMetadata s' tid) = sender" by simp
  from e show "redeemedAt (tokenMetadata s' tid) = now" by simp
  from e show "proofOfServiceHash (tokenMetadata s' tid) = proof" by simp
  fix cs sender2 now2 proof2
  from e have o: "ownerOf s' tid \<noteq> 0" and st: "status (tokenMetadata s' tid) = Redeemed"
    by simp_all
  have st': "status (tokenMetadata (token_run s' cs) tid) = Redeemed"
    using o st by (rule token_run_redeemed)
  have o': "ownerOf (token_run s' cs) tid \<noteq> 0"
    using token_run_holder[OF o, of cs] o by simp
  have na: "status (tokenMetadata (token_run s' cs) tid) \<noteq> Active" using st' by simp
  show "\<exists>e. redeemToken (token_run s' cs) sender2 now2 tid proof2 = Inl e"
    by (simp add: redeemToken_not_active[OF na])
  assume "hasRole (token_run s' cs) REDEEMER_ROLE sender2 \<and> \<not> paused (token_run s' cs)"
  then show "redeemToken (token_run s' cs) sender2 now2 tid proof2
      = Inl (Revert ''Token is not active'')"
    using o' by (simp add: redeemToken_not_active[OF na])
qed

text \<open>
  The theorem at the example token, redeemed by account 2 at time 1500, the expiry
  instant: the call succeeds, and a second call by the same account one second later fails.
\<close>

theorem C1_redeemToken_witness:
  "hasRole example_token REDEEMER_ROLE 2 \<and> \<not> paused example_token
   \<and> expiryDate (tokenMetadata example_token 0) = 1500
   \<and> (\<exists>s'. redeemToken example_token 2 1500 0 ''QmProof'' = Inr s'
          \<and> status (tokenMetadata s' 0) = Redeemed
          \<and> redeemToken s' 2 1501 0 ''QmProof'' = Inl (Revert ''Token is not active''))"
proof -
  have h1: "hasRole example_token REDEEMER_ROLE 2" and h2: "\<not> paused example_token"
    by (rule example_token_eval)+
  note c1 = C1_redeemToken[OF h1 h2, of 1500 0 "''QmProof''"]
  from c1 obtain s' where r: "redeemToken example_token 2 1500 0 ''QmProof'' = Inr s'"
    by (auto simp: example_token_eval)
  from c1 r have st: "status (tokenMetadata s' 0) = Redeemed" by blast
  from c1 r have "hasRole (token_run s' []) REDEEMER_ROLE 2 \<and> \<not> paused (token_run s' [])
      \<longrightarrow> redeemToken (token_run s' []) 2 1501 0 ''QmProof'' = Inl (Revert ''Token is not active'')"
    by blast
  moreover have "hasRole s' REDEEMER_ROLE 2 \<and> \<not> paused s'"
    using redeemToken_effect[OF r] h1 h2 by simp
  ultimately have "redeemToken s' 2 1501 0 ''QmProof'' = Inl (Revert ''Token is not active'')"
    by (simp add: token_run_def)
  with r st h1 h2 show ?thesis by (simp add: example_token_eval)
qed

text \<open>
  Claim C9. \<open>transferFrom\<close>, \<open>safeTransferFrom\<close>, \<open>approve\<close> and \<open>setApprovalForAll\<close> fail
  for every state, caller and argument. The holder that \<open>mintToken\<close> records (the ERC-721
  owner and the \<open>beneficiary\<close> field) is the same in every state that later transactions
  lead to.
\<close>

theorem C9_soulbound:
  "transferFrom s sender from to tid = Inl (Revert ''Soulbound tokens cannot be transferred'')
   \<and> safeTransferFrom s sender from to tid data
       = Inl (Revert ''Soulbound tokens cannot be transferred'')
   \<and> approve s sender to tid = Inl (Revert ''Soulbound tokens cannot be approved'')
   \<and> setApprovalForAll s sender operator approved
       = Inl (Revert ''Soulbound tokens cannot be approved'')
   \<and> (mintToken s minter now accepts benef cid amount stype vp = Inr (newId, s') \<longrightarrow>
        (\<forall>cs. ownerOf (token_run s' cs) newId = benef
            \<and> beneficiary (tokenMetadata (token_run s' cs) newId) = benef))"
proof (intro conjI impI allI)
  assume m: "mintToken s minter now accepts benef cid amount stype vp = Inr (newId, s')"
  then have o: "ownerOf s' newId = benef" and b: "beneficiary (tokenMetadata s' newId) = benef"
    and nz: "benef \<noteq> 0"
    by (auto simp: mintToken_def Let_def split: if_splits)
  fix cs
  from o nz have "ownerOf s' newId \<noteq> 0" by simp
  from token_run_holder[OF this, of cs] o b
  show "ownerOf (token_run s' cs) newId = benef"
    and "beneficiary (tokenMetadata (token_run s' cs) newId) = benef" by simp_all
qed (simp_all add: token_defs)

text \<open>
  The theorem at the mint of token 0 in the example, followed by an attempted transfer by
  the beneficiary and a revocation by the administrator.
\<close>

theorem C9_soulbound_witness:
  "(\<exists>s'. mintToken (token_run (SoulboundToken_init 1) [(1, 900, SetRoles example_roles)])
            1 1000 True 5 1 100 ''Eye Surgery'' 500 = Inr (0, s')
      \<and> ownerOf (token_run s' [(5, 1100, TransferFrom 5 6 0), (1, 1200, RevokeToken 0 ''x'')]) 0 = 5)"
proof -
  obtain s' where m: "mintToken (token_run (SoulboundToken_init 1) [(1, 900, SetRoles example_roles)])
            1 1000 True 5 1 100 ''Eye Surgery'' 500 = Inr (0, s')"
    by (simp add: token_run_def token_step_def mintToken_def SoulboundToken_init_def
        example_roles_def uint_max_def)
  from C9_soulbound[where s = "token_run (SoulboundToken_init 1) [(1, 900, SetRoles example_roles)]"
      and minter = 1 and now = 1000 and accepts = True and benef = 5 and cid = 1
      and amount = 100 and stype = "''Eye Surgery''" and vp = 500 and newId = 0 and s' = s'] m
  have "ownerOf (token_run s' [(5, 1100, TransferFrom 5 6 0), (1, 1200, RevokeToken 0 ''x'')]) 0 = 5"
    by blast
  with m show ?thesis by blast
qed

section \<open>NGOGovernance: voting and execution\<close>

declare voters_loop.simps [simp del]

lemma voters_loop_id: "voters_loop i n g = g"
proof (induction i n g rule: voters_loop.induct)
  case (1 i n g)
  show ?case
  proof (cases "i < n")
    case True
    with 1 show ?thesis by (subst voters_loop.simps) simp
  next
    case False
    then show ?thesis by (subst voters_loop.simps) simp
  qed
qed

lemmas gov_consts = VOTING_DURATION_def MIN_REPUTATION_TO_VOTE_def VOTE_WEIGHT_BASE_def
  REPUTATION_CHANGE_PER_VOTE_def

lemma castVote_internal_success:
  "(\<exists>g'. castVote_internal g now pid vt voter = Inr g') \<longleftrightarrow>
     (now \<le> endTime (proposals g pid) \<and> \<not> hasVoted (votes (proposals g pid) voter)
      \<and> score (userReputations g voter) * 100 \<le> uint_max
      \<and> (vt = Upvote \<longrightarrow> upvotes (proposals g pid)
            + score (userReputations g voter) * 100 div 1000 \<le> uint_max)
      \<and> (vt = Downvote \<longrightarrow> downvotes (proposals g pid)
            + score (userReputations g voter) * 100 div 1000 \<le> uint_max)
      \<and> totalVotingPower (proposals g pid)
            + score (userReputations g voter) * 100 div 1000 \<le> uint_max)"
  by (cases vt) (auto simp: castVote_internal_def calculateVotingPower_def gov_consts Let_def)

lemma castVote_internal_effect:
  assumes "castVote_internal g now pid vt voter = Inr g'"
  shows "userReputations g' = userReputations g"
    and "proposalIdCounter g' = proposalIdCounter g"
    and "gov_hasRole g' = gov_hasRole g"
    and "ngoVerificationProposals g' = ngoVerificationProposals g"
    and "ngoChallenges g' = ngoChallenges g"
    and "q \<noteq> pid \<Longrightarrow> proposals g' q = proposals g q"
    and "votes (proposals g' pid) = (votes (proposals g pid))(voter :=
           \<lparr> hasVoted = True, voteType = vt,
             votingPower = score (userReputations g voter) * 100 div 1000,
             reputationStake = 10 \<rparr>)"
    and "upvotes (proposals g' pid) = upvotes (proposals g pid)
           + (if vt = Upvote then score (userReputations g voter) * 100 div 1000 else 0)"
    and "downvotes (proposals g' pid) = downvotes (proposals g pid)
           + (if vt = Upvote then 0 else score (userReputations g voter) * 100 div 1000)"
    and "totalVotingPower (proposals g' pid) = totalVotingPower (proposals g pid)
           + score (userReputations g voter) * 100 div 1000"
    and "executed (proposals g' pid) = executed (proposals g pid)"
    and "endTime (proposals g' pid) = endTime (proposals g pid)"
    and "proposer (proposals g' pid) = proposer (proposals g pid)"
    and "proposalType (proposals g' pid) = proposalType (proposals g pid)"
    and "now \<le> endTime (proposals g pid)"
    and "\<not> hasVoted (votes (proposals g pid) voter)"
  using assms
  by (auto simp: castVote_internal_def calculateVotingPower_def gov_consts Let_def
      split: if_splits)


lemma castVote_internal_mono:
  assumes "castVote_internal g now pid vt voter = Inr g'"
  shows "executed (proposals g' q) = executed (proposals g q)"
    and "hasVoted (votes (proposals g q) v) \<Longrightarrow> hasVoted (votes (proposals g' q) v)"
proof -
  note e = castVote_internal_effect[OF assms]
  show "executed (proposals g' q) = executed (proposals g q)"
    by (cases "q = pid") (simp_all add: e)
  show "hasVoted (votes (proposals g q) v) \<Longrightarrow> hasVoted (votes (proposals g' q) v)"
    by (cases "q = pid") (simp_all add: e)
qed

lemma createVerificationProposal_frame:
  assumes "createVerificationProposal g sender now ngo descr evidence = Inr (pid, g')"
  shows "userReputations g' = userReputations g"
    and "executed (proposals g' q) = executed (proposals g q)"
    and "hasVoted (votes (proposals g q) v) \<Longrightarrow> hasVoted (votes (proposals g' q) v)"
proof -
  let ?g1 = "g\<lparr> proposalIdCounter := proposalIdCounter g + 1,
                  proposals := (proposals g)(proposalIdCounter g + 1 :=
                    (proposals g (proposalIdCounter g + 1))
                    \<lparr> proposalId := proposalIdCounter g + 1, p_ngoId := ngo,
                      proposalType := Verification,
                      proposer := sender, p_description := descr, evidenceHash := evidence,
                      startTime := now, endTime := now + VOTING_DURATION \<rparr>),
                  ngoVerificationProposals :=
                    (ngoVerificationProposals g)(ngo := proposalIdCounter g + 1) \<rparr>"
  from assms have c: "castVote_internal ?g1 now pid Upvote sender = Inr g'"
    by (simp add: createVerificationProposal_def Let_def split: if_splits sum.splits)
  show "userReputations g' = userReputations g"
    using castVote_internal_effect(1)[OF c] by simp
  show "executed (proposals g' q) = executed (proposals g q)"
    using castVote_internal_mono(1)[OF c, of q] by simp
  assume "hasVoted (votes (proposals g q) v)"
  then have "hasVoted (votes (proposals ?g1 q) v)" by auto
  then show "hasVoted (votes (proposals g' q) v)"
    by (rule castVote_internal_mono(2)[OF c])
qed

lemma challengeNGO_frame:
  assumes "challengeNGO g sender now ngo descr evidence = Inr (pid, g')"
  shows "userReputations g' = userReputations g"
    and "executed (proposals g' q) = executed (proposals g q)"
    and "hasVoted (votes (proposals g q) v) \<Longrightarrow> hasVoted (votes (proposals g' q) v)"
proof -
  let ?g1 = "g\<lparr> proposalIdCounter := proposalIdCounter g + 1,
                  proposals := (proposals g)(proposalIdCounter g + 1 :=
                    (proposals g (proposalIdCounter g + 1))
                    \<lparr> proposalId := proposalIdCounter g + 1, p_ngoId := ngo,
                      proposalType := Challenge,
                      proposer := sender, p_description := descr, evidenceHash := evidence,
                      startTime := now, endTime := now + VOTING_DURATION \<rparr>),
                  ngoChallenges := (ngoChallenges g)(ngo := ngoChallenges g ngo
                    @ [proposalIdCounter g + 1]) \<rparr>"
  from assms have c: "castVote_internal ?g1 now pid Downvote sender = Inr g'"
    by (simp add: challengeNGO_def Let_def split: if_splits sum.splits)
  show "userReputations g' = userReputations g"
    using castVote_internal_effect(1)[OF c] by simp
  show "executed (proposals g' q) = executed (proposals g q)"
    using castVote_internal_mono(1)[OF c, of q] by simp
  assume "hasVoted (votes (proposals g q) v)"
  then have "hasVoted (votes (proposals ?g1 q) v)" by auto
  then show "hasVoted (votes (proposals g' q) v)"
    by (rule castVote_internal_mono(2)[OF c])
qed

lemma executeProposal_fail_path:
  assumes "endTime (proposals g pid) < now" and "\<not> executed (proposals g pid)"
    and "\<not> downvotes (proposals g pid) < upvotes (proposals g pid)"
  shows "executeProposal g sender now pid =
    Inr (g\<lparr> proposals := (proposals g)(pid := (proposals g pid)\<lparr> executed := True \<rparr>),
           userReputations :=
             (if 10 < score (userReputations g (proposer (proposals g pid)))
              then (userReputations g)(proposer (proposals g pid) :=
                (userReputations g (proposer (proposals g pid)))
                  \<lparr> score := score (userReputations g (proposer (proposals g pid))) - 10 \<rparr>)
              else userReputations g) \<rparr>)"
  using assms
  by (simp add: executeProposal_def updateReputationForFailure_def gov_consts Let_def)

lemma executeProposal_pass_path:
  assumes "endTime (proposals g pid) < now" and "\<not> executed (proposals g pid)"
    and "downvotes (proposals g pid) < upvotes (proposals g pid)"
    and "score (userReputations g (proposer (proposals g pid))) + 20 \<le> uint_max"
    and "successfulVerifications (userReputations g (proposer (proposals g pid))) < uint_max"
    and "successfulChallenges (userReputations g (proposer (proposals g pid))) < uint_max"
  shows "executeProposal g sender now pid =
    Inr (g\<lparr> proposals := (proposals g)(pid := (proposals g pid)\<lparr> executed := True \<rparr>),
           userReputations := (userReputations g)(proposer (proposals g pid) :=
              (userReputations g (proposer (proposals g pid)))
                \<lparr> score := score (userReputations g (proposer (proposals g pid))) + 20,
                  successfulVerifications :=
                    successfulVerifications (userReputations g (proposer (proposals g pid)))
                      + (if proposalType (proposals g pid) = Verification then 1 else 0),
                  successfulChallenges :=
                    successfulChallenges (userReputations g (proposer (proposals g pid)))
                      + (if proposalType (proposals g pid) = Verification then 0 else 1) \<rparr>) \<rparr>)"
  using assms
  by (simp add: executeProposal_def updateReputationForSuccess_def gov_consts Let_def
      voters_loop_id)

lemma executeProposal_Inr:
  assumes "executeProposal g sender now pid = Inr g'"
  shows "endTime (proposals g pid) < now" and "\<not> executed (proposals g pid)"
    and "proposals g' = (proposals g)(pid := (proposals g pid)\<lparr> executed := True \<rparr>)"
    and "score (userReputations g' u) =
          (if u = proposer (proposals g pid)
           then (if downvotes (proposals g pid) < upvotes (proposals g pid)
                 then score (userReputations g u) + 20
                 else if 10 < score (userReputations g u) then score (userReputations g u) - 10
                 else score (userReputations g u))
           else score (userReputations g u))"
proof -
  from assms show 1: "endTime (proposals g pid) < now" and 2: "\<not> executed (proposals g pid)"
    by (auto simp: executeProposal_def Let_def split: if_splits)
  show "proposals g' = (proposals g)(pid := (proposals g pid)\<lparr> executed := True \<rparr>)"
  proof (cases "downvotes (proposals g pid) < upvotes (proposals g pid)")
    case True
    with assms 1 2 show ?thesis
      by (auto simp: executeProposal_def updateReputationForSuccess_def gov_consts Let_def
          voters_loop_id split: if_splits)
  next
    case False
    with assms 1 2 show ?thesis by (auto simp: executeProposal_fail_path)
  qed
  show "score (userReputations g' u) =
          (if u = proposer (proposals g pid)
           then (if downvotes (proposals g pid) < upvotes (proposals g pid)
                 then score (userReputations g u) + 20
                 else if 10 < score (userReputations g u) then score (userReputations g u) - 10
                 else score (userReputations g u))
           else score (userReputations g u))"
  proof (cases "downvotes (proposals g pid) < upvotes (proposals g pid)")
    case True
    with assms 1 2 show ?thesis
      by (auto simp: executeProposal_def updateReputationForSuccess_def gov_consts Let_def
          voters_loop_id split: if_splits)
  next
    case False
    with assms 1 2 show ?thesis by (auto simp: executeProposal_fail_path split: if_splits)
  qed
qed

lemma executeProposal_executed:
  "executed (proposals g pid) \<Longrightarrow> \<exists>e. executeProposal g sender now pid = Inl e"
  by (simp add: executeProposal_def Let_def)

lemma initializeReputation_Inr:
  assumes "initializeReputation g sender now user = Inr g'"
  shows "proposals g' = proposals g"
    and "score (userReputations g user) = 0"
    and "score (userReputations g' u) = (if u = user then 500 else score (userReputations g u))"
  using assms by (auto simp: initializeReputation_def split: if_splits)

lemma gov_call_mono:
  assumes "gov_call g sender now op = Inr g'"
  shows "executed (proposals g q) \<Longrightarrow> executed (proposals g' q)"
    and "hasVoted (votes (proposals g q) v) \<Longrightarrow> hasVoted (votes (proposals g' q) v)"
proof -
  have "(executed (proposals g q) \<longrightarrow> executed (proposals g' q))
      \<and> (hasVoted (votes (proposals g q) v) \<longrightarrow> hasVoted (votes (proposals g' q) v))"
  proof (cases op)
    case (CreateVerificationProposal ngo descr evidence)
    with assms obtain pid where
      "createVerificationProposal g sender now ngo descr evidence = Inr (pid, g')"
      by (auto split: sum.splits)
    from createVerificationProposal_frame(2,3)[OF this] show ?thesis by simp
  next
    case (ChallengeNGO ngo descr evidence)
    with assms obtain pid where "challengeNGO g sender now ngo descr evidence = Inr (pid, g')"
      by (auto split: sum.splits)
    from challengeNGO_frame(2,3)[OF this] show ?thesis by simp
  next
    case (CastVote pid vt)
    with assms have "castVote_internal g now pid vt sender = Inr g'"
      by (simp add: castVote_def split: if_splits)
    from castVote_internal_mono[OF this] show ?thesis by simp
  next
    case (ExecuteProposal pid)
    with assms have "executeProposal g sender now pid = Inr g'" by simp
    from executeProposal_Inr(3)[OF this] show ?thesis by simp
  next
    case (InitializeReputation user)
    with assms have "initializeReputation g sender now user = Inr g'" by simp
    from initializeReputation_Inr(1)[OF this] show ?thesis by simp
  next
    case (UpdateNgoRegistry a)
    with assms show ?thesis by (auto simp: updateNgoRegistry_def split: if_splits)
  next
    case (GovSetRoles r)
    with assms show ?thesis by auto
  qed
  then show "executed (proposals g q) \<Longrightarrow> executed (proposals g' q)"
    and "hasVoted (votes (proposals g q) v) \<Longrightarrow> hasVoted (votes (proposals g' q) v)"
    by simp_all
qed

lemma gov_step_mono:
  "executed (proposals g q) \<Longrightarrow> executed (proposals (gov_step g c) q)"
  "hasVoted (votes (proposals g q) v) \<Longrightarrow> hasVoted (votes (proposals (gov_step g c) q) v)"
  by (cases c; auto simp: gov_step_def dest: gov_call_mono split: sum.splits)+

lemma gov_run_executed:
  "executed (proposals g q) \<Longrightarrow> executed (proposals (gov_run g cs) q)"
  unfolding gov_run_def
  by (induction cs arbitrary: g) (simp_all add: gov_step_mono)

lemma gov_run_hasVoted:
  "hasVoted (votes (proposals g q) v) \<Longrightarrow> hasVoted (votes (proposals (gov_run g cs) q) v)"
  unfolding gov_run_def
  by (induction cs arbitrary: g) (simp_all add: gov_step_mono)


lemma gov_run_append: "gov_run g (xs @ ys) = gov_run (gov_run g xs) ys"
  by (simp add: gov_run_def)

lemma gov_run_single: "gov_call g sender now op = Inr g' \<Longrightarrow> gov_run g [(sender, now, op)] = g'"
  by (simp add: gov_run_def gov_step_def)

lemma createVerificationProposal_fresh:
  assumes "ngoVerificationProposals g ngo = 0"
    and "100 \<le> score (userReputations g sender)"
    and "score (userReputations g sender) * 100 \<le> uint_max"
    and "proposalIdCounter g + 1 \<le> uint_max"
    and "now + 604800 \<le> uint_max"
    and "proposals g (proposalIdCounter g + 1) = zero_proposal"
  shows "createVerificationProposal g sender now ngo descr evidence =
    Inr (proposalIdCounter g + 1,
      g\<lparr> proposalIdCounter := proposalIdCounter g + 1,
         proposals := (proposals g)(proposalIdCounter g + 1 :=
           \<lparr> proposalId = proposalIdCounter g + 1, p_ngoId = ngo, proposalType = Verification,
             proposer = sender, p_description = descr, evidenceHash = evidence,
             startTime = now, endTime = now + 604800,
             upvotes = score (userReputations g sender) * 100 div 1000, downvotes = 0,
             totalVotingPower = score (userReputations g sender) * 100 div 1000,
             executed = False,
             votes = (\<lambda>_. zero_vote)(sender := \<lparr> hasVoted = True, voteType = Upvote,
               votingPower = score (userReputations g sender) * 100 div 1000,
               reputationStake = 10 \<rparr>) \<rparr>),
         ngoVerificationProposals := (ngoVerificationProposals g)(ngo := proposalIdCounter g + 1) \<rparr>)"
proof -
  have d: "score (userReputations g sender) * 100 div 1000 \<le> uint_max"
    using assms(3) by (meson div_le_dividend le_trans)
  show ?thesis
    using assms d
    by (simp add: createVerificationProposal_def castVote_internal_def calculateVotingPower_def
        gov_consts Let_def zero_proposal_def zero_vote_def not_less)
qed


lemma example_gov0_eq:
  "example_gov0 = (NGOGovernance_init 1)\<lparr> gov_hasRole := gov_example_roles,
     userReputations := (\<lambda>_. zero_reputation)
       (2 := \<lparr> score = 500, totalProposals = 0, successfulVerifications = 0,
               successfulChallenges = 0, lastActivity = 900 \<rparr>,
        3 := \<lparr> score = 500, totalProposals = 0, successfulVerifications = 0,
               successfulChallenges = 0, lastActivity = 900 \<rparr>) \<rparr>"
  by (simp add: example_gov0_def gov_run_def gov_step_def initializeReputation_def
      NGOGovernance_init_def zero_reputation_def gov_example_roles_def)

lemma example_gov_eq:
  "example_gov = example_gov0\<lparr> proposalIdCounter := 1,
     proposals := (\<lambda>_. zero_proposal)(1 :=
       \<lparr> proposalId = 1, p_ngoId = 7, proposalType = Verification,
         proposer = 2, p_description = ''d'', evidenceHash = ''e'',
         startTime = 1000, endTime = 605800, upvotes = 50, downvotes = 0,
         totalVotingPower = 50, executed = False,
         votes = (\<lambda>_. zero_vote)(2 := \<lparr> hasVoted = True, voteType = Upvote,
           votingPower = 50, reputationStake = 10 \<rparr>) \<rparr>),
     ngoVerificationProposals := (\<lambda>_. 0)(7 := 1) \<rparr>"
proof -
  have "createVerificationProposal example_gov0 2 1000 7 ''d'' ''e'' = Inr (1, example_gov0\<lparr> proposalIdCounter := 1,
     proposals := (\<lambda>_. zero_proposal)(1 :=
       \<lparr> proposalId = 1, p_ngoId = 7, proposalType = Verification,
         proposer = 2, p_description = ''d'', evidenceHash = ''e'',
         startTime = 1000, endTime = 605800, upvotes = 50, downvotes = 0,
         totalVotingPower = 50, executed = False,
         votes = (\<lambda>_. zero_vote)(2 := \<lparr> hasVoted = True, voteType = Upvote,
           votingPower = 50, reputationStake = 10 \<rparr>) \<rparr>),
     ngoVerificationProposals := (\<lambda>_. 0)(7 := 1) \<rparr>)"
    by (subst createVerificationProposal_fresh)
       (simp_all add: example_gov0_eq NGOGovernance_init_def uint_max_def)
  then show ?thesis
    unfolding example_gov_def by (simp add: gov_run_def gov_step_def)
qed

lemma example_gov_eval:
  "score (userReputations example_gov 2) = 500"
  "score (userReputations example_gov 3) = 500"
  "successfulVerifications (userReputations example_gov 2) = 0"
  "successfulChallenges (userReputations example_gov 2) = 0"
  "proposer (proposals example_gov (Suc 0)) = 2"
  "proposalType (proposals example_gov (Suc 0)) = Verification"
  "endTime (proposals example_gov (Suc 0)) = 605800"
  "upvotes (proposals example_gov (Suc 0)) = 50"
  "downvotes (proposals example_gov (Suc 0)) = 0"
  "totalVotingPower (proposals example_gov (Suc 0)) = 50"
  "\<not> executed (proposals example_gov (Suc 0))"
  "\<not> hasVoted (votes (proposals example_gov (Suc 0)) 3)"
  "proposals example_gov 9 = zero_proposal"
  "score (userReputations example_gov 0) = 0"
  by (simp_all add: example_gov_eq example_gov0_eq NGOGovernance_init_def zero_vote_def
      zero_reputation_def)

text \<open>
  Claim C10. For a proposal id whose record is the default value (no proposal was created
  under it) and a time after 0, \<open>executeProposal\<close> does not revert: \<open>endTime\<close> is 0 and
  \<open>executed\<close> is false, so both checks pass. The call marks the record executed and runs
  the failure path on the record's proposer, the zero address, whose score it lowers by
  10 if that score is above 10 and leaves alone otherwise. A second call on the same id
  fails with "Already executed".
\<close>

theorem C10_execute_uncreated:
  assumes "proposals g pid = zero_proposal" and "0 < now"
  shows "\<exists>g'. executeProposal g sender now pid = Inr g'
      \<and> proposals g' = (proposals g)(pid := zero_proposal\<lparr> executed := True \<rparr>)
      \<and> g' = updateReputationForFailure
              (g\<lparr> proposals := (proposals g)(pid := zero_proposal\<lparr> executed := True \<rparr>) \<rparr>) pid
      \<and> proposer (proposals g pid) = 0
      \<and> (\<forall>u. u \<noteq> 0 \<longrightarrow> userReputations g' u = userReputations g u)
      \<and> score (userReputations g' 0)
           = (if 10 < score (userReputations g 0) then score (userReputations g 0) - 10
              else score (userReputations g 0))
      \<and> (\<forall>sender2 now2. 0 < now2 \<longrightarrow>
            executeProposal g' sender2 now2 pid = Inl (Revert ''Already executed''))"
  using assms
  by (simp add: executeProposal_def updateReputationForFailure_def gov_consts Let_def
      zero_proposal_def)

text \<open>The theorem at id 9 of the example, which has one proposal, at time 5.\<close>

theorem C10_execute_uncreated_witness:
  "proposals example_gov 9 = zero_proposal \<and> (0::nat) < 5
   \<and> \<not> isl (executeProposal example_gov 4 5 9)
   \<and> executed (proposals (projr (executeProposal example_gov 4 5 9)) 9)
   \<and> executeProposal (projr (executeProposal example_gov 4 5 9)) 4 6 9
        = Inl (Revert ''Already executed'')"
proof -
  have h: "proposals example_gov 9 = zero_proposal" by (rule example_gov_eval)
  from C10_execute_uncreated[OF h, of 5 4] obtain g' where
    g': "executeProposal example_gov 4 5 9 = Inr g'"
      "proposals g' = (proposals example_gov)(9 := zero_proposal\<lparr> executed := True \<rparr>)"
      "\<forall>sender2 now2. 0 < now2 \<longrightarrow>
            executeProposal g' sender2 now2 9 = Inl (Revert ''Already executed'')"
    by auto
  from g'(3) have "executeProposal g' 4 6 9 = Inl (Revert ''Already executed'')" by simp
  with g'(1,2) h show ?thesis by simp
qed

lemma castVote_voted_fails:
  "hasVoted (votes (proposals g pid) voter) \<Longrightarrow> \<exists>e. castVote g voter now pid vt = Inl e"
  by (simp add: castVote_def castVote_internal_def Let_def)

lemma castVote_Inr_internal:
  "castVote g sender now pid vt = Inr g' \<Longrightarrow> castVote_internal g now pid vt sender = Inr g'"
  by (simp add: castVote_def split: if_splits)

text \<open>
  Claim C8, amended. \<open>castVote\<close> rejects when the caller's score is below 100
  ("Insufficient reputation"), when \<open>now > endTime\<close> ("Voting ended": the window is the
  closed interval up to and including \<open>endTime\<close>) or when the caller has already voted on
  the proposal ("Already voted"); apart from arithmetic overflow it rejects in no other
  case. An accepted vote is recorded with voting power \<open>score * 100 div 1000\<close>, which is
  added to the proposal's upvotes or downvotes, and from then on every vote of the same
  caller on the same proposal is rejected, in every later state.
\<close>

theorem C8_castVote:
  "((\<exists>g'. castVote g sender now pid vt = Inr g') \<longleftrightarrow>
      (100 \<le> score (userReputations g sender)
       \<and> now \<le> endTime (proposals g pid)
       \<and> \<not> hasVoted (votes (proposals g pid) sender)
       \<and> score (userReputations g sender) * 100 \<le> uint_max
       \<and> (if vt = Upvote then upvotes (proposals g pid) else downvotes (proposals g pid))
            + score (userReputations g sender) * 100 div 1000 \<le> uint_max
       \<and> totalVotingPower (proposals g pid)
            + score (userReputations g sender) * 100 div 1000 \<le> uint_max))
   \<and> (score (userReputations g sender) < 100 \<longrightarrow>
        castVote g sender now pid vt = Inl (Revert ''Insufficient reputation''))
   \<and> (100 \<le> score (userReputations g sender) \<and> endTime (proposals g pid) < now \<longrightarrow>
        castVote g sender now pid vt = Inl (Revert ''Voting ended''))
   \<and> (100 \<le> score (userReputations g sender) \<and> now \<le> endTime (proposals g pid)
        \<and> hasVoted (votes (proposals g pid) sender) \<longrightarrow>
        castVote g sender now pid vt = Inl (Revert ''Already voted''))
   \<and> (\<forall>g'. castVote g sender now pid vt = Inr g' \<longrightarrow>
          votes (proposals g' pid) sender =
            \<lparr> hasVoted = True, voteType = vt,
              votingPower = score (userReputations g sender) * 100 div 1000,
              reputationStake = 10 \<rparr>
        \<and> upvotes (proposals g' pid) = upvotes (proposals g pid)
            + (if vt = Upvote then score (userReputations g sender) * 100 div 1000 else 0)
        \<and> downvotes (proposals g' pid) = downvotes (proposals g pid)
            + (if vt = Upvote then 0 else score (userReputations g sender) * 100 div 1000)
        \<and> (\<forall>cs now2 vt2. \<exists>e. castVote (gov_run g' cs) sender now2 pid vt2 = Inl e))"
proof (intro conjI allI impI)
  show "(\<exists>g'. castVote g sender now pid vt = Inr g') \<longleftrightarrow>
      (100 \<le> score (userReputations g sender)
       \<and> now \<le> endTime (proposals g pid)
       \<and> \<not> hasVoted (votes (proposals g pid) sender)
       \<and> score (userReputations g sender) * 100 \<le> uint_max
       \<and> (if vt = Upvote then upvotes (proposals g pid) else downvotes (proposals g pid))
            + score (userReputations g sender) * 100 div 1000 \<le> uint_max
       \<and> totalVotingPower (proposals g pid)
            + score (userReputations g sender) * 100 div 1000 \<le> uint_max)"
  proof (cases "100 \<le> score (userReputations g sender)")
    case True
    then have "castVote g sender now pid vt = castVote_internal g now pid vt sender"
      by (simp add: castVote_def gov_consts)
    then show ?thesis
      using True castVote_internal_success[of g now pid vt sender] by (cases vt) auto
  next
    case False
    then show ?thesis by (simp add: castVote_def gov_consts)
  qed
next
  assume "score (userReputations g sender) < 100"
  then show "castVote g sender now pid vt = Inl (Revert ''Insufficient reputation'')"
    by (simp add: castVote_def gov_consts)
next
  assume "100 \<le> score (userReputations g sender) \<and> endTime (proposals g pid) < now"
  then show "castVote g sender now pid vt = Inl (Revert ''Voting ended'')"
    by (simp add: castVote_def castVote_internal_def gov_consts Let_def)
next
  assume "100 \<le> score (userReputations g sender) \<and> now \<le> endTime (proposals g pid)
        \<and> hasVoted (votes (proposals g pid) sender)"
  then show "castVote g sender now pid vt = Inl (Revert ''Already voted'')"
    by (simp add: castVote_def castVote_internal_def gov_consts Let_def)
next
  fix g' assume "castVote g sender now pid vt = Inr g'"
  then have c: "castVote_internal g now pid vt sender = Inr g'" by (rule castVote_Inr_internal)
  note e = castVote_internal_effect[OF c]
  show "votes (proposals g' pid) sender =
            \<lparr> hasVoted = True, voteType = vt,
              votingPower = score (userReputations g sender) * 100 div 1000,
              reputationStake = 10 \<rparr>"
    by (simp add: e(7))
  show "upvotes (proposals g' pid) = upvotes (proposals g pid)
            + (if vt = Upvote then score (userReputations g sender) * 100 div 1000 else 0)"
    by (rule e(8))
  show "downvotes (proposals g' pid) = downvotes (proposals g pid)
            + (if vt = Upvote then 0 else score (userReputations g sender) * 100 div 1000)"
    by (rule e(9))
  fix cs now2 vt2
  have "hasVoted (votes (proposals g' pid) sender)" by (simp add: e(7))
  then have "hasVoted (votes (proposals (gov_run g' cs) pid) sender)"
    by (rule gov_run_hasVoted)
  then show "\<exists>e. castVote (gov_run g' cs) sender now2 pid vt2 = Inl e"
    by (rule castVote_voted_fails)
qed

lemma C8_castVote_helper: "\<exists>g'. castVote example_gov 3 2000 1 Downvote = Inr g'"
  by (simp add: castVote_def castVote_internal_def calculateVotingPower_def gov_consts Let_def
      example_gov_eval uint_max_def)

text \<open>
  The theorem at the example: account 3 votes against proposal 1 at time 2000 with power
  50; its second vote is rejected.
\<close>

theorem C8_castVote_witness:
  "\<not> isl (castVote example_gov 3 2000 1 Downvote)
   \<and> downvotes (proposals (projr (castVote example_gov 3 2000 1 Downvote)) 1) = 50
   \<and> isl (castVote (projr (castVote example_gov 3 2000 1 Downvote)) 3 2001 1 Upvote)"
proof -
  note c8 = C8_castVote[of example_gov 3 2000 1 Downvote]
  from c8 obtain g' where g': "castVote example_gov 3 2000 1 Downvote = Inr g'"
    by (auto simp: example_gov_eval uint_max_def)
  from c8 g' have d: "downvotes (proposals g' 1) = 50"
    by (auto simp: example_gov_eval)
  from c8 g' have "\<exists>e. castVote (gov_run g' []) 3 2001 1 Upvote = Inl e" by blast
  then have "isl (castVote g' 3 2001 1 Upvote)" by (auto simp: gov_run_def)
  with g' d show ?thesis by simp
qed

text \<open>
  The claim as stated takes the window to be half-open, \<open>[start, end)\<close>, so that a vote
  at \<open>now = endTime\<close> finds it closed and is rejected. The code accepts that vote: in the
  example, account 3 votes at time 605800, the \<open>endTime\<close> of proposal 1.
\<close>

theorem C8_window_counterexample:
  "endTime (proposals example_gov 1) = 605800
   \<and> 100 \<le> score (userReputations example_gov 3)
   \<and> \<not> hasVoted (votes (proposals example_gov 1) 3)
   \<and> \<not> isl (castVote example_gov 3 605800 1 Downvote)"
  by (simp add: example_gov_eval castVote_def castVote_internal_def calculateVotingPower_def
      gov_consts Let_def uint_max_def)


lemma example_gov_voted_eval:
  "score (userReputations example_gov_voted 2) = 500"
  "proposer (proposals example_gov_voted (Suc 0)) = 2"
  "endTime (proposals example_gov_voted (Suc 0)) = 605800"
  "upvotes (proposals example_gov_voted (Suc 0)) = 50"
  "downvotes (proposals example_gov_voted (Suc 0)) = 50"
  "\<not> executed (proposals example_gov_voted (Suc 0))"
proof -
  obtain g' where g': "castVote example_gov 3 2000 1 Downvote = Inr g'"
    using C8_castVote_helper by blast
  then have v: "example_gov_voted = g'"
    by (simp add: example_gov_voted_def gov_run_def gov_step_def)
  note e = castVote_internal_effect[OF castVote_Inr_internal[OF g']]
  show "score (userReputations example_gov_voted 2) = 500"
    "proposer (proposals example_gov_voted (Suc 0)) = 2"
    "endTime (proposals example_gov_voted (Suc 0)) = 605800"
    "upvotes (proposals example_gov_voted (Suc 0)) = 50"
    "downvotes (proposals example_gov_voted (Suc 0)) = 50"
    "\<not> executed (proposals example_gov_voted (Suc 0))"
    using e by (simp_all add: v example_gov_eval)
qed

text \<open>
  Claim C6, amended. \<open>executeProposal\<close> has no caller check. It rejects while
  \<open>now \<le> endTime\<close> and rejects a proposal that is already executed. Otherwise it marks
  the proposal executed. The proposal passes exactly when \<open>upvotes > downvotes\<close>: then the
  proposer's score rises by 20 and the counter of successful verifications (for a
  verification proposal) or of successful challenges (for a challenge) rises by 1, short
  of arithmetic overflow. When it does not pass, the proposer's score falls by 10 if it
  is above 10 and is left as it is otherwise. After a successful call every later call
  on the same proposal fails, in every later state.
\<close>

theorem C6_executeProposal:
  "(now \<le> endTime (proposals g pid) \<longrightarrow>
      executeProposal g sender now pid = Inl (Revert ''Voting not ended''))
   \<and> (endTime (proposals g pid) < now \<and> executed (proposals g pid) \<longrightarrow>
      executeProposal g sender now pid = Inl (Revert ''Already executed''))
   \<and> (endTime (proposals g pid) < now \<and> \<not> executed (proposals g pid)
      \<and> downvotes (proposals g pid) < upvotes (proposals g pid)
      \<and> score (userReputations g (proposer (proposals g pid))) + 20 \<le> uint_max
      \<and> successfulVerifications (userReputations g (proposer (proposals g pid))) < uint_max
      \<and> successfulChallenges (userReputations g (proposer (proposals g pid))) < uint_max \<longrightarrow>
      (\<exists>g'. executeProposal g sender now pid = Inr g'
         \<and> executed (proposals g' pid)
         \<and> score (userReputations g' (proposer (proposals g pid)))
             = score (userReputations g (proposer (proposals g pid))) + 20
         \<and> successfulVerifications (userReputations g' (proposer (proposals g pid)))
             = successfulVerifications (userReputations g (proposer (proposals g pid)))
               + (if proposalType (proposals g pid) = Verification then 1 else 0)
         \<and> successfulChallenges (userReputations g' (proposer (proposals g pid)))
             = successfulChallenges (userReputations g (proposer (proposals g pid)))
               + (if proposalType (proposals g pid) = Verification then 0 else 1)))
   \<and> (endTime (proposals g pid) < now \<and> \<not> executed (proposals g pid)
      \<and> \<not> downvotes (proposals g pid) < upvotes (proposals g pid) \<longrightarrow>
      (\<exists>g'. executeProposal g sender now pid = Inr g'
         \<and> executed (proposals g' pid)
         \<and> score (userReputations g' (proposer (proposals g pid)))
             = (if 10 < score (userReputations g (proposer (proposals g pid)))
                then score (userReputations g (proposer (proposals g pid))) - 10
                else score (userReputations g (proposer (proposals g pid))))))
   \<and> (\<forall>g'. executeProposal g sender now pid = Inr g' \<longrightarrow>
          endTime (proposals g pid) < now \<and> \<not> executed (proposals g pid)
        \<and> executed (proposals g' pid)
        \<and> (\<forall>cs sender2 now2. \<exists>e. executeProposal (gov_run g' cs) sender2 now2 pid = Inl e))"
proof (intro conjI allI impI)
  assume "now \<le> endTime (proposals g pid)"
  then show "executeProposal g sender now pid = Inl (Revert ''Voting not ended'')"
    by (simp add: executeProposal_def Let_def)
next
  assume "endTime (proposals g pid) < now \<and> executed (proposals g pid)"
  then show "executeProposal g sender now pid = Inl (Revert ''Already executed'')"
    by (simp add: executeProposal_def Let_def)
next
  assume a: "endTime (proposals g pid) < now \<and> \<not> executed (proposals g pid)
      \<and> downvotes (proposals g pid) < upvotes (proposals g pid)
      \<and> score (userReputations g (proposer (proposals g pid))) + 20 \<le> uint_max
      \<and> successfulVerifications (userReputations g (proposer (proposals g pid))) < uint_max
      \<and> successfulChallenges (userReputations g (proposer (proposals g pid))) < uint_max"
  show "\<exists>g'. executeProposal g sender now pid = Inr g'
         \<and> executed (proposals g' pid)
         \<and> score (userReputations g' (proposer (proposals g pid)))
             = score (userReputations g (proposer (proposals g pid))) + 20
         \<and> successfulVerifications (userReputations g' (proposer (proposals g pid)))
             = successfulVerifications (userReputations g (proposer (proposals g pid)))
               + (if proposalType (proposals g pid) = Verification then 1 else 0)
         \<and> successfulChallenges (userReputations g' (proposer (proposals g pid)))
             = successfulChallenges (userReputations g (proposer (proposals g pid)))
               + (if proposalType (proposals g pid) = Verification then 0 else 1)"
    using a by (subst executeProposal_pass_path) simp_all
next
  assume a: "endTime (proposals g pid) < now \<and> \<not> executed (proposals g pid)
      \<and> \<not> downvotes (proposals g pid) < upvotes (proposals g pid)"
  show "\<exists>g'. executeProposal g sender now pid = Inr g'
         \<and> executed (proposals g' pid)
         \<and> score (userReputations g' (proposer (proposals g pid)))
             = (if 10 < score (userReputations g (proposer (proposals g pid)))
                then score (userReputations g (proposer (proposals g pid))) - 10
                else score (userReputations g (proposer (proposals g pid))))"
    using a by (subst executeProposal_fail_path) simp_all
next
  fix g' assume r: "executeProposal g sender now pid = Inr g'"
  note e = executeProposal_Inr[OF r]
  show "endTime (proposals g pid) < now" by (rule e(1))
  show "\<not> executed (proposals g pid)" by (rule e(2))
  show x: "executed (proposals g' pid)" by (simp add: e(3))
  fix cs sender2 now2
  from x have "executed (proposals (gov_run g' cs) pid)" by (rule gov_run_executed)
  then show "\<exists>e. executeProposal (gov_run g' cs) sender2 now2 pid = Inl e"
    by (rule executeProposal_executed)
qed

text \<open>
  The theorem at the example: proposal 1 with 50 upvotes and no downvotes passes (score of
  account 2 from 500 to 520); after the downvote of account 3 it is a tie and fails (score
  from 500 to 490).
\<close>

theorem C6_executeProposal_witness:
  "\<not> isl (executeProposal example_gov 4 605801 1)
   \<and> score (userReputations (projr (executeProposal example_gov 4 605801 1)) 2) = 520
   \<and> successfulVerifications (userReputations (projr (executeProposal example_gov 4 605801 1)) 2) = 1
   \<and> isl (executeProposal (projr (executeProposal example_gov 4 605801 1)) 4 605802 1)
   \<and> \<not> isl (executeProposal example_gov_voted 4 605801 1)
   \<and> score (userReputations (projr (executeProposal example_gov_voted 4 605801 1)) 2) = 490
   \<and> executeProposal example_gov 4 605800 1 = Inl (Revert ''Voting not ended'')"
proof -
  note p = C6_executeProposal[of 605801 example_gov 1 4]
  from p obtain g' where g': "executeProposal example_gov 4 605801 1 = Inr g'"
    "score (userReputations g' 2) = 520" "successfulVerifications (userReputations g' 2) = 1"
    by (auto simp: example_gov_eval uint_max_def)
  from p g'(1) have "\<exists>e. executeProposal (gov_run g' []) 4 605802 1 = Inl e" by blast
  then have again: "isl (executeProposal g' 4 605802 1)" by (auto simp: gov_run_def)
  note f = C6_executeProposal[of 605801 example_gov_voted 1 4]
  from f obtain g2 where g2: "executeProposal example_gov_voted 4 605801 1 = Inr g2"
    "score (userReputations g2 2) = 490"
    by (auto simp: example_gov_voted_eval)
  from C6_executeProposal[of 605800 example_gov 1 4]
  have early: "executeProposal example_gov 4 605800 1 = Inl (Revert ''Voting not ended'')"
    by (simp add: example_gov_eval)
  from g' again g2 early show ?thesis by simp
qed

lemma le_uint_max: "x \<le> 1000000000 \<Longrightarrow> x \<le> uint_max"
  by (simp add: uint_max_def)

lemma challengeNGO_fresh:
  assumes "100 \<le> score (userReputations g sender)"
    and "score (userReputations g sender) * 100 \<le> uint_max"
    and "proposalIdCounter g + 1 \<le> uint_max"
    and "now + 604800 \<le> uint_max"
    and "proposals g (proposalIdCounter g + 1) = zero_proposal"
  shows "challengeNGO g sender now ngo descr evidence =
    Inr (proposalIdCounter g + 1,
      g\<lparr> proposalIdCounter := proposalIdCounter g + 1,
         proposals := (proposals g)(proposalIdCounter g + 1 :=
           \<lparr> proposalId = proposalIdCounter g + 1, p_ngoId = ngo, proposalType = Challenge,
             proposer = sender, p_description = descr, evidenceHash = evidence,
             startTime = now, endTime = now + 604800,
             upvotes = 0, downvotes = score (userReputations g sender) * 100 div 1000,
             totalVotingPower = score (userReputations g sender) * 100 div 1000,
             executed = False,
             votes = (\<lambda>_. zero_vote)(sender := \<lparr> hasVoted = True, voteType = Downvote,
               votingPower = score (userReputations g sender) * 100 div 1000,
               reputationStake = 10 \<rparr>) \<rparr>),
         ngoChallenges := (ngoChallenges g)(ngo := ngoChallenges g ngo
           @ [proposalIdCounter g + 1]) \<rparr>)"
proof -
  have d: "score (userReputations g sender) * 100 div 1000 \<le> uint_max"
    using assms(2) by (meson div_le_dividend le_trans)
  show ?thesis
    using assms d
    by (simp add: challengeNGO_def castVote_internal_def calculateVotingPower_def
        gov_consts Let_def zero_proposal_def zero_vote_def not_less)
qed

lemma example_gov0_score: "score (userReputations example_gov0 2) = 500"
  by (simp add: example_gov0_eq)

lemma challenges_inv:
  "n \<le> 50 \<Longrightarrow>
     proposalIdCounter (gov_run example_gov0 (challenges n)) = n
   \<and> userReputations (gov_run example_gov0 (challenges n)) = userReputations example_gov0
   \<and> (\<forall>i. 0 < i \<and> i \<le> n \<longrightarrow>
         proposals (gov_run example_gov0 (challenges n)) i = example_challenge i)
   \<and> (\<forall>i>n. proposals (gov_run example_gov0 (challenges n)) i = zero_proposal)"
proof (induction n)
  case 0
  show ?case by (simp add: gov_run_def example_gov0_eq NGOGovernance_init_def)
next
  case (Suc n)
  let ?g = "gov_run example_gov0 (challenges n)"
  from Suc have ih: "proposalIdCounter ?g = n" "userReputations ?g = userReputations example_gov0"
    "\<forall>i. 0 < i \<and> i \<le> n \<longrightarrow> proposals ?g i = example_challenge i"
    "\<forall>i>n. proposals ?g i = zero_proposal" and n: "n < 50"
    by simp_all
  have sc: "score (userReputations ?g 2) = 500" by (simp only: ih(2) example_gov0_score)
  have ch: "challengeNGO ?g 2 1000 7 ''d'' ''e'' =
    Inr (Suc n, ?g\<lparr> proposalIdCounter := Suc n,
         proposals := (proposals ?g)(Suc n := example_challenge (Suc n)),
         ngoChallenges := (ngoChallenges ?g)(7 := ngoChallenges ?g 7 @ [Suc n]) \<rparr>)"
    by (subst challengeNGO_fresh)
       (use ih n in \<open>simp_all add: sc example_gov0_score le_uint_max example_challenge_def\<close>)
  have run: "gov_run example_gov0 (challenges (Suc n)) =
      ?g\<lparr> proposalIdCounter := Suc n,
         proposals := (proposals ?g)(Suc n := example_challenge (Suc n)),
         ngoChallenges := (ngoChallenges ?g)(7 := ngoChallenges ?g 7 @ [Suc n]) \<rparr>"
    by (simp add: gov_run_append gov_run_single ch)
  show ?case unfolding run using ih by simp
qed

lemma executions_inv:
  assumes g: "\<forall>i. 0 < i \<and> i \<le> 50 \<longrightarrow> proposals g i = example_challenge i"
    and s: "score (userReputations g 2) = 500"
  shows "n \<le> 49 \<Longrightarrow>
     score (userReputations (gov_run g (executions n)) 2) = 500 - 10 * n
   \<and> (\<forall>i. n < i \<and> i \<le> 50 \<longrightarrow> proposals (gov_run g (executions n)) i = example_challenge i)"
proof (induction n)
  case 0
  show ?case using g s by (simp add: gov_run_def)
next
  case (Suc n)
  let ?g = "gov_run g (executions n)"
  from Suc have ih: "score (userReputations ?g 2) = 500 - 10 * n"
    "\<forall>i. n < i \<and> i \<le> 50 \<longrightarrow> proposals ?g i = example_challenge i" and n: "n < 49"
    by simp_all
  from ih(2) n have p: "proposals ?g (Suc n) = example_challenge (Suc n)" by simp
  have ex: "executeProposal ?g 4 700000 (Suc n) =
    Inr (?g\<lparr> proposals := (proposals ?g)(Suc n := (example_challenge (Suc n))\<lparr> executed := True \<rparr>),
           userReputations := (userReputations ?g)(2 :=
                (userReputations ?g 2)\<lparr> score := 500 - 10 * n - 10 \<rparr>) \<rparr>)"
    by (subst executeProposal_fail_path)
       (use n in \<open>simp_all add: p ih(1) example_challenge_def\<close>)
  have run: "gov_run g (executions (Suc n)) =
      ?g\<lparr> proposals := (proposals ?g)(Suc n := (example_challenge (Suc n))\<lparr> executed := True \<rparr>),
           userReputations := (userReputations ?g)(2 :=
                (userReputations ?g 2)\<lparr> score := 500 - 10 * n - 10 \<rparr>) \<rparr>"
    by (simp add: gov_run_append gov_run_single ex)
  show ?case unfolding run using ih(2) by simp
qed

lemma example_gov_penalized_eval:
  "score (userReputations example_gov_penalized 2) = 10"
  "proposals example_gov_penalized 50 = example_challenge 50"
proof -
  let ?g = "gov_run example_gov0 (challenges 50)"
  from challenges_inv[of 50]
  have a: "\<forall>i. 0 < i \<and> i \<le> 50 \<longrightarrow> proposals ?g i = example_challenge i"
    and b: "score (userReputations ?g 2) = 500"
    by (simp_all add: example_gov0_score)
  from executions_inv[OF a b, of 49]
  show "score (userReputations example_gov_penalized 2) = 10"
    "proposals example_gov_penalized 50 = example_challenge 50"
    by (simp_all add: example_gov_penalized_def gov_run_append)
qed

text \<open>
  The claim as stated floors the penalty at 0: a proposer with score 10 whose proposal
  fails would end at \<open>10 - 10 = 0\<close>. The code subtracts only when the score is above 10.
  After the run \<open>challenges 50 @ executions 49\<close> from the deployed and initialized
  contract the score of account 2 is 10, and the failed execution of its 50th challenge
  leaves it at 10.
\<close>

theorem C6_floor_counterexample:
  "score (userReputations example_gov_penalized 2) = 10
   \<and> proposer (proposals example_gov_penalized 50) = 2
   \<and> \<not> downvotes (proposals example_gov_penalized 50) < upvotes (proposals example_gov_penalized 50)
   \<and> \<not> isl (executeProposal example_gov_penalized 4 700000 50)
   \<and> score (userReputations (projr (executeProposal example_gov_penalized 4 700000 50)) 2) = 10
   \<and> score (userReputations (projr (executeProposal example_gov_penalized 4 700000 50)) 2)
        \<noteq> score (userReputations example_gov_penalized 2) - 10"
  by (simp add: example_gov_penalized_eval example_challenge_def executeProposal_fail_path)

lemma passing_round:
  assumes c: "proposalIdCounter g = n"
    and sc: "score (userReputations g 2) = 500 + 20 * n"
    and sv: "successfulVerifications (userReputations g 2) = n"
    and sch: "successfulChallenges (userReputations g 2) = 0"
    and nv: "\<forall>k>n. ngoVerificationProposals g k = 0"
    and np: "\<forall>k>n. proposals g k = zero_proposal"
    and n: "n < 100"
  shows "proposalIdCounter (gov_run g [(2, 1000, CreateVerificationProposal (Suc n) ''d'' ''e''),
            (4, 700000, ExecuteProposal (Suc n))]) = Suc n
    \<and> score (userReputations (gov_run g [(2, 1000, CreateVerificationProposal (Suc n) ''d'' ''e''),
            (4, 700000, ExecuteProposal (Suc n))]) 2) = 500 + 20 * Suc n
    \<and> successfulVerifications (userReputations (gov_run g
           [(2, 1000, CreateVerificationProposal (Suc n) ''d'' ''e''),
            (4, 700000, ExecuteProposal (Suc n))]) 2) = Suc n
    \<and> successfulChallenges (userReputations (gov_run g
           [(2, 1000, CreateVerificationProposal (Suc n) ''d'' ''e''),
            (4, 700000, ExecuteProposal (Suc n))]) 2) = 0
    \<and> (\<forall>k>Suc n. ngoVerificationProposals (gov_run g
           [(2, 1000, CreateVerificationProposal (Suc n) ''d'' ''e''),
            (4, 700000, ExecuteProposal (Suc n))]) k = 0)
    \<and> (\<forall>k>Suc n. proposals (gov_run g
           [(2, 1000, CreateVerificationProposal (Suc n) ''d'' ''e''),
            (4, 700000, ExecuteProposal (Suc n))]) k = zero_proposal)"
proof -
  define g1 where "g1 = g\<lparr> proposalIdCounter := proposalIdCounter g + 1,
         proposals := (proposals g)(proposalIdCounter g + 1 :=
           \<lparr> proposalId = proposalIdCounter g + 1, p_ngoId = Suc n, proposalType = Verification,
             proposer = 2, p_description = ''d'', evidenceHash = ''e'',
             startTime = 1000, endTime = 1000 + 604800,
             upvotes = score (userReputations g 2) * 100 div 1000, downvotes = 0,
             totalVotingPower = score (userReputations g 2) * 100 div 1000,
             executed = False,
             votes = (\<lambda>_. zero_vote)(2 := \<lparr> hasVoted = True, voteType = Upvote,
               votingPower = score (userReputations g 2) * 100 div 1000,
               reputationStake = 10 \<rparr>) \<rparr>),
         ngoVerificationProposals := (ngoVerificationProposals g)(Suc n := proposalIdCounter g + 1) \<rparr>"
  have cr: "createVerificationProposal g 2 1000 (Suc n) ''d'' ''e'' = Inr (proposalIdCounter g + 1, g1)"
    unfolding g1_def
  proof (rule createVerificationProposal_fresh)
    show "ngoVerificationProposals g (Suc n) = 0" using nv by simp
    show "100 \<le> score (userReputations g 2)" using sc by simp
    show "score (userReputations g 2) * 100 \<le> uint_max" using sc n by (intro le_uint_max) simp
    show "proposalIdCounter g + 1 \<le> uint_max" using c n by (intro le_uint_max) simp
    show "1000 + 604800 \<le> uint_max" by (intro le_uint_max) simp
    show "proposals g (proposalIdCounter g + 1) = zero_proposal" using np c by simp
  qed
  have up: "0 < score (userReputations g 2) * 100 div 1000" using sc by simp
  have g1p: "proposals g1 (Suc n) =
           \<lparr> proposalId = Suc n, p_ngoId = Suc n, proposalType = Verification,
             proposer = 2, p_description = ''d'', evidenceHash = ''e'',
             startTime = 1000, endTime = 605800,
             upvotes = score (userReputations g 2) * 100 div 1000, downvotes = 0,
             totalVotingPower = score (userReputations g 2) * 100 div 1000,
             executed = False,
             votes = (\<lambda>_. zero_vote)(2 := \<lparr> hasVoted = True, voteType = Upvote,
               votingPower = score (userReputations g 2) * 100 div 1000,
               reputationStake = 10 \<rparr>) \<rparr>"
    and g1r: "userReputations g1 = userReputations g"
    by (simp_all add: g1_def c)
  define g2 where "g2 = g1\<lparr> proposals := (proposals g1)(Suc n := (proposals g1 (Suc n))\<lparr> executed := True \<rparr>),
           userReputations := (userReputations g1)(proposer (proposals g1 (Suc n)) :=
              (userReputations g1 (proposer (proposals g1 (Suc n))))
                \<lparr> score := score (userReputations g1 (proposer (proposals g1 (Suc n)))) + 20,
                  successfulVerifications :=
                    successfulVerifications (userReputations g1 (proposer (proposals g1 (Suc n))))
                      + (if proposalType (proposals g1 (Suc n)) = Verification then 1 else 0),
                  successfulChallenges :=
                    successfulChallenges (userReputations g1 (proposer (proposals g1 (Suc n))))
                      + (if proposalType (proposals g1 (Suc n)) = Verification then 0 else 1) \<rparr>) \<rparr>"
  have ex: "executeProposal g1 4 700000 (Suc n) = Inr g2"
    unfolding g2_def
  proof (rule executeProposal_pass_path)
    show "endTime (proposals g1 (Suc n)) < 700000" by (simp add: g1p)
    show "\<not> executed (proposals g1 (Suc n))" by (simp add: g1p)
    show "downvotes (proposals g1 (Suc n)) < upvotes (proposals g1 (Suc n))"
      using up by (simp add: g1p)
    show "score (userReputations g1 (proposer (proposals g1 (Suc n)))) + 20 \<le> uint_max"
      using sc n by (intro le_uint_max) (simp add: g1p g1r)
    show "successfulVerifications (userReputations g1 (proposer (proposals g1 (Suc n)))) < uint_max"
      using sv n le_uint_max[of "Suc n"] by (simp add: g1p g1r)
    show "successfulChallenges (userReputations g1 (proposer (proposals g1 (Suc n)))) < uint_max"
      using sch le_uint_max[of 1] by (simp add: g1p g1r)
  qed
  have run: "gov_run g [(2, 1000, CreateVerificationProposal (Suc n) ''d'' ''e''),
            (4, 700000, ExecuteProposal (Suc n))] = g2"
    by (simp add: gov_run_def gov_step_def cr ex)
  have "proposalIdCounter g2 = Suc n" by (simp add: g2_def g1_def c)
  moreover have "score (userReputations g2 2) = 500 + 20 * Suc n"
    by (simp add: g2_def g1p g1r sc)
  moreover have "successfulVerifications (userReputations g2 2) = Suc n"
    by (simp add: g2_def g1p g1r sv)
  moreover have "successfulChallenges (userReputations g2 2) = 0"
    by (simp add: g2_def g1p g1r sch)
  moreover have "\<forall>k>Suc n. ngoVerificationProposals g2 k = 0"
    using nv by (simp add: g2_def g1_def)
  moreover have "\<forall>k>Suc n. proposals g2 k = zero_proposal"
    using np by (simp add: g2_def g1_def c)
  ultimately show ?thesis unfolding run by blast
qed

lemma passing_rounds_inv:
  "n \<le> 100 \<Longrightarrow>
     proposalIdCounter (gov_run example_gov0 (passing_rounds n)) = n
   \<and> score (userReputations (gov_run example_gov0 (passing_rounds n)) 2) = 500 + 20 * n
   \<and> successfulVerifications (userReputations (gov_run example_gov0 (passing_rounds n)) 2) = n
   \<and> successfulChallenges (userReputations (gov_run example_gov0 (passing_rounds n)) 2) = 0
   \<and> (\<forall>k>n. ngoVerificationProposals (gov_run example_gov0 (passing_rounds n)) k = 0)
   \<and> (\<forall>k>n. proposals (gov_run example_gov0 (passing_rounds n)) k = zero_proposal)"
proof (induction n)
  case 0
  show ?case
    by (simp add: gov_run_def example_gov0_eq NGOGovernance_init_def)
next
  case (Suc n)
  then have ih: "proposalIdCounter (gov_run example_gov0 (passing_rounds n)) = n"
    "score (userReputations (gov_run example_gov0 (passing_rounds n)) 2) = 500 + 20 * n"
    "successfulVerifications (userReputations (gov_run example_gov0 (passing_rounds n)) 2) = n"
    "successfulChallenges (userReputations (gov_run example_gov0 (passing_rounds n)) 2) = 0"
    "\<forall>k>n. ngoVerificationProposals (gov_run example_gov0 (passing_rounds n)) k = 0"
    "\<forall>k>n. proposals (gov_run example_gov0 (passing_rounds n)) k = zero_proposal"
    and n: "n < 100"
    by simp_all
  show ?case
    unfolding passing_rounds.simps gov_run_append by (rule passing_round[OF ih n])
qed

text \<open>
  Claim C7, amended. The score of a user is a natural number, 0 before initialization.
  A successful transaction leaves it as it is, with three exceptions:
  \<open>initializeReputation\<close> takes a score of 0 to 500; the execution of a proposal that
  passes adds 20 to the proposer's score; the execution of a proposal that fails takes 10
  from the proposer's score if that score is above 10. Vote casting and proposal creation
  never change a score. No transaction caps the score at 1000.
\<close>

theorem C7_score_changes:
  "score (userReputations (NGOGovernance_init deployer) u) = 0
   \<and> (gov_call g sender now op = Inr g' \<longrightarrow>
        score (userReputations g' u) =
          (case op of
             InitializeReputation user \<Rightarrow>
               (if u = user then 500 else score (userReputations g u))
           | ExecuteProposal pid \<Rightarrow>
               (if u = proposer (proposals g pid)
                then (if downvotes (proposals g pid) < upvotes (proposals g pid)
                      then score (userReputations g u) + 20
                      else if 10 < score (userReputations g u)
                        then score (userReputations g u) - 10
                        else score (userReputations g u))
                else score (userReputations g u))
           | _ \<Rightarrow> score (userReputations g u))
      \<and> (op = InitializeReputation u \<longrightarrow> score (userReputations g u) = 0))"
proof (intro conjI impI)
  show "score (userReputations (NGOGovernance_init deployer) u) = 0"
    by (simp add: NGOGovernance_init_def zero_reputation_def)
next
  assume a: "gov_call g sender now op = Inr g'"
  show "score (userReputations g' u) =
          (case op of
             InitializeReputation user \<Rightarrow>
               (if u = user then 500 else score (userReputations g u))
           | ExecuteProposal pid \<Rightarrow>
               (if u = proposer (proposals g pid)
                then (if downvotes (proposals g pid) < upvotes (proposals g pid)
                      then score (userReputations g u) + 20
                      else if 10 < score (userReputations g u)
                        then score (userReputations g u) - 10
                        else score (userReputations g u))
                else score (userReputations g u))
           | _ \<Rightarrow> score (userReputations g u))"
  proof (cases op)
    case (CreateVerificationProposal ngo descr evidence)
    with a obtain pid where
      "createVerificationProposal g sender now ngo descr evidence = Inr (pid, g')"
      by (auto split: sum.splits)
    from createVerificationProposal_frame(1)[OF this] show ?thesis
      using CreateVerificationProposal by simp
  next
    case (ChallengeNGO ngo descr evidence)
    with a obtain pid where "challengeNGO g sender now ngo descr evidence = Inr (pid, g')"
      by (auto split: sum.splits)
    from challengeNGO_frame(1)[OF this] show ?thesis using ChallengeNGO by simp
  next
    case (CastVote pid vt)
    with a have "castVote_internal g now pid vt sender = Inr g'"
      by (simp add: castVote_Inr_internal)
    from castVote_internal_effect(1)[OF this] show ?thesis using CastVote by simp
  next
    case (ExecuteProposal pid)
    with a have "executeProposal g sender now pid = Inr g'" by simp
    from executeProposal_Inr(4)[OF this, of u] show ?thesis using ExecuteProposal by simp
  next
    case (InitializeReputation user)
    with a have "initializeReputation g sender now user = Inr g'" by simp
    from initializeReputation_Inr(3)[OF this, of u] show ?thesis
      using InitializeReputation by simp
  next
    case (UpdateNgoRegistry r)
    with a show ?thesis by (auto simp: updateNgoRegistry_def split: if_splits)
  next
    case (GovSetRoles r)
    with a show ?thesis by auto
  qed
next
  assume "gov_call g sender now op = Inr g'" and "op = InitializeReputation u"
  then have "initializeReputation g sender now u = Inr g'" by simp
  then show "score (userReputations g u) = 0" by (rule initializeReputation_Inr(2))
qed

text \<open>
  The theorem at the execution of proposal 1 of the example (passed: 500 to 520) and at
  the initialization of account 5 (0 to 500).
\<close>

theorem C7_score_changes_witness:
  "\<not> isl (gov_call example_gov 4 605801 (ExecuteProposal 1))
   \<and> score (userReputations example_gov 2) = 500
   \<and> score (userReputations (projr (gov_call example_gov 4 605801 (ExecuteProposal 1))) 2) = 520
   \<and> score (userReputations (projr (gov_call example_gov 4 605801 (ExecuteProposal 1))) 3) = 500"
proof -
  have "\<exists>g'. executeProposal example_gov 4 605801 1 = Inr g'"
    using executeProposal_pass_path[of example_gov 1 605801 4]
    by (simp add: example_gov_eval uint_max_def)
  then obtain g' where g': "gov_call example_gov 4 605801 (ExecuteProposal 1) = Inr g'"
    by auto
  from C7_score_changes[where u = 2 and g = example_gov and sender = 4 and now = 605801
      and op = "ExecuteProposal 1" and g' = g'] g'
  have "score (userReputations g' 2) = 520"
    by (auto simp: example_gov_eval)
  moreover from C7_score_changes[where u = 3 and g = example_gov and sender = 4 and now = 605801
      and op = "ExecuteProposal 1" and g' = g'] g'
  have "score (userReputations g' 3) = 500"
    by (auto simp: example_gov_eval)
  ultimately show ?thesis using g' by (simp add: example_gov_eval)
qed

text \<open>
  The claim as stated bounds the score by 1000 in every reachable state. From the
  deployed contract, after the initialization of account 2, 26 proposals of account 2
  that pass take its score from 500 to 1020.
\<close>

theorem C7_bound_counterexample:
  "\<not> score (userReputations (gov_run (gov_run (NGOGovernance_init 1)
         [(1, 900, GovSetRoles gov_example_roles), (1, 900, InitializeReputation 2),
          (1, 900, InitializeReputation 3)]) (passing_rounds 26)) 2) \<le> 1000"
proof -
  have "score (userReputations (gov_run example_gov0 (passing_rounds 26)) 2) = 500 + 20 * 26"
    using passing_rounds_inv[of 26] by simp
  then show ?thesis by (simp add: example_gov0_def)
qed

section \<open>NGORegistry: suspension through governance\<close>

lemma example_registry_eq:
  "example_registry = \<lparr> ngoIdCounter = 1,
     addressToNgoId = (\<lambda>_. 0)(10 := 1),
     ngos = (\<lambda>_. zero_ngo)(1 :=
       \<lparr> ngoId = 1, ngoAddress = 10, name = ''Test NGO'', registrationNumber = ''REG123'',
         country = ''USA'', category = ''Health'', kycDocumentHash = ''QmTestHash'',
         registeredAt = 500, verifiedAt = 600, ngo_status = Verified,
         reputationScore = 500, totalCampaigns = 0, totalFundsRaised = 0,
         ngo_totalBeneficiaries = 0, isActive = True \<rparr>),
     ngoActivityLogs = (\<lambda>_. [])(1 := [''NGO registered'', ''NGO verified by verifier'']),
     verifiedCount = 1,
     adminVerificationFrozen = False,
     reg_hasRole = (\<lambda>r a. a = 1 \<and> r \<in> {DEFAULT_ADMIN_ROLE, ADMIN_ROLE, VERIFIER_ROLE}),
     reg_paused = False \<rparr>"
  by (simp add: example_registry_def registerNGO_def verifyNGO_def logActivity_def
      NGORegistry_init_def zero_ngo_def uint_max_def Let_def)

lemma example_registry_eval:
  "ngoId (ngos example_registry (Suc 0)) = 1"
  "ngoAddress (ngos example_registry (Suc 0)) = 10"
  "ngo_status (ngos example_registry (Suc 0)) = Verified"
  "isActive (ngos example_registry (Suc 0))"
  "addressToNgoId example_registry 10 = 1"
  "reg_hasRole example_registry ADMIN_ROLE 3 = False"
  "reg_hasRole example_registry VERIFIER_ROLE 3 = False"
  by (simp_all add: example_registry_eq)

lemma example_registry_verified: "isNGOVerified example_registry 10"
  by (simp add: isNGOVerified_def example_registry_eval)

text \<open>
  Claim C5: the code at a failing input. NGO 1 of the example registry is verified and
  account 3 has the governance score 500, above the required 200, yet
  \<open>suspendNGOThroughGovernance\<close> rejects its call with "Insufficient reputation": the
  value it compares with 200 is the second component of the getter's result,
  \<open>totalProposals\<close>, which is 0.
\<close>

theorem C5_suspend_reads_totalProposals:
  "ngo_status (ngos example_registry 1) = Verified
   \<and> score (userReputations example_gov 3) = 500
   \<and> totalProposals (userReputations example_gov 3) = 0
   \<and> suspendNGOThroughGovernance example_registry example_gov 3 1 ''fraud''
        = Inl (Revert ''Insufficient reputation'')"
  by (simp add: suspendNGOThroughGovernance_def userReputations_getter_def
      example_registry_eval example_gov_eval Let_def
      example_gov_eq example_gov0_eq NGOGovernance_init_def)


text \<open>
  What the function checks, in general: the call succeeds exactly when the NGO exists and
  is verified, the caller's \<open>totalProposals\<close> is at least 200, and the caller may write
  to the activity log. No transaction of the governance contract writes \<open>totalProposals\<close>
  other than to 0, so with the governance contract in any state reached from its
  deployment the call fails for every caller.
\<close>

lemma suspendNGOThroughGovernance_success_iff:
  "(\<exists>r'. suspendNGOThroughGovernance r g sender nid reason = Inr r') \<longleftrightarrow>
     (ngoId (ngos r nid) \<noteq> 0 \<and> ngo_status (ngos r nid) = Verified
      \<and> 200 \<le> totalProposals (userReputations g sender)
      \<and> (reg_hasRole r ADMIN_ROLE sender \<or> reg_hasRole r VERIFIER_ROLE sender
          \<or> ngoAddress (ngos r nid) = sender))"
  by (auto simp: suspendNGOThroughGovernance_def userReputations_getter_def logActivity_def
      Let_def)

lemma executeProposal_totalProposals:
  assumes "executeProposal g sender now pid = Inr g'"
  shows "totalProposals (userReputations g' u) = totalProposals (userReputations g u)"
proof (cases "downvotes (proposals g pid) < upvotes (proposals g pid)")
  case True
  with assms executeProposal_Inr(1,2)[OF assms] show ?thesis
    by (auto simp: executeProposal_def updateReputationForSuccess_def gov_consts Let_def
        voters_loop_id split: if_splits)
next
  case False
  with assms executeProposal_Inr(1,2)[OF assms] show ?thesis
    by (auto simp: executeProposal_fail_path split: if_splits)
qed

lemma gov_call_totalProposals:
  assumes "gov_call g sender now op = Inr g'"
    and "totalProposals (userReputations g u) = 0"
  shows "totalProposals (userReputations g' u) = 0"
proof (cases op)
  case (CreateVerificationProposal ngo descr evidence)
  with assms(1) obtain pid where
    "createVerificationProposal g sender now ngo descr evidence = Inr (pid, g')"
    by (auto split: sum.splits)
  from createVerificationProposal_frame(1)[OF this] assms(2) show ?thesis by simp
next
  case (ChallengeNGO ngo descr evidence)
  with assms(1) obtain pid where "challengeNGO g sender now ngo descr evidence = Inr (pid, g')"
    by (auto split: sum.splits)
  from challengeNGO_frame(1)[OF this] assms(2) show ?thesis by simp
next
  case (CastVote pid vt)
  with assms(1) have "castVote_internal g now pid vt sender = Inr g'"
    by (simp add: castVote_Inr_internal)
  from castVote_internal_effect(1)[OF this] assms(2) show ?thesis by simp
next
  case (ExecuteProposal pid)
  with assms(1) have "executeProposal g sender now pid = Inr g'" by simp
  from executeProposal_totalProposals[OF this, of u] assms(2) show ?thesis by simp
next
  case (InitializeReputation user)
  with assms show ?thesis by (auto simp: initializeReputation_def split: if_splits)
next
  case (UpdateNgoRegistry a)
  with assms show ?thesis by (auto simp: updateNgoRegistry_def split: if_splits)
next
  case (GovSetRoles roles)
  with assms show ?thesis by auto
qed

lemma gov_run_totalProposals:
  "totalProposals (userReputations g u) = 0
    \<Longrightarrow> totalProposals (userReputations (gov_run g cs) u) = 0"
  unfolding gov_run_def
proof (induction cs arbitrary: g)
  case Nil
  then show ?case by simp
next
  case (Cons c cs)
  obtain sender now op where c: "c = (sender, now, op)" by (cases c) auto
  have "totalProposals (userReputations (gov_step g c) u) = 0"
    using Cons.prems gov_call_totalProposals[of g sender now op _ u]
    by (auto simp: gov_step_def c split: sum.splits)
  from Cons.IH[OF this] show ?case by simp
qed

lemma suspendNGOThroughGovernance_never:
  "isl (suspendNGOThroughGovernance r (gov_run (NGOGovernance_init deployer) cs) sender nid reason)"
proof -
  have "totalProposals (userReputations (gov_run (NGOGovernance_init deployer) cs) sender) = 0"
    by (rule gov_run_totalProposals) (simp add: NGOGovernance_init_def zero_reputation_def)
  with suspendNGOThroughGovernance_success_iff[of r "gov_run (NGOGovernance_init deployer) cs"
      sender nid reason]
  show ?thesis by (cases "suspendNGOThroughGovernance r (gov_run (NGOGovernance_init deployer) cs)
      sender nid reason") auto
qed

section \<open>CampaignFactory: escrow, issuance and release\<close>

lemma example_ledger_eq:
  "example_ledger = \<lparr> factory = (CampaignFactory_init 1 100 50)\<lparr> campaignIdCounter := 1,
       campaigns := (\<lambda>_. zero_campaign)(1 :=
         \<lparr> c_campaignId = 1, c_ngoAddress = 10, c_ngoId = 1, title = ''Save Children'',
           c_description = ''Help'', c_category = ''Health'', targetAmount = 1000000,
           raisedAmount = 100000, startDate = 1000, endDate = 6000, c_status = CActive,
           totalDonors = 1, totalBeneficiaries = 0, documentsHash = ''QmDocHash'',
           hasMilestones = False, createdAt = 1000 \<rparr>),
       campaignDonors := (\<lambda>_. [])(1 := [20]),
       campaignDonations := (\<lambda>_ _. 0)(1 := (\<lambda>_. 0)(20 := 100000)),
       campaignFunds := (\<lambda>_. 0)(1 := 100000),
       balance := 100000 \<rparr>,
     token = (SoulboundToken_init 1)\<lparr> hasRole := ledger_token_roles \<rparr> \<rparr>"
  by (simp add: example_ledger_def ledger_run_def ledger_step_def ledger_init_def
      createCampaign_def donate_def lift_factory_def example_registry_verified
      example_registry_eval CampaignFactory_init_def zero_campaign_def uint_max_def Let_def)

lemma example_ledger_eval:
  "c_campaignId (campaigns (factory example_ledger) (Suc 0)) = 1"
  "c_ngoAddress (campaigns (factory example_ledger) (Suc 0)) = 10"
  "c_status (campaigns (factory example_ledger) (Suc 0)) = CActive"
  "raisedAmount (campaigns (factory example_ledger) (Suc 0)) = 100000"
  "totalBeneficiaries (campaigns (factory example_ledger) (Suc 0)) = 0"
  "campaignFunds (factory example_ledger) (Suc 0) = 100000"
  "self (factory example_ledger) = 100"
  "balance (factory example_ledger) = 100000"
  "feeCollector (factory example_ledger) = 50"
  "platformFeePercentage (factory example_ledger) = 250"
  "cf_hasRole (factory example_ledger) ADMIN_ROLE (Suc 0)"
  "hasRole (token example_ledger) MINTER_ROLE 100"
  "hasRole (token example_ledger) ADMIN_ROLE (Suc 0)"
  "\<not> paused (token example_ledger)"
  "tokenIdCounter (token example_ledger) = 0"
  "ownerOf (token example_ledger) 0 = 0"
  "campaignTokens (token example_ledger) (Suc 0) = []"
  by (simp_all add: example_ledger_eq CampaignFactory_init_def SoulboundToken_init_def
      ledger_token_roles_def)



lemma issueBeneficiaryToken_Inr:
  assumes "issueBeneficiaryToken f t sender now accepts cid benef amount stype vp = Inr (tid, f', t')"
  shows "c_campaignId (campaigns f cid) \<noteq> 0"
    and "amount \<le> campaignFunds f cid"
    and "mintToken t (self f) now accepts benef cid amount stype vp = Inr (tid, t')"
    and "f' = f\<lparr> campaigns := (campaigns f)(cid := (campaigns f cid)
                \<lparr> totalBeneficiaries := totalBeneficiaries (campaigns f cid) + 1 \<rparr>),
             campaignFunds := (campaignFunds f)(cid := campaignFunds f cid - amount) \<rparr>"
  using assms
  by (auto simp: issueBeneficiaryToken_def Let_def split: if_splits sum.splits)




text \<open>
  No function that can run during a transfer of \<open>releaseFunds\<close> writes the escrow or the
  records of donations and donors.
\<close>

lemma reentrant_call_frame:
  assumes "reentrant_call f sender now op = Inr f'"
  shows "campaignFunds f' = campaignFunds f"
    and "campaignDonations f' = campaignDonations f"
    and "campaignDonors f' = campaignDonors f"
  using assms
  by (cases op; auto simp: createCampaign_def addMilestone_def completeMilestone_def
      pauseCampaign_def resumeCampaign_def updateCampaignStatus_def updatePlatformFee_def
      updateFeeCollector_def cf_pause_def cf_unpause_def receive_def Let_def
      split: if_splits sum.splits)+

lemma reentrant_step_frame:
  "campaignFunds (reentrant_step now f c) = campaignFunds f
   \<and> campaignDonations (reentrant_step now f c) = campaignDonations f
   \<and> campaignDonors (reentrant_step now f c) = campaignDonors f"
proof (cases c)
  case (Pair sender op)
  show ?thesis
  proof (cases "reentrant_call f sender now op")
    case (Inl e)
    then show ?thesis using Pair by (simp add: reentrant_step_def)
  next
    case (Inr f')
    from reentrant_call_frame[OF Inr] show ?thesis using Pair Inr
      by (simp add: reentrant_step_def)
  qed
qed

lemma reenter_frame:
  "campaignFunds (reenter f now cs) = campaignFunds f
   \<and> campaignDonations (reenter f now cs) = campaignDonations f
   \<and> campaignDonors (reenter f now cs) = campaignDonors f"
  unfolding reenter_def
  by (induction cs arbitrary: f) (simp_all add: reentrant_step_frame)

lemma pay_frame:
  "campaignFunds (pay f to v) = campaignFunds f
   \<and> campaignDonations (pay f to v) = campaignDonations f
   \<and> campaignDonors (pay f to v) = campaignDonors f"
  by (simp add: pay_def)

lemma call_with_value_Some:
  assumes "call_with_value f log0 now callee to v = Some (f', log')"
  shows "\<exists>cs. v \<le> balance f \<and> f' = reenter (pay f to v) now cs
     \<and> (to = self f \<longrightarrow> cs = [])
     \<and> (to \<noteq> self f \<longrightarrow> callee to (pay f to v) v = (True, cs))
     \<and> log' = log0 @ [Transfer to v] @ map (\<lambda>c. Reentered (fst c) (snd c)) cs"
  using assms
  by (auto simp: call_with_value_def Let_def split: if_splits prod.splits)

lemma releaseFunds_Inr:
  assumes "releaseFunds f sender now callee cid recipient amount = Inr (f', out)"
  shows "\<exists>cs1 cs2.
      f' = reenter (pay (reenter (pay f (feeCollector f)
              (amount * platformFeePercentage f div 10000)) now cs1) recipient
              (amount - amount * platformFeePercentage f div 10000)) now cs2
    \<and> out = [LockAcquired, Transfer (feeCollector f) (amount * platformFeePercentage f div 10000)]
          @ map (\<lambda>c. Reentered (fst c) (snd c)) cs1
          @ [Transfer recipient (amount - amount * platformFeePercentage f div 10000)]
          @ map (\<lambda>c. Reentered (fst c) (snd c)) cs2
          @ [FundsReleased cid (amount - amount * platformFeePercentage f div 10000) recipient,
             LockReleased]"
proof -
  let ?fee = "amount * platformFeePercentage f div 10000"
  from assms obtain f1 log1 log2 where
    c1: "call_with_value f [LockAcquired] now callee (feeCollector f) ?fee = Some (f1, log1)"
    and c2: "call_with_value f1 log1 now callee recipient (amount - ?fee) = Some (f', log2)"
    and o: "out = log2 @ [FundsReleased cid (amount - ?fee) recipient, LockReleased]"
    by (auto simp: releaseFunds_def Let_def split: if_splits option.splits prod.splits)
  from call_with_value_Some[OF c1] obtain cs1 where
    1: "f1 = reenter (pay f (feeCollector f) ?fee) now cs1"
       "log1 = [LockAcquired] @ [Transfer (feeCollector f) ?fee]
          @ map (\<lambda>c. Reentered (fst c) (snd c)) cs1" by blast
  from call_with_value_Some[OF c2] obtain cs2 where
    2: "f' = reenter (pay f1 recipient (amount - ?fee)) now cs2"
       "log2 = log1 @ [Transfer recipient (amount - ?fee)]
          @ map (\<lambda>c. Reentered (fst c) (snd c)) cs2" by blast
  show ?thesis
    by (rule exI[of _ cs1], rule exI[of _ cs2]) (simp add: 1 2 o)
qed


text \<open>
  The functions that can run during a transfer leave the raised amounts of the campaigns
  created so far, and never lower the id counter.
\<close>

lemma reentrant_call_raised:
  assumes "reentrant_call f sender now op = Inr f'"
  shows "campaignIdCounter f \<le> campaignIdCounter f'"
    and "c \<le> campaignIdCounter f \<Longrightarrow>
           raisedAmount (campaigns f' c) = raisedAmount (campaigns f c)"
  using assms
  by (cases op; auto simp: createCampaign_def addMilestone_def completeMilestone_def
      pauseCampaign_def resumeCampaign_def updateCampaignStatus_def updatePlatformFee_def
      updateFeeCollector_def cf_pause_def cf_unpause_def receive_def Let_def
      split: if_splits sum.splits)+

lemma reentrant_step_raised:
  "campaignIdCounter f \<le> campaignIdCounter (reentrant_step now f c)
   \<and> (\<forall>i \<le> campaignIdCounter f.
        raisedAmount (campaigns (reentrant_step now f c) i) = raisedAmount (campaigns f i))"
proof (cases c)
  case (Pair sender op)
  show ?thesis
  proof (cases "reentrant_call f sender now op")
    case (Inl e)
    then show ?thesis using Pair by (simp add: reentrant_step_def)
  next
    case (Inr f')
    from reentrant_call_raised[OF Inr] show ?thesis using Pair Inr
      by (simp add: reentrant_step_def)
  qed
qed

lemma reenter_raised:
  "campaignIdCounter f \<le> campaignIdCounter (reenter f now cs)
   \<and> (\<forall>i \<le> campaignIdCounter f.
        raisedAmount (campaigns (reenter f now cs) i) = raisedAmount (campaigns f i))"
  unfolding reenter_def
proof (induction cs arbitrary: f)
  case Nil
  show ?case by simp
next
  case (Cons c cs)
  note s = reentrant_step_raised[of f now c]
  note r = Cons.IH[of "reentrant_step now f c"]
  from s r show ?case by (auto intro: order_trans)
qed

lemma pay_raised:
  "campaignIdCounter (pay f to v) = campaignIdCounter f
   \<and> campaigns (pay f to v) = campaigns f"
  by (simp add: pay_def)

lemma releaseFunds_raised:
  assumes a: "releaseFunds f sender now callee cid recipient amount = Inr (f', out)"
    and c: "c \<le> campaignIdCounter f"
  shows "raisedAmount (campaigns f' c) = raisedAmount (campaigns f c)"
proof -
  let ?fee = "amount * platformFeePercentage f div 10000"
  from releaseFunds_Inr[OF a] obtain cs1 cs2 where
    f': "f' = reenter (pay (reenter (pay f (feeCollector f) ?fee) now cs1) recipient
              (amount - ?fee)) now cs2" by blast
  let ?g = "pay f (feeCollector f) ?fee"
  let ?h = "pay (reenter ?g now cs1) recipient (amount - ?fee)"
  have 1: "c \<le> campaignIdCounter ?g" using c by (simp add: pay_raised)
  have 2: "raisedAmount (campaigns (reenter ?g now cs1) c) = raisedAmount (campaigns f c)"
    using reenter_raised[of ?g now cs1] 1 by (simp add: pay_raised)
  have 3: "c \<le> campaignIdCounter ?h"
    using reenter_raised[of ?g now cs1] 1 by (simp add: pay_raised)
  have "raisedAmount (campaigns (reenter ?h now cs2) c) = raisedAmount (campaigns ?h c)"
    using reenter_raised[of ?h now cs2] 3 by blast
  with 2 show ?thesis by (simp add: f' pay_raised)
qed

lemma releaseFunds_frame:
  assumes a: "releaseFunds f sender now callee cid recipient amount = Inr (f', out)"
  shows "campaignFunds f' = campaignFunds f"
    and "campaignDonations f' = campaignDonations f"
    and "campaignDonors f' = campaignDonors f"
proof -
  from releaseFunds_Inr[OF a] obtain cs1 cs2 where
    f': "f' = reenter (pay (reenter (pay f (feeCollector f)
              (amount * platformFeePercentage f div 10000)) now cs1) recipient
              (amount - amount * platformFeePercentage f div 10000)) now cs2" by blast
  show "campaignFunds f' = campaignFunds f"
    and "campaignDonations f' = campaignDonations f"
    and "campaignDonors f' = campaignDonors f"
    by (simp_all add: f' reenter_frame pay_frame)
qed

text \<open>
  Claim C4, amended. \<open>releaseFunds\<close> decrements nothing. A successful call leaves the
  escrow of every campaign, the recorded donations and donors, and the raised amount of
  every campaign created so far as they were, whatever the code at the paid addresses
  does. The state after the call is the state before it, with the fee
  \<open>amount * platformFeePercentage div 10000\<close> gone to the fee collector, then changed by the
  calls that re-entered the factory during that transfer, then with the rest gone to the
  recipient, then changed by the calls that re-entered during that transfer. The only
  storage that \<open>releaseFunds\<close> itself writes is the lock, taken before the fee transfer and
  released after the transfer to the recipient and the event.
\<close>

theorem C4_releaseFunds:
  "releaseFunds f sender now callee cid recipient amount = Inr (f', out) \<longrightarrow>
     campaignFunds f' = campaignFunds f
   \<and> campaignDonations f' = campaignDonations f
   \<and> campaignDonors f' = campaignDonors f
   \<and> (c \<le> campaignIdCounter f \<longrightarrow>
        raisedAmount (campaigns f' c) = raisedAmount (campaigns f c))
   \<and> (\<exists>cs1 cs2.
        f' = reenter (pay (reenter (pay f (feeCollector f)
                (amount * platformFeePercentage f div 10000)) now cs1) recipient
                (amount - amount * platformFeePercentage f div 10000)) now cs2
      \<and> out = [LockAcquired,
               Transfer (feeCollector f) (amount * platformFeePercentage f div 10000)]
            @ map (\<lambda>c. Reentered (fst c) (snd c)) cs1
            @ [Transfer recipient (amount - amount * platformFeePercentage f div 10000)]
            @ map (\<lambda>c. Reentered (fst c) (snd c)) cs2
            @ [FundsReleased cid (amount - amount * platformFeePercentage f div 10000)
                 recipient,
               LockReleased])"
proof
  assume a: "releaseFunds f sender now callee cid recipient amount = Inr (f', out)"
  note fr = releaseFunds_frame[OF a]
  note ra = releaseFunds_raised[OF a]
  note ex = releaseFunds_Inr[OF a]
  show "campaignFunds f' = campaignFunds f
   \<and> campaignDonations f' = campaignDonations f
   \<and> campaignDonors f' = campaignDonors f
   \<and> (c \<le> campaignIdCounter f \<longrightarrow>
        raisedAmount (campaigns f' c) = raisedAmount (campaigns f c))
   \<and> (\<exists>cs1 cs2.
        f' = reenter (pay (reenter (pay f (feeCollector f)
                (amount * platformFeePercentage f div 10000)) now cs1) recipient
                (amount - amount * platformFeePercentage f div 10000)) now cs2
      \<and> out = [LockAcquired,
               Transfer (feeCollector f) (amount * platformFeePercentage f div 10000)]
            @ map (\<lambda>c. Reentered (fst c) (snd c)) cs1
            @ [Transfer recipient (amount - amount * platformFeePercentage f div 10000)]
            @ map (\<lambda>c. Reentered (fst c) (snd c)) cs2
            @ [FundsReleased cid (amount - amount * platformFeePercentage f div 10000)
                 recipient,
               LockReleased])"
    using fr ra ex by blast
qed

lemma example_ledger_counter: "campaignIdCounter (factory example_ledger) = Suc 0"
  by (simp add: example_ledger_eq)

lemma example_release_pausing:
  "releaseFunds (factory example_ledger) 1 1200 pausing_owner 1 10 40000 =
     Inr (updateCampaignStatus ((factory example_ledger)\<lparr> balance := 60000 \<rparr>) 1 CPaused,
          [LockAcquired, Transfer 50 1000, Transfer 10 39000, Reentered 10 (RePauseCampaign 1),
           FundsReleased 1 39000 10, LockReleased])"
  by (simp add: releaseFunds_def call_with_value_def pay_def reenter_def reentrant_step_def
      pauseCampaign_def updateCampaignStatus_def Let_def example_ledger_eval pausing_owner_def
      uint_max_def)

lemma example_release:
  "releaseFunds (factory example_ledger) 1 1200 accept_all 1 30 40000 =
     Inr ((factory example_ledger)\<lparr> balance := 60000 \<rparr>,
          [LockAcquired, Transfer 50 1000, Transfer 30 39000, FundsReleased 1 39000 30,
           LockReleased])"
  by (simp add: releaseFunds_def call_with_value_def pay_def reenter_def Let_def
      example_ledger_eval accept_all_def uint_max_def)

text \<open>
  The theorem at the example: the administrator releases 40000 of campaign 1 to account
  10, the owner of the campaign, with the fee 1000 to the collector 50. The code at
  account 10 pauses the campaign when it is paid. The release succeeds, funds and raised
  amount of campaign 1 are as before, and the campaign, active before, is paused.
\<close>

theorem C4_releaseFunds_witness:
  "releaseFunds (factory example_ledger) 1 1200 pausing_owner 1 10 40000 =
     Inr (updateCampaignStatus ((factory example_ledger)\<lparr> balance := 60000 \<rparr>) 1 CPaused,
          [LockAcquired, Transfer 50 1000, Transfer 10 39000, Reentered 10 (RePauseCampaign 1),
           FundsReleased 1 39000 10, LockReleased])
   \<and> (1::nat) \<le> campaignIdCounter (factory example_ledger)
   \<and> campaignFunds (updateCampaignStatus ((factory example_ledger)\<lparr> balance := 60000 \<rparr>) 1
        CPaused) = campaignFunds (factory example_ledger)
   \<and> raisedAmount (campaigns (updateCampaignStatus
        ((factory example_ledger)\<lparr> balance := 60000 \<rparr>) 1 CPaused) 1)
       = raisedAmount (campaigns (factory example_ledger) 1)
   \<and> c_status (campaigns (factory example_ledger) 1) = CActive
   \<and> c_status (campaigns (updateCampaignStatus
        ((factory example_ledger)\<lparr> balance := 60000 \<rparr>) 1 CPaused) 1) = CPaused"
  using C4_releaseFunds[of "factory example_ledger" 1 1200 pausing_owner 1 10 40000
      "updateCampaignStatus ((factory example_ledger)\<lparr> balance := 60000 \<rparr>) 1 CPaused"
      "[LockAcquired, Transfer 50 1000, Transfer 10 39000, Reentered 10 (RePauseCampaign 1),
        FundsReleased 1 39000 10, LockReleased]" 1]
    example_release_pausing example_ledger_counter
  by (simp add: example_ledger_eval updateCampaignStatus_def)

text \<open>
  The claim as stated has \<open>releaseFunds\<close> decrement the campaign's reserved or escrow
  state by the released amount. In the example the release of 40000 to account 30 succeeds
  and leaves the funds of campaign 1 at 100000 and its raised amount at 100000.
\<close>

theorem C4_no_decrement_counterexample:
  "\<not> isl (releaseFunds (factory example_ledger) 1 1200 accept_all 1 30 40000)
   \<and> campaignFunds (factory example_ledger) 1 = 100000
   \<and> campaignFunds (fst (projr (releaseFunds (factory example_ledger) 1 1200 accept_all
        1 30 40000))) 1 = 100000
   \<and> raisedAmount (campaigns (fst (projr (releaseFunds (factory example_ledger) 1 1200
        accept_all 1 30 40000))) 1) = 100000
   \<and> balance (fst (projr (releaseFunds (factory example_ledger) 1 1200 accept_all
        1 30 40000))) = 60000"
  using example_release by (simp add: example_ledger_eval)

lemma createCampaign_Inr:
  assumes "createCampaign f r sender now ttl descr cat target duration docs = Inr (cid, f')"
  shows "cid = Suc (campaignIdCounter f)"
    and "campaignIdCounter f' = Suc (campaignIdCounter f)"
    and "campaignFunds f' = campaignFunds f"
    and "c \<noteq> Suc (campaignIdCounter f) \<Longrightarrow> campaigns f' c = campaigns f c"
    and "raisedAmount (campaigns f' (Suc (campaignIdCounter f))) = 0"
    and "c_campaignId (campaigns f' (Suc (campaignIdCounter f))) = Suc (campaignIdCounter f)"
  using assms
  by (auto simp: createCampaign_def Let_def split: if_splits)

lemma donate_Inr:
  assumes "donate f sender now v cid = Inr f'"
  shows "c_campaignId (campaigns f cid) \<noteq> 0"
    and "campaignIdCounter f' = campaignIdCounter f"
    and "campaignFunds f' = (campaignFunds f)(cid := campaignFunds f cid + v)"
    and "c \<noteq> cid \<Longrightarrow> campaigns f' c = campaigns f c"
    and "raisedAmount (campaigns f' cid) = raisedAmount (campaigns f cid) + v"
    and "c_campaignId (campaigns f' cid) = c_campaignId (campaigns f cid)"
  using assms
  by (auto simp: donate_def Let_def split: if_splits)

text \<open>The other functions of the factory leave funds, raised amounts, ids and the counter.\<close>

lemma addMilestone_frame:
  assumes "addMilestone f sender cid descr target dl = Inr f'"
  shows "campaignIdCounter f' = campaignIdCounter f \<and> campaignFunds f' = campaignFunds f
    \<and> raisedAmount (campaigns f' c) = raisedAmount (campaigns f c)
    \<and> c_campaignId (campaigns f' c) = c_campaignId (campaigns f c)"
  using assms by (auto simp: addMilestone_def Let_def split: if_splits)

lemma completeMilestone_frame:
  assumes "completeMilestone f sender now cid idx prf = Inr f'"
  shows "campaignIdCounter f' = campaignIdCounter f \<and> campaignFunds f' = campaignFunds f
    \<and> raisedAmount (campaigns f' c) = raisedAmount (campaigns f c)
    \<and> c_campaignId (campaigns f' c) = c_campaignId (campaigns f c)"
  using assms by (auto simp: completeMilestone_def Let_def split: if_splits)

lemma pauseCampaign_frame:
  assumes "pauseCampaign f sender cid = Inr f'"
  shows "campaignIdCounter f' = campaignIdCounter f \<and> campaignFunds f' = campaignFunds f
    \<and> raisedAmount (campaigns f' c) = raisedAmount (campaigns f c)
    \<and> c_campaignId (campaigns f' c) = c_campaignId (campaigns f c)"
  using assms by (auto simp: pauseCampaign_def updateCampaignStatus_def Let_def split: if_splits)

lemma resumeCampaign_frame:
  assumes "resumeCampaign f sender cid = Inr f'"
  shows "campaignIdCounter f' = campaignIdCounter f \<and> campaignFunds f' = campaignFunds f
    \<and> raisedAmount (campaigns f' c) = raisedAmount (campaigns f c)
    \<and> c_campaignId (campaigns f' c) = c_campaignId (campaigns f c)"
  using assms by (auto simp: resumeCampaign_def updateCampaignStatus_def Let_def split: if_splits)

lemma updatePlatformFee_frame:
  assumes "updatePlatformFee f sender fee = Inr f'"
  shows "campaignIdCounter f' = campaignIdCounter f \<and> campaignFunds f' = campaignFunds f
    \<and> raisedAmount (campaigns f' c) = raisedAmount (campaigns f c)
    \<and> c_campaignId (campaigns f' c) = c_campaignId (campaigns f c)"
  using assms by (auto simp: updatePlatformFee_def Let_def split: if_splits)

lemma updateFeeCollector_frame:
  assumes "updateFeeCollector f sender a = Inr f'"
  shows "campaignIdCounter f' = campaignIdCounter f \<and> campaignFunds f' = campaignFunds f
    \<and> raisedAmount (campaigns f' c) = raisedAmount (campaigns f c)
    \<and> c_campaignId (campaigns f' c) = c_campaignId (campaigns f c)"
  using assms by (auto simp: updateFeeCollector_def Let_def split: if_splits)

lemma cf_pause_frame:
  assumes "cf_pause f sender = Inr f'"
  shows "campaignIdCounter f' = campaignIdCounter f \<and> campaignFunds f' = campaignFunds f
    \<and> raisedAmount (campaigns f' c) = raisedAmount (campaigns f c)
    \<and> c_campaignId (campaigns f' c) = c_campaignId (campaigns f c)"
  using assms by (auto simp: cf_pause_def Let_def split: if_splits)

lemma cf_unpause_frame:
  assumes "cf_unpause f sender = Inr f'"
  shows "campaignIdCounter f' = campaignIdCounter f \<and> campaignFunds f' = campaignFunds f
    \<and> raisedAmount (campaigns f' c) = raisedAmount (campaigns f c)
    \<and> c_campaignId (campaigns f' c) = c_campaignId (campaigns f c)"
  using assms by (auto simp: cf_unpause_def Let_def split: if_splits)

lemma escrow_inv_exists:
  assumes "escrow_inv l k" and "c_campaignId (campaigns (factory l) cid) \<noteq> 0"
  shows "cid \<le> campaignIdCounter (factory l)"
proof (rule ccontr)
  assume "\<not> cid \<le> campaignIdCounter (factory l)"
  then have "campaignIdCounter (factory l) < cid" by simp
  with assms(1) have "c_campaignId (campaigns (factory l) cid) = 0"
    unfolding escrow_inv_def by blast
  with assms(2) show False by simp
qed

lemma escrow_inv_same:
  assumes "escrow_inv l k"
    and "\<And>c. campaignIdCounter (factory l') = campaignIdCounter (factory l)
        \<and> campaignFunds (factory l') = campaignFunds (factory l)
        \<and> raisedAmount (campaigns (factory l') c) = raisedAmount (campaigns (factory l) c)
        \<and> c_campaignId (campaigns (factory l') c) = c_campaignId (campaigns (factory l) c)"
  shows "escrow_inv l' k"
  using assms unfolding escrow_inv_def by simp

text \<open>The invariant under the calls that re-enter the factory during a release.\<close>

lemma escrow_inv_createCampaign:
  assumes inv: "escrow_inv l k"
    and cr: "createCampaign (factory l) r sender now ttl descr cat target duration docs
               = Inr (cid, f')"
  shows "escrow_inv (l\<lparr> factory := f' \<rparr>) k"
proof -
  note e = createCampaign_Inr[OF cr]
  show ?thesis
    unfolding escrow_inv_def
  proof (intro conjI allI impI)
    fix c
    show "campaignFunds (factory (l\<lparr> factory := f' \<rparr>)) c + k c
        = raisedAmount (campaigns (factory (l\<lparr> factory := f' \<rparr>)) c)"
    proof (cases "c = Suc (campaignIdCounter (factory l))")
      case True
      with inv have "campaignFunds (factory l) c = 0" "k c = 0"
        unfolding escrow_inv_def by simp_all
      with True show ?thesis by (simp add: e(3,5))
    next
      case False
      with inv show ?thesis unfolding escrow_inv_def by (simp add: e(3,4))
    qed
  next
    fix c assume "campaignIdCounter (factory (l\<lparr> factory := f' \<rparr>)) < c"
    then have c: "Suc (campaignIdCounter (factory l)) < c" by (simp add: e(2))
    with inv show "c_campaignId (campaigns (factory (l\<lparr> factory := f' \<rparr>)) c) = 0"
      and "campaignFunds (factory (l\<lparr> factory := f' \<rparr>)) c = 0" and "k c = 0"
      unfolding escrow_inv_def by (simp_all add: e(3,4))
  qed
qed

lemma escrow_inv_reentrant_call:
  assumes inv: "escrow_inv l k"
    and rc: "reentrant_call (factory l) sender now op = Inr f'"
  shows "escrow_inv (l\<lparr> factory := f' \<rparr>) k"
proof (cases op)
  case (ReCreateCampaign r ttl descr cat target duration docs)
  with rc obtain cid where
    "createCampaign (factory l) r sender now ttl descr cat target duration docs = Inr (cid, f')"
    by (auto split: sum.splits)
  with inv show ?thesis by (rule escrow_inv_createCampaign)
next
  case (ReAddMilestone cid descr target dl)
  with rc have c: "addMilestone (factory l) sender cid descr target dl = Inr f'" by simp
  show ?thesis using inv by (rule escrow_inv_same) (simp add: addMilestone_frame[OF c])
next
  case (ReCompleteMilestone cid idx evidence)
  with rc have c: "completeMilestone (factory l) sender now cid idx evidence = Inr f'" by simp
  show ?thesis using inv by (rule escrow_inv_same) (simp add: completeMilestone_frame[OF c])
next
  case (RePauseCampaign cid)
  with rc have c: "pauseCampaign (factory l) sender cid = Inr f'" by simp
  show ?thesis using inv by (rule escrow_inv_same) (simp add: pauseCampaign_frame[OF c])
next
  case (ReResumeCampaign cid)
  with rc have c: "resumeCampaign (factory l) sender cid = Inr f'" by simp
  show ?thesis using inv by (rule escrow_inv_same) (simp add: resumeCampaign_frame[OF c])
next
  case (ReUpdatePlatformFee fee)
  with rc have c: "updatePlatformFee (factory l) sender fee = Inr f'" by simp
  show ?thesis using inv by (rule escrow_inv_same) (simp add: updatePlatformFee_frame[OF c])
next
  case (ReUpdateFeeCollector a)
  with rc have c: "updateFeeCollector (factory l) sender a = Inr f'" by simp
  show ?thesis using inv by (rule escrow_inv_same) (simp add: updateFeeCollector_frame[OF c])
next
  case RePause
  with rc have c: "cf_pause (factory l) sender = Inr f'" by simp
  show ?thesis using inv by (rule escrow_inv_same) (simp add: cf_pause_frame[OF c])
next
  case ReUnpause
  with rc have c: "cf_unpause (factory l) sender = Inr f'" by simp
  show ?thesis using inv by (rule escrow_inv_same) (simp add: cf_unpause_frame[OF c])
next
  case (ReReceive v)
  with rc have c: "f' = receive (factory l) v" by simp
  show ?thesis using inv by (rule escrow_inv_same) (simp add: c receive_def)
next
  case (ReSetRoles r)
  with rc have c: "f' = (factory l)\<lparr> cf_hasRole := r \<rparr>" by simp
  show ?thesis using inv by (rule escrow_inv_same) (simp add: c)
next
  case ReGuarded
  with rc show ?thesis by simp
qed

lemma escrow_inv_reentrant_step:
  assumes inv: "escrow_inv l k"
  shows "escrow_inv (l\<lparr> factory := reentrant_step now (factory l) c \<rparr>) k"
proof (cases c)
  case (Pair sender op)
  show ?thesis
  proof (cases "reentrant_call (factory l) sender now op")
    case (Inl e)
    then show ?thesis using inv Pair by (simp add: reentrant_step_def)
  next
    case (Inr f')
    from escrow_inv_reentrant_call[OF inv Inr] show ?thesis using Pair Inr
      by (simp add: reentrant_step_def)
  qed
qed

lemma escrow_inv_reenter:
  "escrow_inv l k \<Longrightarrow> escrow_inv (l\<lparr> factory := reenter (factory l) now cs \<rparr>) k"
proof (induction cs arbitrary: l)
  case Nil
  then show ?case by (simp add: reenter_def)
next
  case (Cons c cs)
  from Cons.IH[OF escrow_inv_reentrant_step[OF Cons.prems, of now c]]
  show ?case by (simp add: reenter_def)
qed

lemma escrow_inv_pay:
  assumes inv: "escrow_inv l k"
  shows "escrow_inv (l\<lparr> factory := pay (factory l) to v \<rparr>) k"
  using inv by (rule escrow_inv_same) (simp add: pay_def)

lemma escrow_inv_releaseFunds:
  assumes inv: "escrow_inv l k"
    and a: "releaseFunds (factory l) sender now callee cid recipient amount = Inr (f', out)"
  shows "escrow_inv (l\<lparr> factory := f' \<rparr>) k"
proof -
  let ?fee = "amount * platformFeePercentage (factory l) div 10000"
  from releaseFunds_Inr[OF a] obtain cs1 cs2 where
    f': "f' = reenter (pay (reenter (pay (factory l) (feeCollector (factory l)) ?fee) now cs1)
              recipient (amount - ?fee)) now cs2" by blast
  from escrow_inv_pay[OF inv, of "feeCollector (factory l)" ?fee]
  have 1: "escrow_inv (l\<lparr> factory := pay (factory l) (feeCollector (factory l)) ?fee \<rparr>) k" .
  from escrow_inv_reenter[OF 1, of now cs1]
  have 2: "escrow_inv (l\<lparr> factory :=
      reenter (pay (factory l) (feeCollector (factory l)) ?fee) now cs1 \<rparr>) k" by simp
  from escrow_inv_pay[OF 2, of recipient "amount - ?fee"]
  have 3: "escrow_inv (l\<lparr> factory := pay (reenter (pay (factory l) (feeCollector (factory l))
      ?fee) now cs1) recipient (amount - ?fee) \<rparr>) k" by simp
  from escrow_inv_reenter[OF 3, of now cs2]
  show ?thesis by (simp add: f')
qed

lemma escrow_inv_factory_call:
  assumes inv: "escrow_inv l k"
  shows "escrow_inv (ledger_step l (sender, now, OnFactory op))
           (\<lambda>cid. k cid + reserved_by l (sender, now, OnFactory op) cid)"
proof (cases op)
  case (CreateCampaign r ttl descr cat target duration docs)
  show ?thesis
  proof (cases "createCampaign (factory l) r sender now ttl descr cat target duration docs")
    case (Inl e)
    then show ?thesis using inv CreateCampaign by (simp add: ledger_step_def)
  next
    case (Inr p)
    obtain cid f' where p: "p = (cid, f')" by (cases p) auto
    have st: "ledger_step l (sender, now, OnFactory op) = l\<lparr> factory := f' \<rparr>"
      using CreateCampaign Inr p by (simp add: ledger_step_def)
    have "escrow_inv (l\<lparr> factory := f' \<rparr>) k"
      using inv Inr[unfolded p] by (rule escrow_inv_createCampaign)
    then show ?thesis using CreateCampaign st by simp
  qed
next
  case (Donate v cid)
  show ?thesis
  proof (cases "donate (factory l) sender now v cid")
    case (Inl e)
    then show ?thesis using inv Donate by (simp add: ledger_step_def lift_factory_def)
  next
    case (Inr f')
    note e = donate_Inr[OF Inr]
    have st: "ledger_step l (sender, now, OnFactory op) = l\<lparr> factory := f' \<rparr>"
      using Donate Inr by (simp add: ledger_step_def lift_factory_def)
    from inv e(1) have le: "cid \<le> campaignIdCounter (factory l)"
      by (rule escrow_inv_exists)
    have "escrow_inv (l\<lparr> factory := f' \<rparr>) k"
      unfolding escrow_inv_def
    proof (intro conjI allI impI)
      fix c
      show "campaignFunds (factory (l\<lparr> factory := f' \<rparr>)) c + k c
          = raisedAmount (campaigns (factory (l\<lparr> factory := f' \<rparr>)) c)"
        using inv unfolding escrow_inv_def
        by (cases "c = cid") (simp_all add: e(3,4,5) add.commute add.left_commute)
    next
      fix c assume "campaignIdCounter (factory (l\<lparr> factory := f' \<rparr>)) < c"
      then have c: "campaignIdCounter (factory l) < c" "c \<noteq> cid" using le by (simp_all add: e(2))
      with inv show "c_campaignId (campaigns (factory (l\<lparr> factory := f' \<rparr>)) c) = 0"
        and "campaignFunds (factory (l\<lparr> factory := f' \<rparr>)) c = 0" and "k c = 0"
        unfolding escrow_inv_def by (simp_all add: e(3,4))
    qed
    then show ?thesis using Donate st by simp
  qed
next
  case (IssueBeneficiaryToken accepts cid benef amount stype vp)
  show ?thesis
  proof (cases "issueBeneficiaryToken (factory l) (token l) sender now accepts cid benef amount stype vp")
    case (Inl e)
    then show ?thesis using inv IssueBeneficiaryToken by (simp add: ledger_step_def)
  next
    case (Inr p)
    obtain tid f' t' where p: "p = (tid, f', t')" by (cases p) auto
    note e = issueBeneficiaryToken_Inr[OF Inr[unfolded p]]
    have st: "ledger_step l (sender, now, OnFactory op) = l\<lparr> factory := f', token := t' \<rparr>"
      using IssueBeneficiaryToken Inr p by (simp add: ledger_step_def)
    have rb: "reserved_by l (sender, now, OnFactory op) c = (if c = cid then amount else 0)" for c
      using IssueBeneficiaryToken Inr by auto
    from inv e(1) have le: "cid \<le> campaignIdCounter (factory l)"
      by (rule escrow_inv_exists)
    have "escrow_inv (l\<lparr> factory := f', token := t' \<rparr>) (\<lambda>c. k c + (if c = cid then amount else 0))"
      unfolding escrow_inv_def
    proof (intro conjI allI impI)
      fix c
      show "campaignFunds (factory (l\<lparr> factory := f', token := t' \<rparr>)) c
            + (k c + (if c = cid then amount else 0))
          = raisedAmount (campaigns (factory (l\<lparr> factory := f', token := t' \<rparr>)) c)"
      proof (cases "c = cid")
        case True
        from inv have "campaignFunds (factory l) cid + k cid
            = raisedAmount (campaigns (factory l) cid)"
          unfolding escrow_inv_def by simp
        with e(2) True show ?thesis by (simp add: e(4))
      next
        case False
        with inv show ?thesis unfolding escrow_inv_def by (simp add: e(4))
      qed
    next
      fix c assume "campaignIdCounter (factory (l\<lparr> factory := f', token := t' \<rparr>)) < c"
      then have c: "campaignIdCounter (factory l) < c" "c \<noteq> cid" using le by (simp_all add: e(4))
      with inv show "c_campaignId (campaigns (factory (l\<lparr> factory := f', token := t' \<rparr>)) c) = 0"
        and "campaignFunds (factory (l\<lparr> factory := f', token := t' \<rparr>)) c = 0"
        and "k c + (if c = cid then amount else 0) = 0"
        unfolding escrow_inv_def by (simp_all add: e(4))
    qed
    then show ?thesis by (simp add: st rb)
  qed
next
  case (ReleaseFunds callee cid recipient amount)
  show ?thesis
  proof (cases "releaseFunds (factory l) sender now callee cid recipient amount")
    case (Inl e)
    then show ?thesis using inv ReleaseFunds by (simp add: ledger_step_def)
  next
    case (Inr p)
    obtain f' out where p: "p = (f', out)" by (cases p) auto
    have st: "ledger_step l (sender, now, OnFactory op) = l\<lparr> factory := f' \<rparr>"
      using ReleaseFunds Inr p by (simp add: ledger_step_def)
    have "escrow_inv (l\<lparr> factory := f' \<rparr>) k"
      using inv Inr[unfolded p] by (rule escrow_inv_releaseFunds)
    then show ?thesis using ReleaseFunds st by simp
  qed
next
  case (AddMilestone cid descr target dl)
  show ?thesis
  proof (cases "addMilestone (factory l) sender cid descr target dl")
    case (Inl e)
    then show ?thesis using inv AddMilestone by (simp add: ledger_step_def lift_factory_def)
  next
    case (Inr f')
    have "escrow_inv (l\<lparr> factory := f' \<rparr>) k"
      using inv by (rule escrow_inv_same) (simp add: addMilestone_frame[OF Inr])
    then show ?thesis using AddMilestone Inr by (simp add: ledger_step_def lift_factory_def)
  qed
next
  case (CompleteMilestone cid idx evidence)
  show ?thesis
  proof (cases "completeMilestone (factory l) sender now cid idx evidence")
    case (Inl e)
    then show ?thesis using inv CompleteMilestone by (simp add: ledger_step_def lift_factory_def)
  next
    case (Inr f')
    have "escrow_inv (l\<lparr> factory := f' \<rparr>) k"
      using inv by (rule escrow_inv_same) (simp add: completeMilestone_frame[OF Inr])
    then show ?thesis using CompleteMilestone Inr by (simp add: ledger_step_def lift_factory_def)
  qed
next
  case (PauseCampaign cid)
  show ?thesis
  proof (cases "pauseCampaign (factory l) sender cid")
    case (Inl e)
    then show ?thesis using inv PauseCampaign by (simp add: ledger_step_def lift_factory_def)
  next
    case (Inr f')
    have "escrow_inv (l\<lparr> factory := f' \<rparr>) k"
      using inv by (rule escrow_inv_same) (simp add: pauseCampaign_frame[OF Inr])
    then show ?thesis using PauseCampaign Inr by (simp add: ledger_step_def lift_factory_def)
  qed
next
  case (ResumeCampaign cid)
  show ?thesis
  proof (cases "resumeCampaign (factory l) sender cid")
    case (Inl e)
    then show ?thesis using inv ResumeCampaign by (simp add: ledger_step_def lift_factory_def)
  next
    case (Inr f')
    have "escrow_inv (l\<lparr> factory := f' \<rparr>) k"
      using inv by (rule escrow_inv_same) (simp add: resumeCampaign_frame[OF Inr])
    then show ?thesis using ResumeCampaign Inr by (simp add: ledger_step_def lift_factory_def)
  qed
next
  case (UpdatePlatformFee fee)
  show ?thesis
  proof (cases "updatePlatformFee (factory l) sender fee")
    case (Inl e)
    then show ?thesis using inv UpdatePlatformFee by (simp add: ledger_step_def lift_factory_def)
  next
    case (Inr f')
    have "escrow_inv (l\<lparr> factory := f' \<rparr>) k"
      using inv by (rule escrow_inv_same) (simp add: updatePlatformFee_frame[OF Inr])
    then show ?thesis using UpdatePlatformFee Inr by (simp add: ledger_step_def lift_factory_def)
  qed
next
  case (UpdateFeeCollector a)
  show ?thesis
  proof (cases "updateFeeCollector (factory l) sender a")
    case (Inl e)
    then show ?thesis using inv UpdateFeeCollector by (simp add: ledger_step_def lift_factory_def)
  next
    case (Inr f')
    have "escrow_inv (l\<lparr> factory := f' \<rparr>) k"
      using inv by (rule escrow_inv_same) (simp add: updateFeeCollector_frame[OF Inr])
    then show ?thesis using UpdateFeeCollector Inr by (simp add: ledger_step_def lift_factory_def)
  qed
next
  case FactoryPause
  show ?thesis
  proof (cases "cf_pause (factory l) sender")
    case (Inl e)
    then show ?thesis using inv FactoryPause by (simp add: ledger_step_def lift_factory_def)
  next
    case (Inr f')
    have "escrow_inv (l\<lparr> factory := f' \<rparr>) k"
      using inv by (rule escrow_inv_same) (simp add: cf_pause_frame[OF Inr])
    then show ?thesis using FactoryPause Inr by (simp add: ledger_step_def lift_factory_def)
  qed
next
  case FactoryUnpause
  show ?thesis
  proof (cases "cf_unpause (factory l) sender")
    case (Inl e)
    then show ?thesis using inv FactoryUnpause by (simp add: ledger_step_def lift_factory_def)
  next
    case (Inr f')
    have "escrow_inv (l\<lparr> factory := f' \<rparr>) k"
      using inv by (rule escrow_inv_same) (simp add: cf_unpause_frame[OF Inr])
    then show ?thesis using FactoryUnpause Inr by (simp add: ledger_step_def lift_factory_def)
  qed
next
  case (Receive v)
  have "escrow_inv (l\<lparr> factory := receive (factory l) v \<rparr>) k"
    using inv by (rule escrow_inv_same) (simp add: receive_def)
  then show ?thesis using Receive by (simp add: ledger_step_def)
next
  case (FactorySetRoles r)
  have "escrow_inv (l\<lparr> factory := (factory l)\<lparr> cf_hasRole := r \<rparr> \<rparr>) k"
    using inv by (rule escrow_inv_same) simp
  then show ?thesis using FactorySetRoles by (simp add: ledger_step_def)
qed

lemma ledger_step_token_factory:
  "factory (ledger_step l (sender, now, OnToken op)) = factory l"
  by (simp add: ledger_step_def split: sum.splits)

lemma escrow_inv_step:
  assumes "escrow_inv l k"
  shows "escrow_inv (ledger_step l c) (\<lambda>cid. k cid + reserved_by l c cid)"
proof -
  obtain sender now op where c: "c = (sender, now, op)" by (cases c) auto
  show ?thesis
  proof (cases op)
    case (OnFactory fop)
    with escrow_inv_factory_call[OF assms] c show ?thesis by simp
  next
    case (OnToken top)
    have "escrow_inv (ledger_step l (sender, now, OnToken top)) k"
      using assms by (rule escrow_inv_same) (simp add: ledger_step_token_factory)
    with c OnToken show ?thesis by simp
  qed
qed

lemma escrow_inv_run:
  "escrow_inv l k \<Longrightarrow> escrow_inv (ledger_run l cs) (\<lambda>cid. k cid + issued l cs cid)"
proof (induction cs arbitrary: l k)
  case Nil
  then show ?case by (simp add: ledger_run_def)
next
  case (Cons c cs)
  from escrow_inv_step[OF Cons.prems]
  have "escrow_inv (ledger_step l c) (\<lambda>cid. k cid + reserved_by l c cid)" .
  from Cons.IH[OF this] show ?case
    by (simp add: ledger_run_def add.assoc)
qed

lemma escrow_inv_init: "escrow_inv (ledger_init deployer this collector) (\<lambda>_. 0)"
  by (simp add: escrow_inv_def ledger_init_def CampaignFactory_init_def zero_campaign_def)


lemma ledger_run_append: "ledger_run l (xs @ ys) = ledger_run (ledger_run l xs) ys"
  by (simp add: ledger_run_def)

lemma example_calls_run:
  "ledger_run (ledger_init 1 100 50) example_calls = example_ledger"
  "ledger_run (ledger_init 1 100 50) example_calls_revoked = example_ledger_revoked"
  by (simp_all only: example_calls_revoked_def ledger_run_append example_calls_def
      example_ledger_def example_ledger_revoked_def)

lemmas example_calls_run_Suc = example_calls_run[unfolded One_nat_def]

lemma example_issue:
  "issueBeneficiaryToken (factory example_ledger) (token example_ledger) 10 1200 True 1 5 40000
     ''Eye Surgery'' 500 =
   Inr (0,
     (factory example_ledger)\<lparr> campaigns := (campaigns (factory example_ledger))(1 :=
          (campaigns (factory example_ledger) 1)\<lparr> totalBeneficiaries := 1 \<rparr>),
        campaignFunds := (campaignFunds (factory example_ledger))(1 := 60000) \<rparr>,
     (token example_ledger)\<lparr> tokenIdCounter := 1,
        ownerOf := (ownerOf (token example_ledger))(0 := 5),
        tokenMetadata := (tokenMetadata (token example_ledger))(0 :=
          \<lparr> tokenId = 0, beneficiary = 5, campaignId = 1, entitledAmount = 40000,
            serviceType = ''Eye Surgery'', issuedAt = 1200, expiryDate = 1700,
            isRedeemed = False, redeemedBy = 0, redeemedAt = 0, proofOfServiceHash = [],
            status = Active \<rparr>),
        beneficiaryTokens := (beneficiaryTokens (token example_ledger))(5 :=
          beneficiaryTokens (token example_ledger) 5 @ [0]),
        campaignTokens := (campaignTokens (token example_ledger))(1 := [0]) \<rparr>)"
  by (simp add: issueBeneficiaryToken_def mintToken_def Let_def example_ledger_eval uint_max_def)

lemma example_ledger_revoked_eval:
  "campaignFunds (factory example_ledger_revoked) (Suc 0) = 60000"
  "raisedAmount (campaigns (factory example_ledger_revoked) (Suc 0)) = 100000"
  "campaignTokens (token example_ledger_revoked) (Suc 0) = [0]"
  "entitledAmount (tokenMetadata (token example_ledger_revoked) 0) = 40000"
  "status (tokenMetadata (token example_ledger_revoked) 0) = Revoked"
  using example_issue
  by (simp_all add: example_ledger_revoked_def ledger_run_def ledger_step_def revokeToken_def
      Let_def example_ledger_eval)

text \<open>
  Claim C3, amended. In every state that a run of transactions leads to from the deployed
  ledger, the funds of each campaign equal its raised amount minus the sum of the
  entitled amounts of all tokens that \<open>issueBeneficiaryToken\<close> has issued against it,
  revoked or not; the subtraction never goes below 0. Revoking a token changes nothing in
  the factory: the entitled amount is not returned to the campaign's funds.
\<close>

theorem C3_escrow_accounting:
  "campaignFunds (factory (ledger_run (ledger_init deployer this collector) cs)) cid
     = raisedAmount (campaigns (factory (ledger_run (ledger_init deployer this collector) cs)) cid)
       - issued (ledger_init deployer this collector) cs cid
   \<and> issued (ledger_init deployer this collector) cs cid
     \<le> raisedAmount (campaigns (factory (ledger_run (ledger_init deployer this collector) cs)) cid)
   \<and> factory (ledger_step l (sender, now, OnToken (RevokeToken tid reason))) = factory l"
proof -
  have "escrow_inv (ledger_run (ledger_init deployer this collector) cs)
          (\<lambda>cid. 0 + issued (ledger_init deployer this collector) cs cid)"
    using escrow_inv_init by (rule escrow_inv_run)
  then have "campaignFunds (factory (ledger_run (ledger_init deployer this collector) cs)) cid
      + issued (ledger_init deployer this collector) cs cid
     = raisedAmount (campaigns (factory (ledger_run (ledger_init deployer this collector) cs)) cid)"
    unfolding escrow_inv_def by simp
  then show ?thesis by (auto simp: ledger_step_token_factory)
qed

text \<open>
  The theorem at the run of the second example: of the 100000 raised for campaign 1,
  40000 were issued, and after the revocation of the token the funds are still 60000.
\<close>

theorem C3_escrow_accounting_witness:
  "campaignFunds (factory (ledger_run (ledger_init 1 100 50) example_calls_revoked)) 1 = 60000
   \<and> raisedAmount (campaigns (factory (ledger_run (ledger_init 1 100 50) example_calls_revoked)) 1)
       = 100000
   \<and> issued (ledger_init 1 100 50) example_calls_revoked 1 = 40000"
proof -
  from C3_escrow_accounting[where deployer = 1 and this = 100 and collector = 50
      and cs = example_calls_revoked and cid = 1 and l = example_ledger and sender = 1
      and now = 1300 and tid = 0 and reason = "''emergency''"]
  have "(60000::nat) = 100000 - issued (ledger_init 1 100 50) example_calls_revoked 1"
    and "issued (ledger_init 1 100 50) example_calls_revoked 1 \<le> 100000"
    by (simp_all add: example_calls_run_Suc example_ledger_revoked_eval)
  then have "issued (ledger_init 1 100 50) example_calls_revoked 1 = 40000" by arith
  then show ?thesis by (simp add: example_calls_run_Suc example_ledger_revoked_eval)
qed

text \<open>
  The claim as stated subtracts the entitled amounts of the tokens that are not revoked.
  In the second example the only token of campaign 1 is revoked, so that sum is 0 and the
  claimed funds are the whole raised amount, 100000; the funds are 60000.
\<close>

theorem C3_revocation_counterexample:
  "example_ledger_revoked = ledger_run (ledger_init 1 100 50) example_calls_revoked
   \<and> campaignFunds (factory example_ledger_revoked) 1 = 60000
   \<and> raisedAmount (campaigns (factory example_ledger_revoked) 1) = 100000
   \<and> campaignTokens (token example_ledger_revoked) 1 = [0]
   \<and> status (tokenMetadata (token example_ledger_revoked) 0) = Revoked
   \<and> entitled_not_revoked (token example_ledger_revoked) 1 = 0
   \<and> campaignFunds (factory example_ledger_revoked) 1
        \<noteq> raisedAmount (campaigns (factory example_ledger_revoked) 1)
            - entitled_not_revoked (token example_ledger_revoked) 1"
  by (simp add: example_calls_run_Suc example_ledger_revoked_eval entitled_not_revoked_def)

end
